theory Spec2Isabelle
  imports Complex_Main "HOL-Library.AList" "HOL-Library.Multiset"
begin

section \<open>JavaScript values read from record files\<close>

text \<open>
  The agent communication manager keeps one JSON file per agent and per message.
  Every read is \<^verbatim>\<open>JSON.parse(content)\<close> with a TypeScript annotation
  (\<^verbatim>\<open>const agent: AgentInfo = JSON.parse(content)\<close>) that performs no check at run
  time, so the value the code works on is whatever JSON value the file holds.  The model
  therefore keeps parsed file contents as JSON values.  Numbers are the integer-valued
  ones of magnitude below \<open>2^53\<close> (exactly representable; their \<^verbatim>\<open>ToString\<close>
  is the decimal numeral).  \<open>None\<close> of type \<open>jsval\<close> is JavaScript's
  \<^verbatim>\<open>undefined\<close>.
\<close>

datatype json =
    JNull
  | JBool bool
  | JNum int
  | JStr string
  | JArr "json list"
  | JObj "(string \<times> json) list"

type_synonym jsval = "json option"

text \<open>
  Exceptions are values.  \<open>message\<close> is the \<^verbatim>\<open>error.message\<close> text that the
  code splices into its result strings; for the errors raised by the engine and by the
  file system the exact wording is platform specific and a representative text stands for
  it.  \<open>ExecError\<close> carries the message of a rejected \<^verbatim>\<open>execAsync\<close> call.
\<close>

datatype error = TypeError | SyntaxError | ENOENT | EISDIR | EACCES | ExecError string

fun message :: "error \<Rightarrow> string" where
  "message TypeError = ''Cannot read properties of null''"
| "message SyntaxError = ''Unexpected token in JSON''"
| "message ENOENT = ''ENOENT: no such file or directory''"
| "message EISDIR = ''EISDIR: illegal operation on a directory''"
| "message EACCES = ''EACCES: permission denied''"
| "message (ExecError m) = m"

definition bindE :: "'e + 'a \<Rightarrow> ('a \<Rightarrow> 'e + 'b) \<Rightarrow> 'e + 'b" where
  "bindE m f = (case m of Inl e \<Rightarrow> Inl e | Inr x \<Rightarrow> f x)"

fun sequenceE :: "('e + 'a) list \<Rightarrow> 'e + 'a list" where
  "sequenceE [] = Inr []"
| "sequenceE (Inl e # rs) = Inl e"
| "sequenceE (Inr x # rs) = (case sequenceE rs of Inl e \<Rightarrow> Inl e | Inr xs \<Rightarrow> Inr (x # xs))"

subsection \<open>Decimal numerals\<close>

definition digit_char :: "nat \<Rightarrow> char" where
  "digit_char d = ''0123456789'' ! d"

fun string_of_nat :: "nat \<Rightarrow> string" where
  "string_of_nat n =
     (if n < 10 then [digit_char n]
      else string_of_nat (n div 10) @ [digit_char (n mod 10)])"

declare string_of_nat.simps [simp del]

definition string_of_int :: "int \<Rightarrow> string" where
  "string_of_int i = (if i < 0 then ''-'' @ string_of_nat (nat (- i)) else string_of_nat (nat i))"

subsection \<open>Property access, assignment, truthiness, \<^verbatim>\<open>ToString\<close>\<close>

text \<open>
  \<open>get v k\<close> is \<^verbatim>\<open>v.k\<close>: a \<^verbatim>\<open>TypeError\<close> on \<^verbatim>\<open>null\<close>, the own property of
  an object, \<^verbatim>\<open>length\<close> of a string or array, and \<^verbatim>\<open>undefined\<close> otherwise (the
  code only reads the record field names, none of which is an index or a method name).
\<close>

fun get :: "json \<Rightarrow> string \<Rightarrow> error + jsval" where
  "get JNull k = Inl TypeError"
| "get (JObj kvs) k = Inr (map_of kvs k)"
| "get (JArr xs) k = Inr (if k = ''length'' then Some (JNum (int (length xs))) else None)"
| "get (JStr s) k = Inr (if k = ''length'' then Some (JNum (int (length s))) else None)"
| "get (JBool b) k = Inr None"
| "get (JNum n) k = Inr None"

text \<open>
  \<open>set_prop v k x\<close> is the assignment \<^verbatim>\<open>v.k = x\<close> in strict mode (class bodies
  and ES modules are strict): on an object the property is replaced in place or appended;
  on \<^verbatim>\<open>null\<close> and on a primitive it throws.  A named property put on an array is
  not part of the array's JSON content, which is what the model keeps of it.
\<close>

fun set_prop :: "json \<Rightarrow> string \<Rightarrow> json \<Rightarrow> error + json" where
  "set_prop (JObj kvs) k x = Inr (JObj (AList.update k x kvs))"
| "set_prop (JArr xs) k x = Inr (JArr xs)"
| "set_prop JNull k x = Inl TypeError"
| "set_prop (JBool b) k x = Inl TypeError"
| "set_prop (JNum n) k x = Inl TypeError"
| "set_prop (JStr s) k x = Inl TypeError"

fun truthy :: "jsval \<Rightarrow> bool" where
  "truthy None = False"
| "truthy (Some JNull) = False"
| "truthy (Some (JBool b)) = b"
| "truthy (Some (JNum n)) = (n \<noteq> 0)"
| "truthy (Some (JStr s)) = (s \<noteq> [])"
| "truthy (Some (JArr xs)) = True"
| "truthy (Some (JObj kvs)) = True"

fun join :: "string list \<Rightarrow> string" where
  "join [] = []"
| "join [s] = s"
| "join (s # t # ss) = s @ '','' @ join (t # ss)"

text \<open>
  \<^verbatim>\<open>ToString\<close> of a parsed JSON value, as a template literal applies it.  A plain
  object prints as \<^verbatim>\<open>[object Object]\<close> unless it has an own (hence non-callable)
  \<^verbatim>\<open>toString\<close> property, in which case the conversion throws; an array joins its
  elements with commas, \<^verbatim>\<open>null\<close> elements printing as the empty string.
\<close>

fun ToString :: "json \<Rightarrow> error + string" where
  "ToString JNull = Inr ''null''"
| "ToString (JBool b) = Inr (if b then ''true'' else ''false'')"
| "ToString (JNum n) = Inr (string_of_int n)"
| "ToString (JStr s) = Inr s"
| "ToString (JArr xs) =
     (case sequenceE (map (\<lambda>x. if x = JNull then Inr [] else ToString x) xs) of
        Inl e \<Rightarrow> Inl e
      | Inr ss \<Rightarrow> Inr (join ss))"
| "ToString (JObj kvs) =
     (if ''toString'' \<in> fst ` set kvs then Inl TypeError else Inr ''[object Object]'')"

fun template :: "jsval \<Rightarrow> error + string" where
  "template None = Inr ''undefined''"
| "template (Some v) = ToString v"

subsection \<open>Dates\<close>

text \<open>
  Times are milliseconds since the epoch.  \<open>TimeClip\<close> is the range check of the
  \<^verbatim>\<open>Date\<close> constructor; \<open>None\<close> is the invalid date, whose \<^verbatim>\<open>getTime()\<close> is
  \<^verbatim>\<open>NaN\<close>.  \<open>Date_getTime parse v\<close> is \<^verbatim>\<open>new Date(v).getTime()\<close>, with the
  engine's \<^verbatim>\<open>Date.parse\<close> as a parameter.
\<close>

definition TimeClip :: "int \<Rightarrow> int option" where
  "TimeClip t = (if \<bar>t\<bar> > 8640000000000000 then None else Some t)"

fun Date_getTime :: "(string \<Rightarrow> int option) \<Rightarrow> jsval \<Rightarrow> error + int option" where
  "Date_getTime parse None = Inr None"
| "Date_getTime parse (Some JNull) = Inr (Some 0)"
| "Date_getTime parse (Some (JBool b)) = Inr (Some (if b then 1 else 0))"
| "Date_getTime parse (Some (JNum n)) = Inr (TimeClip n)"
| "Date_getTime parse (Some (JStr s)) = Inr (parse s)"
| "Date_getTime parse (Some (JArr xs)) =
     (case ToString (JArr xs) of Inl e \<Rightarrow> Inl e | Inr s \<Rightarrow> Inr (parse s))"
| "Date_getTime parse (Some (JObj kvs)) =
     (case ToString (JObj kvs) of Inl e \<Rightarrow> Inl e | Inr s \<Rightarrow> Inr (parse s))"

section \<open>The environment: file system, clock, identifiers, terminal\<close>

text \<open>
  The model is sequential: one operation runs at a time and nothing else touches the two
  directories meanwhile.  Each operation reads the clock once (\<open>now\<close>, in milliseconds);
  the fixed wait between the two terminal commands of a delivery is not part of the model.

  A directory is absent (\<open>None\<close>) or a list of named entries in enumeration order.  An
  entry is a regular file with its modification time and its text, or a subdirectory.
  The text of a file is kept as the outcome of \<^verbatim>\<open>JSON.parse\<close> on it: \<open>None\<close> for
  text that is not JSON, \<open>Some v\<close> for text that parses to \<open>v\<close>; writing
  \<^verbatim>\<open>JSON.stringify(v, null, 2)\<close> stores \<open>Some v\<close>.  A path
  \<^verbatim>\<open>join(dir, name)\<close> is the entry \<open>name\<close> of that one directory (names are taken
  to be free of path separators).  A file that is created is enumerated last; a file
  that is overwritten keeps its place.
\<close>

datatype node = File (mtime: int) (text_of: "json option") | SubDir (mtime: int)

type_synonym dir = "(string \<times> node) list option"

record env =
  Date_parse :: "string \<Rightarrow> int option"
  toISOString :: "int \<Rightarrow> string"
  randomUUID :: "nat \<Rightarrow> string"
  execAsync :: "nat \<Rightarrow> string \<Rightarrow> string option"

text \<open>
  \<open>randomUUID env n\<close> is the \<open>n\<close>-th identifier the process draws;
  \<open>execAsync env n cmd\<close> is the outcome of the \<open>n\<close>-th shell command, \<open>None\<close> when
  it succeeds and \<open>Some m\<close> when it is rejected with message \<open>m\<close>.
\<close>

record world =
  agentsDir :: dir
  messagesDir :: dir
  home_writable :: bool
  uuids_drawn :: nat
  tmux_log :: "string list"

definition readdir :: "dir \<Rightarrow> error + string list" where
  "readdir d = (case d of None \<Rightarrow> Inl ENOENT | Some es \<Rightarrow> Inr (map fst es))"

definition readFile :: "dir \<Rightarrow> string \<Rightarrow> error + json option" where
  "readFile d name =
     (case d of
        None \<Rightarrow> Inl ENOENT
      | Some es \<Rightarrow>
          (case map_of es name of
             None \<Rightarrow> Inl ENOENT
           | Some (SubDir t) \<Rightarrow> Inl EISDIR
           | Some (File t c) \<Rightarrow> Inr c))"

definition JSON_parse :: "json option \<Rightarrow> error + json" where
  "JSON_parse c = (case c of None \<Rightarrow> Inl SyntaxError | Some v \<Rightarrow> Inr v)"

definition writeFile :: "dir \<Rightarrow> string \<Rightarrow> int \<Rightarrow> json \<Rightarrow> error + dir" where
  "writeFile d name now v =
     (case d of
        None \<Rightarrow> Inl ENOENT
      | Some es \<Rightarrow>
          (case map_of es name of
             Some (SubDir t) \<Rightarrow> Inl EISDIR
           | _ \<Rightarrow> Inr (Some (AList.update name (File now (Some v)) es))))"

definition unlink :: "dir \<Rightarrow> string \<Rightarrow> error + dir" where
  "unlink d name =
     (case d of
        None \<Rightarrow> Inl ENOENT
      | Some es \<Rightarrow>
          (case map_of es name of
             None \<Rightarrow> Inl ENOENT
           | Some (SubDir t) \<Rightarrow> Inl EISDIR
           | Some (File t c) \<Rightarrow> Inr (Some (AList.delete name es))))"

definition stat :: "dir \<Rightarrow> string \<Rightarrow> error + int" where
  "stat d name =
     (case d of
        None \<Rightarrow> Inl ENOENT
      | Some es \<Rightarrow>
          (case map_of es name of
             None \<Rightarrow> Inl ENOENT
           | Some n \<Rightarrow> Inr (mtime n)))"

definition mkdir :: "bool \<Rightarrow> dir \<Rightarrow> error + dir" where
  "mkdir writable d =
     (case d of
        Some es \<Rightarrow> Inr (Some es)
      | None \<Rightarrow> (if writable then Inr (Some []) else Inl EACCES))"

definition endsWith :: "string \<Rightarrow> string \<Rightarrow> bool" where
  "endsWith s suf = (length suf \<le> length s \<and> drop (length s - length suf) s = suf)"

definition obj :: "(string \<times> jsval) list \<Rightarrow> json" where
  "obj props = JObj (List.map_filter (\<lambda>(k, v). map_option (Pair k) v) props)"

text \<open>
  \<open>obj\<close> is an object literal as \<^verbatim>\<open>JSON.stringify\<close> writes it: a property whose
  value is \<^verbatim>\<open>undefined\<close> is left out.
\<close>

section \<open>The terminal controller\<close>

definition dq :: string where
  "dq = [CHR 0x22]"

text \<open>
  \<^verbatim>\<open>TmuxController.sendKeys(target, keys, enter)\<close> builds one shell command and
  awaits it.  The command is logged whether or not it succeeds.
\<close>

definition sendKeys_cmd :: "string \<Rightarrow> string \<Rightarrow> bool \<Rightarrow> string" where
  "sendKeys_cmd target keys enter =
     (if enter
      then ''tmux send-keys -t '' @ dq @ target @ dq @ '' '' @ dq @ keys @ dq @ '' C-m''
      else ''tmux send-keys -t '' @ dq @ target @ dq @ '' '' @ dq @ keys @ dq)"

definition sendKeys :: "env \<Rightarrow> string \<Rightarrow> string \<Rightarrow> bool \<Rightarrow> world \<Rightarrow> (error + string) \<times> world" where
  "sendKeys env target keys enter w =
     (let cmd = sendKeys_cmd target keys enter;
          w' = w\<lparr>tmux_log := tmux_log w @ [cmd]\<rparr>
      in case execAsync env (length (tmux_log w)) cmd of
           Some m \<Rightarrow> (Inl (ExecError m), w')
         | None \<Rightarrow> (Inr (''Sent keys '' @ dq @ keys @ dq @ '' to '' @ dq @ target @ dq), w'))"

text \<open>
  The two-step delivery used by every send: the text without Enter, a fixed wait, then
  Enter alone.  It stops at the first rejected command.
\<close>

definition deliver :: "env \<Rightarrow> string \<Rightarrow> string \<Rightarrow> world \<Rightarrow> (error + unit) \<times> world" where
  "deliver env target text w =
     (case sendKeys env target text False w of
        (Inl e, w1) \<Rightarrow> (Inl e, w1)
      | (Inr r1, w1) \<Rightarrow>
          (case sendKeys env target [] True w1 of
             (Inl e, w2) \<Rightarrow> (Inl e, w2)
           | (Inr r2, w2) \<Rightarrow> (Inr (), w2)))"

section \<open>The agent communication manager\<close>

record manager =
  agentId :: string
  agentName :: string

text \<open>
  The constructor draws the identifier once and starts the creation of the two
  directories, whose failure is ignored.  (The code does not await the creation; the
  model performs it at once.)
\<close>

definition initializeDirectories :: "world \<Rightarrow> world" where
  "initializeDirectories w =
     (case mkdir (home_writable w) (messagesDir w) of
        Inl e \<Rightarrow> w
      | Inr m \<Rightarrow>
          (case mkdir (home_writable w) (agentsDir w) of
             Inl e \<Rightarrow> w\<lparr>messagesDir := m\<rparr>
           | Inr a \<Rightarrow> w\<lparr>messagesDir := m, agentsDir := a\<rparr>))"

definition constructor :: "env \<Rightarrow> string \<Rightarrow> world \<Rightarrow> manager \<times> world" where
  "constructor env name w =
     (\<lparr>agentId = randomUUID env (uuids_drawn w), agentName = name\<rparr>,
      initializeDirectories (w\<lparr>uuids_drawn := Suc (uuids_drawn w)\<rparr>))"

subsection \<open>Presence registry\<close>

definition registerAgent :: "env \<Rightarrow> manager \<Rightarrow> int \<Rightarrow> string \<Rightarrow> world \<Rightarrow> (error + string) \<times> world" where
  "registerAgent env mgr now sessionName w =
     (let agentInfo = obj
            [(''id'', Some (JStr (agentId mgr))),
             (''name'', Some (JStr (agentName mgr))),
             (''session'', Some (JStr sessionName)),
             (''lastSeen'', Some (JStr (toISOString env now))),
             (''status'', Some (JStr ''online''))];
          agentFile = agentId mgr @ ''.json''
      in case writeFile (agentsDir w) agentFile now agentInfo of
           Inl e \<Rightarrow> (Inl e, w)
         | Inr d \<Rightarrow>
             (Inr (''Agent '' @ dq @ agentName mgr @ dq @ '' registered with ID: '' @ agentId mgr),
              w\<lparr>agentsDir := d\<rparr>))"

definition unregisterAgent :: "manager \<Rightarrow> world \<Rightarrow> string \<times> world" where
  "unregisterAgent mgr w =
     (let agentFile = agentId mgr @ ''.json''
      in case unlink (agentsDir w) agentFile of
           Inr d \<Rightarrow>
             (''Agent '' @ dq @ agentName mgr @ dq @ '' unregistered successfully'',
              w\<lparr>agentsDir := d\<rparr>)
         | Inl e \<Rightarrow> (''Failed to unregister agent: '' @ message e, w))"

text \<open>
  The body of the loop of \<^verbatim>\<open>listActiveAgents\<close> for one parsed record: the status is
  set from \<^verbatim>\<open>lastSeen\<close> and the clock, \<^verbatim>\<open>NaN < 5\<close> being false.
\<close>

definition diffMinutes :: "int \<Rightarrow> int \<Rightarrow> rat" where
  "diffMinutes now lastSeen = of_int (now - lastSeen) / (1000 * 60)"

definition with_status :: "env \<Rightarrow> int \<Rightarrow> json \<Rightarrow> error + json" where
  "with_status env now agent =
     bindE (get agent ''lastSeen'') (\<lambda>ls.
     bindE (Date_getTime (Date_parse env) ls) (\<lambda>lastSeen.
       if (case lastSeen of None \<Rightarrow> False | Some t \<Rightarrow> diffMinutes now t < 5)
       then set_prop agent ''status'' (JStr ''online'')
       else set_prop agent ''status'' (JStr ''offline'')))"

fun listActiveAgents_loop :: "env \<Rightarrow> int \<Rightarrow> dir \<Rightarrow> string list \<Rightarrow> json list \<Rightarrow> json list" where
  "listActiveAgents_loop env now d [] agents = agents"
| "listActiveAgents_loop env now d (file # files) agents =
     (if endsWith file ''.json''
      then (case bindE (readFile d file) (\<lambda>content.
                 bindE (JSON_parse content) (with_status env now)) of
              Inr agent \<Rightarrow> listActiveAgents_loop env now d files (agents @ [agent])
            | Inl e \<Rightarrow> listActiveAgents_loop env now d files agents)
      else listActiveAgents_loop env now d files agents)"

definition listActiveAgents :: "env \<Rightarrow> int \<Rightarrow> world \<Rightarrow> json list" where
  "listActiveAgents env now w =
     (case readdir (agentsDir w) of
        Inr files \<Rightarrow> listActiveAgents_loop env now (agentsDir w) files []
      | Inl e \<Rightarrow> [])"

text \<open>
  \<^verbatim>\<open>getAgentInfo\<close> returns the parsed file as it is, or \<^verbatim>\<open>null\<close> when the
  lookup or the parse throws.  Its argument is typed as a string, but
  \<^verbatim>\<open>processIncomingCommands\<close> passes the \<^verbatim>\<open>from\<close> of a parsed record through
  \<^verbatim>\<open>sendMessage\<close>, so it is a JavaScript value here.
\<close>

definition getAgentInfo :: "jsval \<Rightarrow> world \<Rightarrow> json" where
  "getAgentInfo aid w =
     (case bindE (template aid) (\<lambda>s.
           bindE (readFile (agentsDir w) (s @ ''.json'')) JSON_parse) of
        Inr v \<Rightarrow> v
      | Inl e \<Rightarrow> JNull)"

definition updateHeartbeat :: "env \<Rightarrow> manager \<Rightarrow> int \<Rightarrow> world \<Rightarrow> world" where
  "updateHeartbeat env mgr now w =
     (let agentFile = agentId mgr @ ''.json''
      in case bindE (readFile (agentsDir w) agentFile) (\<lambda>content.
              bindE (JSON_parse content) (\<lambda>agentInfo.
              bindE (set_prop agentInfo ''lastSeen'' (JStr (toISOString env now))) (\<lambda>a1.
              bindE (set_prop a1 ''status'' (JStr ''online'')) (\<lambda>a2.
                writeFile (agentsDir w) agentFile now a2)))) of
           Inr d \<Rightarrow> w\<lparr>agentsDir := d\<rparr>
         | Inl e \<Rightarrow> w)"

subsection \<open>Message queue: sending\<close>

datatype msg_type = Command | Message

fun type_name :: "msg_type \<Rightarrow> string" where
  "type_name Command = ''command''"
| "type_name Message = ''message''"

text \<open>
  \<^verbatim>\<open>targetAgent && targetAgent.session\<close>: the property is read only from a truthy,
  hence non-null, value.
\<close>

definition session_of :: "json \<Rightarrow> jsval" where
  "session_of targetAgent =
     (if truthy (Some targetAgent)
      then (case get targetAgent ''session'' of Inr s \<Rightarrow> s | Inl e \<Rightarrow> None)
      else None)"

definition sendMessage ::
  "env \<Rightarrow> manager \<Rightarrow> int \<Rightarrow> jsval \<Rightarrow> string \<Rightarrow> msg_type \<Rightarrow> world \<Rightarrow> (error + string) \<times> world" where
  "sendMessage env mgr now targetAgentId content type w =
     (let mid = randomUUID env (uuids_drawn w);
          w0 = w\<lparr>uuids_drawn := Suc (uuids_drawn w)\<rparr>;
          msg = obj
            [(''id'', Some (JStr mid)),
             (''from'', Some (JStr (agentId mgr))),
             (''to'', targetAgentId),
             (''type'', Some (JStr (type_name type))),
             (''content'', Some (JStr content)),
             (''timestamp'', Some (JStr (toISOString env now)))]
      in case writeFile (messagesDir w0) (mid @ ''.json'') now msg of
           Inl e \<Rightarrow> (Inl e, w0)
         | Inr d \<Rightarrow>
             (let w1 = w0\<lparr>messagesDir := d\<rparr>;
                  queued = (bindE (template targetAgentId) (\<lambda>t.
                              Inr (''Message sent to agent '' @ t @ '': '' @ content)), w1);
                  failed = (\<lambda>e w'.
                    (bindE (template targetAgentId) (\<lambda>t.
                       Inr (''Message saved for agent '' @ t @
                            '', but failed to send to tmux: '' @ message e)), w'))
              in if type = Message
                 then (let sess = session_of (getAgentInfo targetAgentId w1)
                       in if truthy sess
                          then (case template sess of
                                  Inl e \<Rightarrow> failed e w1
                                | Inr s \<Rightarrow>
                                    (case deliver env (s @ '':0'') content w1 of
                                       (Inl e, w2) \<Rightarrow> failed e w2
                                     | (Inr u, w2) \<Rightarrow>
                                         (case template targetAgentId of
                                            Inl e \<Rightarrow> failed e w2
                                          | Inr t \<Rightarrow>
                                              (Inr (''Message sent to agent '' @ t @
                                                    '' in tmux session '' @ s @ '': '' @ content),
                                               w2))))
                          else queued)
                 else queued))"

record sessionInfo =
  session :: string
  window :: "string option"
  pane :: "string option"

definition sessionInfo_json :: "sessionInfo \<Rightarrow> json" where
  "sessionInfo_json si =
     obj [(''session'', Some (JStr (session si))),
          (''window'', map_option JStr (window si)),
          (''pane'', map_option JStr (pane si))]"

text \<open>
  \<^verbatim>\<open>sessionInfo.pane || `${sessionInfo.session}:${sessionInfo.window || 0}`\<close>: an absent
  or empty string is falsy.
\<close>

fun or_else :: "string option \<Rightarrow> string \<Rightarrow> string" where
  "or_else None d = d"
| "or_else (Some s) d = (if s = [] then d else s)"

definition sessionInfo_target :: "sessionInfo \<Rightarrow> string" where
  "sessionInfo_target si = or_else (pane si) (session si @ '':'' @ or_else (window si) ''0'')"

definition sendCommandToAgent ::
  "env \<Rightarrow> manager \<Rightarrow> int \<Rightarrow> string \<Rightarrow> string \<Rightarrow> sessionInfo option \<Rightarrow> world \<Rightarrow> (error + string) \<times> world" where
  "sendCommandToAgent env mgr now targetAgentId command si w =
     (let mid = randomUUID env (uuids_drawn w);
          w0 = w\<lparr>uuids_drawn := Suc (uuids_drawn w)\<rparr>;
          msg = obj
            [(''id'', Some (JStr mid)),
             (''from'', Some (JStr (agentId mgr))),
             (''to'', Some (JStr targetAgentId)),
             (''type'', Some (JStr ''command'')),
             (''content'', Some (JStr command)),
             (''timestamp'', Some (JStr (toISOString env now))),
             (''sessionInfo'', map_option sessionInfo_json si)]
      in case writeFile (messagesDir w0) (mid @ ''.json'') now msg of
           Inl e \<Rightarrow> (Inl e, w0)
         | Inr d \<Rightarrow>
             (let w1 = w0\<lparr>messagesDir := d\<rparr>
              in case si of
                   Some info \<Rightarrow>
                     (case deliver env (sessionInfo_target info) command w1 of
                        (Inr u, w2) \<Rightarrow>
                          (Inr (''Command sent to agent '' @ targetAgentId @
                                '' and executed in tmux: '' @ command), w2)
                      | (Inl e, w2) \<Rightarrow>
                          (Inr (''Command queued for agent '' @ targetAgentId @
                                '', but failed to execute in tmux: '' @ message e), w2))
                 | None \<Rightarrow>
                     (let sess = session_of (getAgentInfo (Some (JStr targetAgentId)) w1);
                          failed = (\<lambda>e w'.
                            (Inr (''Command queued for agent '' @ targetAgentId @
                                  '', but failed to send to tmux: '' @ message e), w'))
                      in if truthy sess
                         then (case template sess of
                                 Inl e \<Rightarrow> failed e w1
                               | Inr s \<Rightarrow>
                                   (case deliver env (s @ '':0'') command w1 of
                                      (Inl e, w2) \<Rightarrow> failed e w2
                                    | (Inr u, w2) \<Rightarrow>
                                        (Inr (''Command sent to agent '' @ targetAgentId @
                                              '' in tmux session '' @ s @ '': '' @ command), w2)))
                         else (Inr (''Command queued for agent '' @ targetAgentId @ '': '' @ command),
                               w1))))"

subsection \<open>Message queue: reading\<close>

text \<open>
  \<^verbatim>\<open>Array.prototype.sort\<close> with a comparator.  A comparator result of \<^verbatim>\<open>NaN\<close>
  (\<open>None\<close>) counts as \<open>+0\<close>.  The sort is stable; for a consistent comparator every
  conforming engine returns the list computed here.  For an inconsistent one (some
  timestamp is the invalid date) the standard leaves the order to the engine; this
  insertion sort gives one such order, and other engines give others.  The statements
  below speak of the order only where every timestamp compared is a valid date; where
  some is not, they speak of the records returned and not of their order.
\<close>

fun insert_sorted :: "('a \<Rightarrow> 'a \<Rightarrow> bool) \<Rightarrow> 'a \<Rightarrow> 'a list \<Rightarrow> 'a list" where
  "insert_sorted lt x [] = [x]"
| "insert_sorted lt x (y # ys) = (if lt x y then x # y # ys else y # insert_sorted lt x ys)"

definition sort_with :: "('a \<Rightarrow> 'a \<Rightarrow> bool) \<Rightarrow> 'a list \<Rightarrow> 'a list" where
  "sort_with lt xs = foldl (\<lambda>acc x. insert_sorted lt x acc) [] xs"

definition Array_sort :: "('a \<Rightarrow> 'a \<Rightarrow> int option) \<Rightarrow> 'a list \<Rightarrow> 'a list" where
  "Array_sort cmp xs =
     sort_with (\<lambda>a b. case cmp a b of Some c \<Rightarrow> c < 0 | None \<Rightarrow> False) xs"

definition timestamp_ms :: "env \<Rightarrow> json \<Rightarrow> error + int option" where
  "timestamp_ms env m = bindE (get m ''timestamp'') (Date_getTime (Date_parse env))"

fun minus_time :: "int option \<Rightarrow> int option \<Rightarrow> int option" where
  "minus_time (Some a) (Some b) = Some (a - b)"
| "minus_time a b = None"

text \<open>
  The two sorts of the message lists, by
  \<^verbatim>\<open>new Date(a.timestamp).getTime() - new Date(b.timestamp).getTime()\<close> and its
  converse.  With fewer than two elements the comparator is never called; otherwise it is
  called on every element, and a call that throws aborts the sort.
\<close>

definition sort_by_timestamp :: "env \<Rightarrow> bool \<Rightarrow> json list \<Rightarrow> error + json list" where
  "sort_by_timestamp env newest_first ms =
     (if length ms < 2 then Inr ms
      else bindE (sequenceE (map (timestamp_ms env) ms)) (\<lambda>keys.
             Inr (map snd (Array_sort
               (\<lambda>(ka, a) (kb, b). if newest_first then minus_time kb ka else minus_time ka kb)
               (zip keys ms)))))"

fun getIncomingMessages_loop :: "manager \<Rightarrow> dir \<Rightarrow> string list \<Rightarrow> json list \<Rightarrow> json list" where
  "getIncomingMessages_loop mgr d [] messages = messages"
| "getIncomingMessages_loop mgr d (file # files) messages =
     (if endsWith file ''.json''
      then (case bindE (readFile d file) (\<lambda>content.
                 bindE (JSON_parse content) (\<lambda>msg.
                 bindE (get msg ''to'') (\<lambda>to.
                   Inr (if to = Some (JStr (agentId mgr)) then [msg] else [])))) of
              Inr pushed \<Rightarrow> getIncomingMessages_loop mgr d files (messages @ pushed)
            | Inl e \<Rightarrow> getIncomingMessages_loop mgr d files messages)
      else getIncomingMessages_loop mgr d files messages)"

definition getIncomingMessages :: "env \<Rightarrow> manager \<Rightarrow> world \<Rightarrow> json list" where
  "getIncomingMessages env mgr w =
     (case bindE (readdir (messagesDir w)) (\<lambda>files.
           sort_by_timestamp env False (getIncomingMessages_loop mgr (messagesDir w) files [])) of
        Inr sorted_messages \<Rightarrow> sorted_messages
      | Inl e \<Rightarrow> [])"

text \<open>
  \<^verbatim>\<open>isRelevant\<close> of \<^verbatim>\<open>getMessageHistory\<close>, with its short-circuit evaluation: when
  no target is given (absent or the empty string) no property of the record is read.
\<close>

definition isRelevant :: "manager \<Rightarrow> string option \<Rightarrow> json \<Rightarrow> error + bool" where
  "isRelevant mgr targetAgentId msg =
     (if \<not> truthy (map_option JStr targetAgentId) then Inr True
      else bindE (get msg ''from'') (\<lambda>from.
             if from = map_option JStr targetAgentId then Inr True
             else bindE (get msg ''to'') (\<lambda>to.
               if to = map_option JStr targetAgentId then Inr True
               else bindE (get msg ''from'') (\<lambda>from'.
                 if from' = Some (JStr (agentId mgr)) then Inr True
                 else bindE (get msg ''to'') (\<lambda>to'.
                   Inr (to' = Some (JStr (agentId mgr))))))))"

fun getMessageHistory_loop ::
  "manager \<Rightarrow> string option \<Rightarrow> dir \<Rightarrow> string list \<Rightarrow> json list \<Rightarrow> json list" where
  "getMessageHistory_loop mgr tgt d [] messages = messages"
| "getMessageHistory_loop mgr tgt d (file # files) messages =
     (if endsWith file ''.json''
      then (case bindE (readFile d file) (\<lambda>content.
                 bindE (JSON_parse content) (\<lambda>msg.
                 bindE (isRelevant mgr tgt msg) (\<lambda>relevant.
                   Inr (if relevant then [msg] else [])))) of
              Inr pushed \<Rightarrow> getMessageHistory_loop mgr tgt d files (messages @ pushed)
            | Inl e \<Rightarrow> getMessageHistory_loop mgr tgt d files messages)
      else getMessageHistory_loop mgr tgt d files messages)"

text \<open>
  \<^verbatim>\<open>slice(0, limit)\<close> for an integer-valued limit: a negative end counts from the end
  of the array.
\<close>

definition slice0 :: "int \<Rightarrow> 'a list \<Rightarrow> 'a list" where
  "slice0 end_ix xs =
     (let len = int (length xs);
          final = (if end_ix < 0 then max (len + end_ix) 0 else min end_ix len)
      in take (nat final) xs)"

definition getMessageHistory :: "env \<Rightarrow> manager \<Rightarrow> string option \<Rightarrow> int \<Rightarrow> world \<Rightarrow> json list" where
  "getMessageHistory env mgr targetAgentId limit w =
     (case bindE (readdir (messagesDir w)) (\<lambda>files.
           bindE (sort_by_timestamp env True
                    (getMessageHistory_loop mgr targetAgentId (messagesDir w) files []))
             (\<lambda>sorted_messages. Inr (slice0 limit sorted_messages))) of
        Inr history \<Rightarrow> history
      | Inl e \<Rightarrow> [])"

subsection \<open>Message queue: processing and pruning\<close>

definition deleteMessage :: "jsval \<Rightarrow> world \<Rightarrow> world" where
  "deleteMessage messageId w =
     (case bindE (template messageId) (\<lambda>s. unlink (messagesDir w) (s @ ''.json'')) of
        Inr d \<Rightarrow> w\<lparr>messagesDir := d\<rparr>
      | Inl e \<Rightarrow> w)"

text \<open>
  The \<^verbatim>\<open>try\<close> block of \<^verbatim>\<open>processIncomingCommands\<close> for one command record, with
  its \<^verbatim>\<open>catch\<close>: the description is pushed before the reply is sent, so a failing
  send leaves both the description and the failure line in the results.
\<close>

definition process_command ::
  "env \<Rightarrow> manager \<Rightarrow> int \<Rightarrow> json \<Rightarrow> string list \<Rightarrow> world \<Rightarrow> string list \<times> world" where
  "process_command env mgr now msg results w =
     (let failed = (\<lambda>e rs w'. (rs @ [''Failed to process command: '' @ message e], w'))
      in case bindE (get msg ''from'') (\<lambda>from.
              bindE (template from) (\<lambda>fs.
              bindE (get msg ''content'') (\<lambda>content.
              bindE (template content) (\<lambda>cs.
                Inr (''Processed command from '' @ fs @ '': '' @ cs, from, cs))))) of
           Inl e \<Rightarrow> failed e results w
         | Inr (result, from, cs) \<Rightarrow>
             (case sendMessage env mgr now from (''Command executed: '' @ cs) Message w of
                (Inl e, w1) \<Rightarrow> failed e (results @ [result]) w1
              | (Inr sent, w1) \<Rightarrow>
                  (case get msg ''id'' of
                     Inl e \<Rightarrow> failed e (results @ [result]) w1
                   | Inr mid \<Rightarrow> (results @ [result], deleteMessage mid w1))))"

fun processIncomingCommands_loop ::
  "env \<Rightarrow> manager \<Rightarrow> int \<Rightarrow> json list \<Rightarrow> string list \<Rightarrow> world \<Rightarrow> (error + string list) \<times> world" where
  "processIncomingCommands_loop env mgr now [] results w = (Inr results, w)"
| "processIncomingCommands_loop env mgr now (msg # msgs) results w =
     (case get msg ''type'' of
        Inl e \<Rightarrow> (Inl e, w)
      | Inr ty \<Rightarrow>
          (if ty = Some (JStr ''command'')
           then (case process_command env mgr now msg results w of
                   (results', w') \<Rightarrow> processIncomingCommands_loop env mgr now msgs results' w')
           else processIncomingCommands_loop env mgr now msgs results w))"

definition processIncomingCommands ::
  "env \<Rightarrow> manager \<Rightarrow> int \<Rightarrow> world \<Rightarrow> (error + string list) \<times> world" where
  "processIncomingCommands env mgr now w =
     processIncomingCommands_loop env mgr now (getIncomingMessages env mgr w) [] w"

text \<open>
  \<^verbatim>\<open>stats.mtime < cutoffTime\<close> compares the two time values; it is false when the
  cutoff is the invalid date, which \<^verbatim>\<open>new Date(Date.now() - hoursOld * 60 * 60 * 1000)\<close>
  is when that instant lies outside the range of \<^verbatim>\<open>Date\<close>.  The number of hours is
  taken integer-valued.
\<close>

fun date_less :: "int option \<Rightarrow> int option \<Rightarrow> bool" where
  "date_less (Some a) (Some b) = (a < b)"
| "date_less a b = False"

fun clearOldMessages_loop :: "int option \<Rightarrow> string list \<Rightarrow> nat \<Rightarrow> dir \<Rightarrow> (error + nat) \<times> dir" where
  "clearOldMessages_loop cutoffTime [] deletedCount d = (Inr deletedCount, d)"
| "clearOldMessages_loop cutoffTime (file # files) deletedCount d =
     (if endsWith file ''.json''
      then (case stat d file of
              Inl e \<Rightarrow> (Inl e, d)
            | Inr mt \<Rightarrow>
                (if date_less (Some mt) cutoffTime
                 then (case unlink d file of
                         Inl e \<Rightarrow> (Inl e, d)
                       | Inr d' \<Rightarrow> clearOldMessages_loop cutoffTime files (Suc deletedCount) d')
                 else clearOldMessages_loop cutoffTime files deletedCount d))
      else clearOldMessages_loop cutoffTime files deletedCount d)"

definition clearOldMessages :: "int \<Rightarrow> int \<Rightarrow> world \<Rightarrow> string \<times> world" where
  "clearOldMessages now hoursOld w =
     (case readdir (messagesDir w) of
        Inl e \<Rightarrow> (''Failed to clear old messages: '' @ message e, w)
      | Inr files \<Rightarrow>
          (let cutoffTime = TimeClip (now - hoursOld * 60 * 60 * 1000)
           in case clearOldMessages_loop cutoffTime files 0 (messagesDir w) of
                (Inr deletedCount, d) \<Rightarrow>
                  (''Deleted '' @ string_of_nat deletedCount @ '' old messages'',
                   w\<lparr>messagesDir := d\<rparr>)
              | (Inl e, d) \<Rightarrow>
                  (''Failed to clear old messages: '' @ message e, w\<lparr>messagesDir := d\<rparr>)))"

section \<open>Notions used in the statements\<close>

subsection \<open>Directories and listings\<close>

text \<open>
  The persisted records of a directory: the parsed contents of its \<^verbatim>\<open>.json\<close>
  files, in enumeration order.  An entry is parseable when it is a file whose text is
  valid JSON.
\<close>

fun parsed_records :: "(string \<times> node) list \<Rightarrow> json list" where
  "parsed_records [] = []"
| "parsed_records ((f, File mt (Some v)) # es) =
     (if endsWith f ''.json'' then v # parsed_records es else parsed_records es)"
| "parsed_records ((f, n) # es) = parsed_records es"

fun parseable :: "node \<Rightarrow> bool" where
  "parseable (File mt (Some v)) = True"
| "parseable n = False"

fun is_SubDir :: "node option \<Rightarrow> bool" where
  "is_SubDir (Some (SubDir t)) = True"
| "is_SubDir n = False"

fun is_File :: "node \<Rightarrow> bool" where
  "is_File (File t c) = True"
| "is_File (SubDir t) = False"

text \<open>
  The three listing loops share their frame: for each name ending in \<^verbatim>\<open>.json\<close>,
  read and parse the file inside a \<^verbatim>\<open>try\<close>, and push what the body \<open>g\<close> selects.
  The bodies are: the record with its status set (\<^verbatim>\<open>listActiveAgents\<close>), the record
  if it is addressed to the manager (\<^verbatim>\<open>getIncomingMessages\<close>), the record if it is
  relevant (\<^verbatim>\<open>getMessageHistory\<close>).
\<close>

definition per_file :: "(json \<Rightarrow> json list) \<Rightarrow> dir \<Rightarrow> string \<Rightarrow> json list" where
  "per_file g d fname =
     (if endsWith fname ''.json''
      then (case bindE (readFile d fname) JSON_parse of Inr v \<Rightarrow> g v | Inl e \<Rightarrow> [])
      else [])"

definition pushed_agent :: "env \<Rightarrow> int \<Rightarrow> json \<Rightarrow> json list" where
  "pushed_agent env now v = (case with_status env now v of Inr a \<Rightarrow> [a] | Inl e \<Rightarrow> [])"

definition to_me :: "manager \<Rightarrow> json \<Rightarrow> bool" where
  "to_me mgr v = (get v ''to'' = Inr (Some (JStr (agentId mgr))))"

definition relevant :: "manager \<Rightarrow> string option \<Rightarrow> json \<Rightarrow> bool" where
  "relevant mgr tgt v = (isRelevant mgr tgt v = Inr True)"

text \<open>
  The time value of a record's \<^verbatim>\<open>timestamp\<close>, for records where it is a valid date.
\<close>

definition valid_timestamp :: "env \<Rightarrow> json \<Rightarrow> bool" where
  "valid_timestamp env m = (case timestamp_ms env m of Inr (Some t) \<Rightarrow> True | _ \<Rightarrow> False)"

definition time_of :: "env \<Rightarrow> json \<Rightarrow> int" where
  "time_of env m = (case timestamp_ms env m of Inr (Some t) \<Rightarrow> t | _ \<Rightarrow> 0)"

text \<open>
  A record whose \<^verbatim>\<open>timestamp\<close> the comparator can read: \<^verbatim>\<open>new Date(m.timestamp)\<close>
  does not throw on it, whether or not the date it gives is valid.
\<close>

definition readable_timestamp :: "env \<Rightarrow> json \<Rightarrow> bool" where
  "readable_timestamp env m = (case timestamp_ms env m of Inr k \<Rightarrow> True | Inl e \<Rightarrow> False)"

text \<open>The shape of an agent record, as the interface \<^verbatim>\<open>AgentInfo\<close> declares it.\<close>

definition is_string :: "jsval \<Rightarrow> bool" where
  "is_string v = (case v of Some (JStr s) \<Rightarrow> True | _ \<Rightarrow> False)"

definition AgentInfo_shape :: "json \<Rightarrow> bool" where
  "AgentInfo_shape v =
     (case v of
        JObj kvs \<Rightarrow>
          is_string (map_of kvs ''id'') \<and> is_string (map_of kvs ''name'') \<and>
          is_string (map_of kvs ''session'') \<and> is_string (map_of kvs ''lastSeen'') \<and>
          (map_of kvs ''status'' = Some (JStr ''online'') \<or>
           map_of kvs ''status'' = Some (JStr ''offline''))
      | _ \<Rightarrow> False)"

subsection \<open>Sequences of registrations\<close>

text \<open>
  A process that calls \<^verbatim>\<open>registerAgent\<close> repeatedly, each call at its own time and
  with its own session name, on the one manager object it has; the record and the
  confirmation string of one call.
\<close>

fun registerAgent_calls ::
  "env \<Rightarrow> manager \<Rightarrow> (int \<times> string) list \<Rightarrow> world \<Rightarrow> (error + string) list \<times> world" where
  "registerAgent_calls env mgr [] w = ([], w)"
| "registerAgent_calls env mgr ((now, sessionName) # calls) w =
     (case registerAgent env mgr now sessionName w of
        (r, w') \<Rightarrow>
          (case registerAgent_calls env mgr calls w' of
             (rs, w'') \<Rightarrow> (r # rs, w'')))"

definition agentInfo_record :: "env \<Rightarrow> manager \<Rightarrow> int \<Rightarrow> string \<Rightarrow> json" where
  "agentInfo_record env mgr now sessionName =
     JObj [(''id'', JStr (agentId mgr)), (''name'', JStr (agentName mgr)),
           (''session'', JStr sessionName), (''lastSeen'', JStr (toISOString env now)),
           (''status'', JStr ''online'')]"

definition registered_confirmation :: "manager \<Rightarrow> string" where
  "registered_confirmation mgr =
     ''Agent '' @ dq @ agentName mgr @ dq @ '' registered with ID: '' @ agentId mgr"

subsection \<open>Pruning\<close>

text \<open>
  An entry that \<^verbatim>\<open>clearOldMessages\<close> removes for a given cutoff: a \<^verbatim>\<open>.json\<close> name
  whose modification time is strictly before the cutoff.
\<close>

definition older :: "int \<Rightarrow> string \<times> node \<Rightarrow> bool" where
  "older cutoff e = (endsWith (fst e) ''.json'' \<and> mtime (snd e) < cutoff)"

subsection \<open>Sending\<close>

text \<open>
  The record that \<^verbatim>\<open>sendMessage\<close> writes for a string target, and the one that
  \<^verbatim>\<open>sendCommandToAgent\<close> writes.
\<close>

definition message_record ::
  "env \<Rightarrow> manager \<Rightarrow> int \<Rightarrow> string \<Rightarrow> string \<Rightarrow> msg_type \<Rightarrow> string \<Rightarrow> json" where
  "message_record env mgr now mid target type content =
     JObj [(''id'', JStr mid), (''from'', JStr (agentId mgr)), (''to'', JStr target),
           (''type'', JStr (type_name type)), (''content'', JStr content),
           (''timestamp'', JStr (toISOString env now))]"

definition command_record ::
  "env \<Rightarrow> manager \<Rightarrow> int \<Rightarrow> string \<Rightarrow> string \<Rightarrow> string \<Rightarrow> sessionInfo option \<Rightarrow> json" where
  "command_record env mgr now mid target command si =
     JObj ([(''id'', JStr mid), (''from'', JStr (agentId mgr)), (''to'', JStr target),
            (''type'', JStr ''command''), (''content'', JStr command),
            (''timestamp'', JStr (toISOString env now))] @
           (case si of None \<Rightarrow> [] | Some info \<Rightarrow> [(''sessionInfo'', sessionInfo_json info)]))"

text \<open>
  What the two-step delivery leaves in the terminal log and what it returns: the second
  command is issued only when the first one was accepted.
\<close>

definition delivery_log :: "env \<Rightarrow> string \<Rightarrow> string \<Rightarrow> world \<Rightarrow> string list" where
  "delivery_log env target text w =
     (if execAsync env (length (tmux_log w)) (sendKeys_cmd target text False) = None
      then [sendKeys_cmd target text False, sendKeys_cmd target [] True]
      else [sendKeys_cmd target text False])"

definition delivery_result :: "env \<Rightarrow> string \<Rightarrow> string \<Rightarrow> world \<Rightarrow> error + unit" where
  "delivery_result env target text w =
     (case execAsync env (length (tmux_log w)) (sendKeys_cmd target text False) of
        Some m \<Rightarrow> Inl (ExecError m)
      | None \<Rightarrow>
          (case execAsync env (Suc (length (tmux_log w))) (sendKeys_cmd target [] True) of
             Some m \<Rightarrow> Inl (ExecError m)
           | None \<Rightarrow> Inr ()))"

text \<open>
  The delivery that \<^verbatim>\<open>sendCommandToAgent\<close> attempts: to the explicit location when
  \<^verbatim>\<open>sessionInfo\<close> is given, else to window 0 of the registered session, if there is one.
\<close>

definition command_target :: "string \<Rightarrow> sessionInfo option \<Rightarrow> world \<Rightarrow> (error + string) option" where
  "command_target t si w =
     (case si of
        Some info \<Rightarrow> Some (Inr (sessionInfo_target info))
      | None \<Rightarrow>
          (let sess = session_of (getAgentInfo (Some (JStr t)) w)
           in if truthy sess
              then Some (bindE (template sess) (\<lambda>s. Inr (s @ '':0'')))
              else None))"

subsection \<open>Processing commands\<close>

text \<open>
  A field of a record as the code reads it (\<^verbatim>\<open>undefined\<close> when the read throws), the
  string it gives when spliced into a template literal, \<^verbatim>\<open>`${m.k}`\<close>, and whether
  that can be done without an exception.
\<close>

definition field_of :: "json \<Rightarrow> string \<Rightarrow> jsval" where
  "field_of v k = (case get v k of Inr x \<Rightarrow> x | Inl e \<Rightarrow> None)"

definition spliced :: "json \<Rightarrow> string \<Rightarrow> string" where
  "spliced v k = (case bindE (get v k) template of Inr s \<Rightarrow> s | Inl e \<Rightarrow> [])"

definition splices :: "json \<Rightarrow> string \<Rightarrow> bool" where
  "splices v k = (case bindE (get v k) template of Inr s \<Rightarrow> True | Inl e \<Rightarrow> False)"

definition is_command :: "json \<Rightarrow> bool" where
  "is_command v = (get v ''type'' = Inr (Some (JStr ''command'')))"

text \<open>
  A directory entry that is a command addressed to the manager, and the layout the
  writers of this code keep: a command record lies in the file named after its
  \<^verbatim>\<open>id\<close>, and its \<^verbatim>\<open>id\<close>, \<^verbatim>\<open>from\<close> and \<^verbatim>\<open>content\<close> can be spliced into
  a string (as every string, number, boolean and \<^verbatim>\<open>null\<close> can, and an absent field
  too).
\<close>

fun command_entry :: "manager \<Rightarrow> string \<times> node \<Rightarrow> bool" where
  "command_entry mgr (f, File mt (Some v)) = (endsWith f ''.json'' \<and> to_me mgr v \<and> is_command v)"
| "command_entry mgr (f, n) = False"

fun stored_under_id :: "manager \<Rightarrow> string \<times> node \<Rightarrow> bool" where
  "stored_under_id mgr (f, File mt (Some v)) =
     (endsWith f ''.json'' \<and> to_me mgr v \<and> is_command v \<longrightarrow>
        splices v ''id'' \<and> splices v ''from'' \<and> splices v ''content'' \<and>
        f = spliced v ''id'' @ ''.json'')"
| "stored_under_id mgr (f, n) = True"

text \<open>
  The description line pushed for a command, and the acknowledgement written for it under
  a freshly drawn identifier: a record of type \<^verbatim>\<open>message\<close> whose \<^verbatim>\<open>to\<close> is the
  \<^verbatim>\<open>from\<close> of the command.
\<close>

definition processed_line :: "json \<Rightarrow> string" where
  "processed_line m =
     ''Processed command from '' @ spliced m ''from'' @ '': '' @ spliced m ''content''"

definition ack_entry :: "env \<Rightarrow> manager \<Rightarrow> int \<Rightarrow> string \<Rightarrow> json \<Rightarrow> string \<times> node" where
  "ack_entry env mgr now mid m =
     (mid @ ''.json'',
      File now (Some (obj
        [(''id'', Some (JStr mid)), (''from'', Some (JStr (agentId mgr))),
         (''to'', field_of m ''from''), (''type'', Some (JStr ''message'')),
         (''content'', Some (JStr (''Command executed: '' @ spliced m ''content''))),
         (''timestamp'', Some (JStr (toISOString env now)))])))"

fun acks :: "env \<Rightarrow> manager \<Rightarrow> int \<Rightarrow> nat \<Rightarrow> json list \<Rightarrow> (string \<times> node) list" where
  "acks env mgr now k [] = []"
| "acks env mgr now k (m # ms) =
     ack_entry env mgr now (randomUUID env k) m # acks env mgr now (Suc k) ms"

text \<open>The file names of the next \<open>n\<close> identifiers drawn after the first \<open>k\<close>.\<close>

definition drawn_files :: "env \<Rightarrow> nat \<Rightarrow> nat \<Rightarrow> string list" where
  "drawn_files env k n = map (\<lambda>i. randomUUID env i @ ''.json'') [k..<k + n]"

section \<open>Sample data\<close>

text \<open>
  The examples run in an environment whose \<^verbatim>\<open>Date.parse\<close> and
  \<^verbatim>\<open>toISOString\<close> are given on the four instants that occur in them
  (2024-01-01 at 00:00, 00:01, 00:02 and 01:00 UTC), whose identifiers are numbered, and
  whose terminal accepts every command; \<open>env_down\<close> is the same with a terminal that
  rejects every command, and \<open>env_enter_down\<close> the same with a terminal that rejects the
  second command it is given and no other.
\<close>

definition sample_parse :: "string \<Rightarrow> int option" where
  "sample_parse s =
     (if s = ''2024-01-01T00:00:00.000Z'' then Some 1704067200000
      else if s = ''2024-01-01T00:01:00.000Z'' then Some 1704067260000
      else if s = ''2024-01-01T00:02:00.000Z'' then Some 1704067320000
      else if s = ''2024-01-01T01:00:00.000Z'' then Some 1704070800000
      else None)"

definition sample_iso :: "int \<Rightarrow> string" where
  "sample_iso t =
     (if t = 1704067260000 then ''2024-01-01T00:01:00.000Z''
      else if t = 1704067320000 then ''2024-01-01T00:02:00.000Z''
      else if t = 1704070800000 then ''2024-01-01T01:00:00.000Z''
      else ''2024-01-01T00:00:00.000Z'')"

definition sample_env :: env where
  "sample_env = \<lparr>Date_parse = sample_parse, toISOString = sample_iso,
     randomUUID = (\<lambda>n. ''uuid-'' @ string_of_nat n), execAsync = (\<lambda>n cmd. None)\<rparr>"

definition env_down :: env where
  "env_down = sample_env\<lparr>execAsync := (\<lambda>n cmd. Some ''no server running'')\<rparr>"

definition env_enter_down :: env where
  "env_enter_down =
     sample_env\<lparr>execAsync := (\<lambda>n cmd. if n = Suc 0 then Some ''enter failed'' else None)\<rparr>"

text \<open>Two managers.\<close>

definition alice :: manager where
  "alice = \<lparr>agentId = ''a1'', agentName = ''alice''\<rparr>"

definition dave :: manager where
  "dave = \<lparr>agentId = ''d4'', agentName = ''dave''\<rparr>"

text \<open>
  A registry holding one agent last seen at 00:00, and a message directory holding three
  records addressed to \<open>a1\<close> (a command and two messages, enumerated out of order) and
  one record between two other agents.
\<close>

definition stale_agent :: "(string \<times> json) list" where
  "stale_agent =
     [(''id'', JStr ''b2''), (''name'', JStr ''bob''), (''session'', JStr ''work''),
      (''lastSeen'', JStr ''2024-01-01T00:00:00.000Z''), (''status'', JStr ''online'')]"

definition registry_world :: world where
  "registry_world =
     \<lparr>agentsDir = Some [(''b2.json'', File 1704067200000 (Some (JObj stale_agent)))],
      messagesDir = Some [], home_writable = True, uuids_drawn = 1, tmux_log = []\<rparr>"

definition alice_inbox :: "(string \<times> node) list" where
  "alice_inbox =
     [(''m3.json'', File 1704067320000 (Some (JObj
         [(''id'', JStr ''m3''), (''from'', JStr ''b2''), (''to'', JStr ''a1''),
          (''type'', JStr ''message''), (''content'', JStr ''third''),
          (''timestamp'', JStr ''2024-01-01T00:02:00.000Z'')]))),
      (''m1.json'', File 1704067200000 (Some (JObj
         [(''id'', JStr ''m1''), (''from'', JStr ''b2''), (''to'', JStr ''a1''),
          (''type'', JStr ''command''), (''content'', JStr ''ls''),
          (''timestamp'', JStr ''2024-01-01T00:00:00.000Z'')]))),
      (''x9.json'', File 1704067200000 (Some (JObj
         [(''id'', JStr ''x9''), (''from'', JStr ''b2''), (''to'', JStr ''c3''),
          (''type'', JStr ''message''), (''content'', JStr ''elsewhere''),
          (''timestamp'', JStr ''2024-01-01T00:00:00.000Z'')]))),
      (''m2.json'', File 1704067260000 (Some (JObj
         [(''id'', JStr ''m2''), (''from'', JStr ''c3''), (''to'', JStr ''a1''),
          (''type'', JStr ''message''), (''content'', JStr ''second''),
          (''timestamp'', JStr ''2024-01-01T00:01:00.000Z'')])))]"

definition inbox_world :: world where
  "inbox_world =
     \<lparr>agentsDir = Some [], messagesDir = Some alice_inbox, home_writable = True,
      uuids_drawn = 1, tmux_log = []\<rparr>"

text \<open>
  A world whose two directories hold one file with the empty object, and a message
  directory with entries of several ages.
\<close>

definition junk_world :: world where
  "junk_world =
     \<lparr>agentsDir = Some [(''junk.json'', File 1704067200000 (Some (JObj [])))],
      messagesDir = Some [(''junk.json'', File 1704067200000 (Some (JObj [])))],
      home_writable = True, uuids_drawn = 1, tmux_log = []\<rparr>"

definition aged_inbox :: "(string \<times> node) list" where
  "aged_inbox =
     [(''old1.json'', File 1704067200000 None),
      (''notes.txt'', File 1704067200000 None),
      (''new1.json'', File 1704070800000 (Some JNull)),
      (''old2.json'', File 1704067260000 (Some (JObj []))),
      (''edge.json'', File 1704067320000 None)]"


definition unsortable_inbox :: "(string \<times> node) list" where
  "unsortable_inbox =
     [(''m1.json'', File 1704067200000 (Some (JObj
         [(''id'', JStr ''m1''), (''from'', JStr ''b2''), (''to'', JStr ''a1''),
          (''type'', JStr ''command''), (''content'', JStr ''ls''),
          (''timestamp'', JStr ''2024-01-01T00:00:00.000Z'')]))),
      (''t7.json'', File 1704067260000 (Some (JObj
         [(''id'', JStr ''t7''), (''from'', JStr ''b2''), (''to'', JStr ''a1''),
          (''type'', JStr ''message''), (''content'', JStr ''second''),
          (''timestamp'', JObj [(''toString'', JNum 1)])])))]"

definition misfiled_inbox :: "(string \<times> node) list" where
  "misfiled_inbox =
     [(''f1.json'', File 1704067200000 (Some (JObj
         [(''id'', JStr ''zzz''), (''from'', JStr ''b2''), (''to'', JStr ''a1''),
          (''type'', JStr ''command''), (''content'', JStr ''ls''),
          (''timestamp'', JStr ''2024-01-01T00:00:00.000Z'')]))),
      (''zzz.json'', File 1704067260000 (Some (JObj
         [(''id'', JStr ''zzz''), (''from'', JStr ''b2''), (''to'', JStr ''c3''),
          (''type'', JStr ''message''), (''content'', JStr ''elsewhere''),
          (''timestamp'', JStr ''2024-01-01T00:01:00.000Z'')])))]"

definition unprintable_inbox :: "(string \<times> node) list" where
  "unprintable_inbox =
     [(''p4.json'', File 1704067200000 (Some (JObj
         [(''id'', JStr ''p4''), (''from'', JStr ''b2''), (''to'', JStr ''a1''),
          (''type'', JStr ''command''), (''content'', JObj [(''toString'', JNum 1)]),
          (''timestamp'', JStr ''2024-01-01T00:00:00.000Z'')])))]"

section \<open>Basic facts\<close>

lemma endsWith_append [simp]: "endsWith (s @ suf) suf"
  by (simp add: endsWith_def)



section \<open>The listing loops\<close>

lemma per_file_entry:
  assumes "distinct (map fst es)" and "(f, n) \<in> set es"
  shows "per_file g (Some es) f =
           (case n of File mt (Some v) \<Rightarrow> if endsWith f ''.json'' then g v else [] | _ \<Rightarrow> [])"
proof -
  from assms have "map_of es f = Some n" by simp
  then show ?thesis
    by (auto simp: per_file_def readFile_def JSON_parse_def bindE_def split: node.splits option.splits)
qed

lemma parsed_records_Cons:
  "concat (map g (parsed_records ((f, n) # es))) =
     (case n of File mt (Some v) \<Rightarrow> if endsWith f ''.json'' then g v else [] | _ \<Rightarrow> []) @
     concat (map g (parsed_records es))"
proof (cases n)
  case (File mt c)
  then show ?thesis by (cases c) simp_all
next
  case (SubDir t)
  then show ?thesis by simp
qed

lemma per_file_sublist:
  assumes "distinct (map fst es)" and "set rest \<subseteq> set es"
  shows "concat (map (per_file g (Some es)) (map fst rest)) = concat (map g (parsed_records rest))"
  using assms(2)
proof (induction rest)
  case Nil
  then show ?case by simp
next
  case (Cons e rest)
  obtain f n where e: "e = (f, n)" by (cases e)
  with Cons.prems have "(f, n) \<in> set es" by simp
  then have "per_file g (Some es) f =
      (case n of File mt (Some v) \<Rightarrow> if endsWith f ''.json'' then g v else [] | _ \<Rightarrow> [])"
    using assms(1) by (intro per_file_entry)
  with Cons e show ?case by (simp add: parsed_records_Cons del: parsed_records.simps)
qed

lemma per_file_directory:
  "distinct (map fst es) \<Longrightarrow>
   concat (map (per_file g (Some es)) (map fst es)) = concat (map g (parsed_records es))"
  by (rule per_file_sublist) simp_all

lemma concat_map_filter: "concat (map (\<lambda>v. if P v then [v] else []) xs) = filter P xs"
  by (induction xs) auto

lemma listActiveAgents_loop_eq:
  "listActiveAgents_loop env now d files acc =
     acc @ concat (map (per_file (pushed_agent env now) d) files)"
  by (induction files arbitrary: acc)
     (auto simp: per_file_def pushed_agent_def bindE_def split: sum.splits)

lemma getIncomingMessages_loop_eq:
  "getIncomingMessages_loop mgr d files acc =
     acc @ concat (map (per_file (\<lambda>v. if to_me mgr v then [v] else []) d) files)"
  by (induction files arbitrary: acc)
     (auto simp: per_file_def to_me_def bindE_def split: sum.splits)

lemma getMessageHistory_loop_eq:
  "getMessageHistory_loop mgr tgt d files acc =
     acc @ concat (map (per_file (\<lambda>v. if relevant mgr tgt v then [v] else []) d) files)"
  by (induction files arbitrary: acc)
     (auto simp: per_file_def relevant_def bindE_def split: sum.splits)

lemma listActiveAgents_eq:
  "agentsDir w = Some es \<Longrightarrow>
   listActiveAgents env now w =
     concat (map (per_file (pushed_agent env now) (Some es)) (map fst es))"
  by (simp add: listActiveAgents_def readdir_def listActiveAgents_loop_eq)

lemma listActiveAgents_records:
  assumes "agentsDir w = Some es" and "distinct (map fst es)"
  shows "listActiveAgents env now w = concat (map (pushed_agent env now) (parsed_records es))"
  unfolding listActiveAgents_eq [OF assms(1)] by (rule per_file_directory [OF assms(2)])

lemma getIncomingMessages_records:
  assumes "messagesDir w = Some es" and "distinct (map fst es)"
  shows "getIncomingMessages env mgr w =
           (case sort_by_timestamp env False (filter (to_me mgr) (parsed_records es)) of
              Inr sorted_messages \<Rightarrow> sorted_messages | Inl e \<Rightarrow> [])"
proof -
  have "getIncomingMessages_loop mgr (Some es) (map fst es) [] =
          filter (to_me mgr) (parsed_records es)"
    unfolding getIncomingMessages_loop_eq per_file_directory [OF assms(2)]
    by (simp add: concat_map_filter)
  then show ?thesis
    using assms(1) by (simp add: getIncomingMessages_def readdir_def bindE_def)
qed

lemma getMessageHistory_records:
  assumes "messagesDir w = Some es" and "distinct (map fst es)"
  shows "getMessageHistory env mgr tgt limit w =
           (case sort_by_timestamp env True (filter (relevant mgr tgt) (parsed_records es)) of
              Inr sorted_messages \<Rightarrow> slice0 limit sorted_messages | Inl e \<Rightarrow> [])"
proof -
  have "getMessageHistory_loop mgr tgt (Some es) (map fst es) [] =
          filter (relevant mgr tgt) (parsed_records es)"
    unfolding getMessageHistory_loop_eq per_file_directory [OF assms(2)]
    by (simp add: concat_map_filter)
  then show ?thesis
    using assms(1) by (simp add: getMessageHistory_def readdir_def bindE_def split: sum.splits)
qed

section \<open>Sorting by timestamp\<close>

lemma mset_insert_sorted: "mset (insert_sorted lt x ys) = add_mset x (mset ys)"
  by (induction ys) auto

lemma mset_sort_with_acc:
  "mset (foldl (\<lambda>acc x. insert_sorted lt x acc) acc xs) = mset acc + mset xs"
  by (induction xs arbitrary: acc) (auto simp: mset_insert_sorted)

lemma mset_sort_with: "mset (sort_with lt xs) = mset xs"
  by (simp add: sort_with_def mset_sort_with_acc)

lemma set_insert_sorted: "set (insert_sorted lt x ys) = insert x (set ys)"
  by (induction ys) auto

lemma sorted_insert_sorted:
  fixes f :: "'a \<Rightarrow> int"
  shows "sorted (map f ys) \<Longrightarrow> sorted (map f (insert_sorted (\<lambda>a b. f a < f b) x ys))"
  by (induction ys) (auto simp: set_insert_sorted)

lemma sorted_sort_with_acc:
  fixes f :: "'a \<Rightarrow> int"
  shows "sorted (map f acc) \<Longrightarrow>
         sorted (map f (foldl (\<lambda>acc x. insert_sorted (\<lambda>a b. f a < f b) x acc) acc xs))"
  by (induction xs arbitrary: acc) (auto simp: sorted_insert_sorted)

lemma sorted_sort_with:
  fixes f :: "'a \<Rightarrow> int"
  shows "sorted (map f (sort_with (\<lambda>a b. f a < f b) xs))"
  by (simp add: sort_with_def sorted_sort_with_acc)

lemma insert_sorted_map:
  "(\<And>a b. lt (g a) (g b) = lt' a b) \<Longrightarrow>
   insert_sorted lt (g x) (map g ys) = map g (insert_sorted lt' x ys)"
  by (induction ys) auto

lemma sort_with_map_acc:
  assumes "\<And>a b. lt (g a) (g b) = lt' a b"
  shows "foldl (\<lambda>acc x. insert_sorted lt x acc) (map g acc) (map g xs) =
         map g (foldl (\<lambda>acc x. insert_sorted lt' x acc) acc xs)"
  by (induction xs arbitrary: acc)
     (simp_all add: insert_sorted_map [where lt = lt and g = g and lt' = lt', OF assms])

lemma sort_with_map:
  assumes "\<And>a b. lt (g a) (g b) = lt' a b"
  shows "sort_with lt (map g xs) = map g (sort_with lt' xs)"
  using sort_with_map_acc [where lt = lt and g = g and lt' = lt' and acc = "[]" and xs = xs, OF assms]
  by (simp add: sort_with_def)

lemma sort_with_short: "length xs < 2 \<Longrightarrow> sort_with lt xs = xs"
  by (cases xs) (auto simp: sort_with_def)

lemma sequenceE_map_Inr: "sequenceE (map (\<lambda>x. Inr (h x)) xs) = Inr (map h xs)"
  by (induction xs) auto

lemma sort_by_timestamp_valid:
  assumes "\<forall>m \<in> set ms. valid_timestamp env m"
  shows "sort_by_timestamp env newest_first ms =
           Inr (sort_with (\<lambda>a b. if newest_first then time_of env b < time_of env a
                                 else time_of env a < time_of env b) ms)"
proof (cases "length ms < 2")
  case True
  then show ?thesis by (simp add: sort_by_timestamp_def sort_with_short)
next
  case False
  have key: "timestamp_ms env m = Inr (Some (time_of env m))" if "m \<in> set ms" for m
    using assms that
    by (auto simp: valid_timestamp_def time_of_def split: sum.splits option.splits)
  then have meq: "map (timestamp_ms env) ms = map (\<lambda>m. Inr (Some (time_of env m))) ms"
    by (intro map_cong) simp_all
  have keys: "sequenceE (map (timestamp_ms env) ms) = Inr (map (\<lambda>m. Some (time_of env m)) ms)"
    unfolding meq by (rule sequenceE_map_Inr)
  let ?g = "\<lambda>m. (Some (time_of env m), m)"
  let ?lt = "\<lambda>a b. case (case a of (ka, a') \<Rightarrow> \<lambda>(kb, b').
                 if newest_first then minus_time kb ka else minus_time ka kb) b of
               Some c \<Rightarrow> c < 0 | None \<Rightarrow> False"
  let ?lt' = "\<lambda>a b. if newest_first then time_of env b < time_of env a
                    else time_of env a < time_of env b"
  have z: "zip (map (\<lambda>m. Some (time_of env m)) ms) ms = map ?g ms"
    by (induction ms) auto
  have "sort_with ?lt (map ?g ms) = map ?g (sort_with ?lt' ms)"
    by (rule sort_with_map [where lt = ?lt and g = ?g and lt' = ?lt']) auto
  then have "map snd (sort_with ?lt (map ?g ms)) = sort_with ?lt' ms"
    by (simp add: comp_def)
  with False keys z show ?thesis
    by (simp add: sort_by_timestamp_def bindE_def Array_sort_def)
qed

lemma sorted_key_unique:
  fixes f :: "'a \<Rightarrow> int"
  assumes "sorted (map f xs)" and "distinct (map f xs)" and "sorted (map f ys)"
    and "mset ys = mset xs"
  shows "ys = xs"
proof -
  have m: "mset (map f ys) = mset (map f xs)" using assms(4) by simp
  have dy: "distinct (map f ys)"
    using mset_eq_imp_distinct_iff [OF m] assms(2) by simp
  have s: "set (map f ys) = set (map f xs)" using m by (rule mset_eq_setD)
  have eq: "map f ys = map f xs"
    using assms(3) dy assms(1,2) s by (rule sorted_distinct_set_unique)
  have "set ys = set xs" using assms(4) by (rule mset_eq_setD)
  moreover have "inj_on f (set xs)" using assms(2) by (simp add: distinct_map)
  ultimately have "inj_on f (set ys \<union> set xs)" by simp
  then show ?thesis using eq by (simp add: inj_on_map_eq_map)
qed

lemma sequenceE_Inr:
  "\<forall>r \<in> set rs. \<exists>x. r = Inr x \<Longrightarrow> \<exists>xs. sequenceE rs = Inr xs \<and> length xs = length rs"
proof (induction rs)
  case Nil
  then show ?case by simp
next
  case (Cons r rs)
  then obtain x where "r = Inr x" by auto
  moreover from Cons obtain xs where "sequenceE rs = Inr xs" "length xs = length rs" by auto
  ultimately show ?case by simp
qed

lemma sort_by_timestamp_readable:
  assumes "\<forall>m \<in> set ms. readable_timestamp env m"
  shows "\<exists>xs. sort_by_timestamp env newest_first ms = Inr xs \<and> mset xs = mset ms"
proof (cases "length ms < 2")
  case True
  then show ?thesis by (simp add: sort_by_timestamp_def)
next
  case False
  have "\<exists>x. timestamp_ms env m = Inr x" if "m \<in> set ms" for m
    using assms that by (cases "timestamp_ms env m") (auto simp: readable_timestamp_def)
  then have "\<forall>r \<in> set (map (timestamp_ms env) ms). \<exists>x. r = Inr x"
    by auto
  then obtain keys where k: "sequenceE (map (timestamp_ms env) ms) = Inr keys"
    and l: "length keys = length ms"
    using sequenceE_Inr [of "map (timestamp_ms env) ms"] by auto
  have "mset (map snd (Array_sort cmp (zip keys ms))) = mset ms"
    for cmp :: "int option \<times> json \<Rightarrow> int option \<times> json \<Rightarrow> int option"
  proof -
    have "mset (map snd (Array_sort cmp (zip keys ms))) = image_mset snd (mset (zip keys ms))"
      by (simp add: Array_sort_def mset_sort_with)
    also have "\<dots> = mset (map snd (zip keys ms))" by simp
    also have "\<dots> = mset ms" using l by simp
    finally show ?thesis .
  qed
  with False k show ?thesis by (simp add: sort_by_timestamp_def bindE_def)
qed

section \<open>Presence registry: status at listing time\<close>





section \<open>Presence registry: what a lookup returns\<close>

text \<open>
  C3.  \<^verbatim>\<open>getAgentInfo\<close> returns the parsed file as it is stored: for an agent last seen
  one hour ago whose file says \<^verbatim>\<open>online\<close>, it answers \<^verbatim>\<open>online\<close>, while
  \<^verbatim>\<open>listActiveAgents\<close> at the same instant recomputes the status of the same record to
  \<^verbatim>\<open>offline\<close>.
\<close>

theorem getAgentInfo_returns_stored_status:
  "get (getAgentInfo (Some (JStr ''b2'')) registry_world) ''status'' = Inr (Some (JStr ''online''))
   \<and> getAgentInfo (Some (JStr ''b2'')) registry_world = JObj stale_agent
   \<and> listActiveAgents sample_env 1704070800000 registry_world =
       [JObj [(''id'', JStr ''b2''), (''name'', JStr ''bob''), (''session'', JStr ''work''),
              (''lastSeen'', JStr ''2024-01-01T00:00:00.000Z''), (''status'', JStr ''offline'')]]"
  by (simp add: getAgentInfo_def listActiveAgents_def readdir_def readFile_def JSON_parse_def
      bindE_def registry_world_def stale_agent_def with_status_def sample_env_def
      sample_parse_def diffMinutes_def endsWith_def)

section \<open>Presence registry: one identifier, one record\<close>

lemma writeFile_ok:
  "\<not> is_SubDir (map_of es name) \<Longrightarrow>
   writeFile (Some es) name now v = Inr (Some (AList.update name (File now (Some v)) es))"
  by (cases "map_of es name" rule: is_SubDir.cases) (auto simp: writeFile_def)

lemma registerAgent_ok:
  assumes "agentsDir w = Some es" and "\<not> is_SubDir (map_of es (agentId mgr @ ''.json''))"
  shows "registerAgent env mgr now sessionName w =
           (Inr (registered_confirmation mgr),
            w\<lparr>agentsDir := Some (AList.update (agentId mgr @ ''.json'')
                 (File now (Some (agentInfo_record env mgr now sessionName))) es)\<rparr>)"
  using assms
  by (simp add: registerAgent_def writeFile_ok obj_def List.map_filter_simps
      agentInfo_record_def registered_confirmation_def)

lemma registerAgent_calls_ok:
  assumes "agentsDir w = Some es" and "\<not> is_SubDir (map_of es (agentId mgr @ ''.json''))"
    and "calls \<noteq> []"
  shows "registerAgent_calls env mgr calls w =
           (replicate (length calls) (Inr (registered_confirmation mgr)),
            w\<lparr>agentsDir := Some (AList.update (agentId mgr @ ''.json'')
                 (File (fst (last calls))
                    (Some (agentInfo_record env mgr (fst (last calls)) (snd (last calls))))) es)\<rparr>)"
  using assms
proof (induction calls arbitrary: w es)
  case Nil
  then show ?case by simp
next
  case (Cons c calls)
  obtain now s where c: "c = (now, s)" by (cases c)
  let ?k = "agentId mgr @ ''.json''"
  let ?es1 = "AList.update ?k (File now (Some (agentInfo_record env mgr now s))) es"
  let ?w1 = "w\<lparr>agentsDir := Some ?es1\<rparr>"
  have step: "registerAgent env mgr now s w = (Inr (registered_confirmation mgr), ?w1)"
    using Cons.prems(1,2) by (rule registerAgent_ok)
  show ?case
  proof (cases "calls = []")
    case True
    with step c show ?thesis by simp
  next
    case False
    have "agentsDir ?w1 = Some ?es1" by simp
    moreover have "\<not> is_SubDir (map_of ?es1 ?k)" by (simp add: update_conv')
    ultimately have "registerAgent_calls env mgr calls ?w1 =
           (replicate (length calls) (Inr (registered_confirmation mgr)),
            ?w1\<lparr>agentsDir := Some (AList.update ?k
                 (File (fst (last calls))
                    (Some (agentInfo_record env mgr (fst (last calls)) (snd (last calls))))) ?es1)\<rparr>)"
      using False by (rule Cons.IH)
    with step c False show ?thesis by simp
  qed
qed

lemma count_update_distinct:
  "distinct (map fst es) \<Longrightarrow> length (filter (\<lambda>e. fst e = k) (AList.update k v es)) = 1"
proof (induction es)
  case Nil
  then show ?case by simp
next
  case (Cons e es)
  then show ?case
    by (cases e) (auto simp: filter_empty_conv image_iff)
qed

text \<open>
  C10.  The constructor draws the identifier; \<^verbatim>\<open>registerAgent\<close> draws none.  For a
  non-empty sequence of registrations by one manager on a registry with distinct file
  names (and no subdirectory in the place of the agent's file), every call returns the
  confirmation string with the manager's identifier, and the registry afterwards is the
  initial one with the single file \<^verbatim>\<open><agentId>.json\<close> replaced or added: it holds the
  record of the last call, carries the manager's identifier, and is the only entry of that
  name, so the directory has grown by at most one entry however many calls were made.
\<close>

theorem registerAgent_same_identifier:
  assumes "agentsDir w = Some es" and "distinct (map fst es)"
    and "\<not> is_SubDir (map_of es (agentId mgr @ ''.json''))"
    and "calls \<noteq> []"
    and "registerAgent_calls env mgr calls w = (rs, w')"
  shows "rs = replicate (length calls)
                (Inr (''Agent '' @ dq @ agentName mgr @ dq @ '' registered with ID: '' @ agentId mgr))
       \<and> (\<exists>es'. agentsDir w' = Some es'
            \<and> es' = AList.update (agentId mgr @ ''.json'')
                      (File (fst (last calls))
                         (Some (JObj [(''id'', JStr (agentId mgr)),
                                      (''name'', JStr (agentName mgr)),
                                      (''session'', JStr (snd (last calls))),
                                      (''lastSeen'', JStr (toISOString env (fst (last calls)))),
                                      (''status'', JStr ''online'')]))) es
            \<and> fst ` set es' = insert (agentId mgr @ ''.json'') (fst ` set es)
            \<and> length (filter (\<lambda>e. fst e = agentId mgr @ ''.json'') es') = 1
            \<and> length es' = (if agentId mgr @ ''.json'' \<in> fst ` set es then length es
                             else Suc (length es)))
       \<and> uuids_drawn w' = uuids_drawn w
       \<and> agentId (fst (constructor env name w0)) = randomUUID env (uuids_drawn w0)"
proof -
  let ?k = "agentId mgr @ ''.json''"
  let ?es' = "AList.update ?k
                 (File (fst (last calls))
                    (Some (agentInfo_record env mgr (fst (last calls)) (snd (last calls))))) es"
  from registerAgent_calls_ok [OF assms(1,3,4), of env] assms(5)
  have rs: "rs = replicate (length calls) (Inr (registered_confirmation mgr))"
    and w': "w' = w\<lparr>agentsDir := Some ?es'\<rparr>"
    by simp_all
  have "length ?es' = (if ?k \<in> fst ` set es then length es else Suc (length es))"
    by (induction es) auto
  moreover have "fst ` set ?es' = insert ?k (fst ` set es)"
    by (simp add: dom_update)
  moreover have "length (filter (\<lambda>e. fst e = ?k) ?es') = 1"
    using assms(2) by (rule count_update_distinct)
  ultimately show ?thesis
    using rs w' by (simp add: registered_confirmation_def agentInfo_record_def constructor_def)
qed

theorem registerAgent_same_identifier_witness:
  "registerAgent_calls sample_env alice
     [(1704067260000, ''main''), (1704067320000, ''main''), (1704070800000, ''spare'')]
     registry_world =
   (replicate 3 (Inr (''Agent '' @ dq @ ''alice'' @ dq @ '' registered with ID: a1'')),
    registry_world\<lparr>agentsDir := Some
      [(''b2.json'', File 1704067200000 (Some (JObj stale_agent))),
       (''a1.json'', File 1704070800000
          (Some (JObj [(''id'', JStr ''a1''), (''name'', JStr ''alice''),
                       (''session'', JStr ''spare''),
                       (''lastSeen'', JStr ''2024-01-01T01:00:00.000Z''),
                       (''status'', JStr ''online'')])))]\<rparr>)"
  using registerAgent_same_identifier [where w = registry_world
      and es = "[(''b2.json'', File 1704067200000 (Some (JObj stale_agent)))]"
      and mgr = alice and env = sample_env
      and calls = "[(1704067260000, ''main''), (1704067320000, ''main''), (1704070800000, ''spare'')]"
      and rs = "fst (registerAgent_calls sample_env alice
          [(1704067260000, ''main''), (1704067320000, ''main''), (1704070800000, ''spare'')]
          registry_world)"
      and w' = "snd (registerAgent_calls sample_env alice
          [(1704067260000, ''main''), (1704067320000, ''main''), (1704070800000, ''spare'')]
          registry_world)"]
  by (simp add: registry_world_def alice_def sample_env_def sample_iso_def registerAgent_def
      writeFile_def obj_def List.map_filter_simps numeral_3_eq_3)

section \<open>Message queue: the inbox order\<close>


lemma getIncomingMessages_perm:
  assumes "messagesDir w = Some es" and "distinct (map fst es)"
    and "\<forall>m \<in> set (filter (to_me mgr) (parsed_records es)). readable_timestamp env m"
  shows "mset (getIncomingMessages env mgr w) = mset (filter (to_me mgr) (parsed_records es))"
proof -
  from sort_by_timestamp_readable [OF assms(3), of False]
  obtain xs where "sort_by_timestamp env False (filter (to_me mgr) (parsed_records es)) = Inr xs"
    and "mset xs = mset (filter (to_me mgr) (parsed_records es))" by blast
  then show ?thesis
    unfolding getIncomingMessages_records [OF assms(1,2)] by simp
qed




section \<open>Message queue: the history\<close>

lemma getMessageHistory_eq:
  assumes "messagesDir w = Some es" and "distinct (map fst es)"
    and "\<forall>m \<in> set (filter (relevant mgr tgt) (parsed_records es)). valid_timestamp env m"
  shows "getMessageHistory env mgr tgt limit w =
           slice0 limit (sort_with (\<lambda>a b. time_of env b < time_of env a)
             (filter (relevant mgr tgt) (parsed_records es)))"
proof -
  have "getMessageHistory_loop mgr tgt (Some es) (map fst es) [] =
          filter (relevant mgr tgt) (parsed_records es)"
    unfolding getMessageHistory_loop_eq per_file_directory [OF assms(2)]
    by (simp add: concat_map_filter)
  then show ?thesis
    using assms(1) sort_by_timestamp_valid [OF assms(3), of True]
    by (simp add: getMessageHistory_def readdir_def bindE_def)
qed

lemma sorted_wrt_sort_with_desc:
  "sorted_wrt (\<lambda>a b. time_of env b \<le> time_of env a)
     (sort_with (\<lambda>a b. time_of env b < time_of env a) xs)"
proof -
  have "sorted (map (\<lambda>m. - time_of env m)
          (sort_with (\<lambda>a b. (\<lambda>m. - time_of env m) a < (\<lambda>m. - time_of env m) b) xs))"
    by (rule sorted_sort_with)
  then show ?thesis by (simp add: sorted_map)
qed

lemma relevant_no_target:
  "tgt = None \<or> tgt = Some [] \<Longrightarrow> relevant mgr tgt v"
  by (auto simp: relevant_def isRelevant_def)

lemma relevant_target:
  "t \<noteq> [] \<Longrightarrow>
   relevant mgr (Some t) v \<longleftrightarrow>
     (get v ''from'' = Inr (Some (JStr t)) \<or> get v ''to'' = Inr (Some (JStr t)) \<or>
      get v ''from'' = Inr (Some (JStr (agentId mgr))) \<or>
      get v ''to'' = Inr (Some (JStr (agentId mgr))))"
  by (cases v) (auto simp: relevant_def isRelevant_def bindE_def)

lemma slice0_take:
  "slice0 limit xs =
     (if 0 \<le> limit then take (nat limit) xs else take (length xs - nat (- limit)) xs)"
  by (auto simp: slice0_def Let_def min_def max_def nat_diff_distrib' intro: arg_cong2 [where f = take])

lemma getMessageHistory_bound:
  "0 \<le> limit \<Longrightarrow> length (getMessageHistory env mgr tgt limit w) \<le> nat limit"
  by (auto simp: getMessageHistory_def bindE_def slice0_take split: sum.splits)

text \<open>
  C2, as the code has it.  When a non-empty \<^verbatim>\<open>targetId\<close> is given, a record is
  selected exactly if the target or the caller is its sender or its recipient; when
  \<^verbatim>\<open>targetId\<close> is absent or empty, every parsed record is selected, whoever sent it.
  For a message directory with distinct file names and a limit that is a number \<open>n\<close> of
  entries: \<^verbatim>\<open>getMessageHistory\<close> never returns more than \<open>n\<close> entries; when the
  comparator can read every selected record (\<^verbatim>\<open>new Date(m.timestamp)\<close> throws on
  none of them), it returns what \<^verbatim>\<open>slice(0, limit)\<close> keeps of an arrangement of
  exactly the selected records, that is, its first \<open>n\<close> entries; and when the selected
  records all carry valid timestamps, that arrangement and the result are ordered newest
  first.
\<close>

theorem getMessageHistory_newest_first:
  assumes "messagesDir w = Some es" and "distinct (map fst es)"
  shows "length (getMessageHistory env mgr tgt (int n) w) \<le> n
       \<and> ((\<forall>m \<in> set (filter (relevant mgr tgt) (parsed_records es)). readable_timestamp env m) \<longrightarrow>
            (\<exists>ordered.
               mset ordered = mset (filter (relevant mgr tgt) (parsed_records es)) \<and>
               ((\<forall>m \<in> set (filter (relevant mgr tgt) (parsed_records es)). valid_timestamp env m) \<longrightarrow>
                  sorted_wrt (\<lambda>a b. time_of env b \<le> time_of env a) ordered) \<and>
               getMessageHistory env mgr tgt limit w = slice0 limit ordered \<and>
               getMessageHistory env mgr tgt (int n) w = take n ordered))
       \<and> ((\<forall>m \<in> set (filter (relevant mgr tgt) (parsed_records es)). valid_timestamp env m) \<longrightarrow>
            sorted_wrt (\<lambda>a b. time_of env b \<le> time_of env a) (getMessageHistory env mgr tgt limit w))
       \<and> (\<forall>v. tgt = None \<or> tgt = Some [] \<longrightarrow> relevant mgr tgt v)
       \<and> (\<forall>v t. tgt = Some t \<and> t \<noteq> [] \<longrightarrow>
             (relevant mgr tgt v \<longleftrightarrow>
               get v ''from'' = Inr (Some (JStr t)) \<or> get v ''to'' = Inr (Some (JStr t)) \<or>
               get v ''from'' = Inr (Some (JStr (agentId mgr))) \<or>
               get v ''to'' = Inr (Some (JStr (agentId mgr)))))"
proof -
  let ?rel = "filter (relevant mgr tgt) (parsed_records es)"
  let ?ord = "sort_with (\<lambda>a b. time_of env b < time_of env a) ?rel"
  let ?res = "getMessageHistory env mgr tgt limit w"
  let ?desc = "sorted_wrt (\<lambda>a b. time_of env b \<le> time_of env a)"
  have 1: "length (getMessageHistory env mgr tgt (int n) w) \<le> n"
    using getMessageHistory_bound [of "int n" env mgr tgt w] by simp
  have 2: "\<exists>ordered. mset ordered = mset ?rel \<and>
            ((\<forall>m \<in> set ?rel. valid_timestamp env m) \<longrightarrow> ?desc ordered) \<and>
            ?res = slice0 limit ordered \<and>
            getMessageHistory env mgr tgt (int n) w = take n ordered"
    if r: "\<forall>m \<in> set ?rel. readable_timestamp env m"
  proof -
    from sort_by_timestamp_readable [OF r, of True]
    obtain xs where xs: "sort_by_timestamp env True ?rel = Inr xs" and p: "mset xs = mset ?rel"
      by blast
    have res: "getMessageHistory env mgr tgt k w = slice0 k xs" for k
      unfolding getMessageHistory_records [OF assms] xs by simp
    have "?desc xs" if v: "\<forall>m \<in> set ?rel. valid_timestamp env m"
    proof -
      from sort_by_timestamp_valid [OF v, of True] xs have "xs = ?ord" by simp
      then show ?thesis by (simp add: sorted_wrt_sort_with_desc)
    qed
    with p res [of limit] res [of "int n"] show ?thesis
      by (intro exI [of _ xs]) (simp add: slice0_take)
  qed
  have 3: "?desc ?res" if v: "\<forall>m \<in> set ?rel. valid_timestamp env m"
  proof -
    have "?res = slice0 limit ?ord" using assms v by (rule getMessageHistory_eq)
    then show ?thesis
      unfolding slice0_def Let_def using sorted_wrt_sort_with_desc by (simp add: sorted_wrt_take)
  qed
  show ?thesis
    using 1 2 3 relevant_no_target relevant_target by blast
qed

theorem getMessageHistory_newest_first_witness:
  "getMessageHistory sample_env dave (Some ''c3'') 1 inbox_world =
     [JObj [(''id'', JStr ''m2''), (''from'', JStr ''c3''), (''to'', JStr ''a1''),
            (''type'', JStr ''message''), (''content'', JStr ''second''),
            (''timestamp'', JStr ''2024-01-01T00:01:00.000Z'')]]"
proof -
  have d: "distinct (map fst alice_inbox)" by (simp add: alice_inbox_def)
  have m: "messagesDir inbox_world = Some alice_inbox" by (simp add: inbox_world_def)
  have rel: "filter (relevant dave (Some ''c3'')) (parsed_records alice_inbox) =
     [JObj [(''id'', JStr ''x9''), (''from'', JStr ''b2''), (''to'', JStr ''c3''),
            (''type'', JStr ''message''), (''content'', JStr ''elsewhere''),
            (''timestamp'', JStr ''2024-01-01T00:00:00.000Z'')],
      JObj [(''id'', JStr ''m2''), (''from'', JStr ''c3''), (''to'', JStr ''a1''),
            (''type'', JStr ''message''), (''content'', JStr ''second''),
            (''timestamp'', JStr ''2024-01-01T00:01:00.000Z'')]]"
    by (simp add: alice_inbox_def relevant_target dave_def endsWith_def)
  have v: "\<forall>m \<in> set (filter (relevant dave (Some ''c3'')) (parsed_records alice_inbox)).
             valid_timestamp sample_env m"
    unfolding rel
    by (simp add: valid_timestamp_def timestamp_ms_def bindE_def sample_env_def sample_parse_def)
  have r: "\<forall>m \<in> set (filter (relevant dave (Some ''c3'')) (parsed_records alice_inbox)).
             readable_timestamp sample_env m"
    unfolding rel
    by (simp add: readable_timestamp_def timestamp_ms_def bindE_def sample_env_def sample_parse_def)
  let ?rel = "filter (relevant dave (Some ''c3'')) (parsed_records alice_inbox)"
  from getMessageHistory_newest_first [OF m d, where n = 1 and env = sample_env and mgr = dave
      and tgt = "Some ''c3''" and limit = 1]
  have "(\<forall>m \<in> set ?rel. readable_timestamp sample_env m) \<longrightarrow>
          (\<exists>ordered. mset ordered = mset ?rel \<and>
             ((\<forall>m \<in> set ?rel. valid_timestamp sample_env m) \<longrightarrow>
                sorted_wrt (\<lambda>a b. time_of sample_env b \<le> time_of sample_env a) ordered) \<and>
             getMessageHistory sample_env dave (Some ''c3'') 1 inbox_world = slice0 1 ordered \<and>
             getMessageHistory sample_env dave (Some ''c3'') (int 1) inbox_world = take 1 ordered)"
    by (rule conjunct1 [OF conjunct2])
  with r v obtain ordered where o: "mset ordered = mset ?rel"
    "sorted_wrt (\<lambda>a b. time_of sample_env b \<le> time_of sample_env a) ordered"
    "getMessageHistory sample_env dave (Some ''c3'') (int 1) inbox_world = take 1 ordered"
    by blast
  let ?x9 = "JObj [(''id'', JStr ''x9''), (''from'', JStr ''b2''), (''to'', JStr ''c3''),
            (''type'', JStr ''message''), (''content'', JStr ''elsewhere''),
            (''timestamp'', JStr ''2024-01-01T00:00:00.000Z'')]"
  let ?m2 = "JObj [(''id'', JStr ''m2''), (''from'', JStr ''c3''), (''to'', JStr ''a1''),
            (''type'', JStr ''message''), (''content'', JStr ''second''),
            (''timestamp'', JStr ''2024-01-01T00:01:00.000Z'')]"
  have t: "time_of sample_env ?x9 = 1704067200000" "time_of sample_env ?m2 = 1704067260000"
    by (simp_all add: time_of_def timestamp_ms_def bindE_def sample_env_def sample_parse_def)
  have "ordered = [?m2, ?x9]"
  proof (rule sorted_key_unique [where f = "\<lambda>m. - time_of sample_env m"])
    show "sorted (map (\<lambda>m. - time_of sample_env m) [?m2, ?x9])" using t by simp
    show "distinct (map (\<lambda>m. - time_of sample_env m) [?m2, ?x9])" using t by simp
    show "sorted (map (\<lambda>m. - time_of sample_env m) ordered)" using o(2) by (simp add: sorted_map)
    show "mset ordered = mset [?m2, ?x9]" using o(1) unfolding rel by simp
  qed
  with o(3) show ?thesis by simp
qed

text \<open>
  C2, as the claim has it, fails in two ways.  Without a target nothing is filtered: a
  caller \<open>d4\<close> who is neither sender nor recipient of any stored record gets all four
  records back.  And one selected record whose timestamp is not a date empties the
  result: of the two records from \<open>b2\<close> to \<open>a1\<close>, one has an object with an own
  \<^verbatim>\<open>toString\<close> property as its timestamp, and the history of \<open>a1\<close> with \<open>b2\<close>
  comes back empty, the comparator having thrown inside the sort.
\<close>

theorem getMessageHistory_claimed_filter_counterexample:
  "agentId dave = ''d4''
   \<and> getMessageHistory sample_env dave None 50 inbox_world =
     [JObj [(''id'', JStr ''m3''), (''from'', JStr ''b2''), (''to'', JStr ''a1''),
            (''type'', JStr ''message''), (''content'', JStr ''third''),
            (''timestamp'', JStr ''2024-01-01T00:02:00.000Z'')],
      JObj [(''id'', JStr ''m2''), (''from'', JStr ''c3''), (''to'', JStr ''a1''),
            (''type'', JStr ''message''), (''content'', JStr ''second''),
            (''timestamp'', JStr ''2024-01-01T00:01:00.000Z'')],
      JObj [(''id'', JStr ''m1''), (''from'', JStr ''b2''), (''to'', JStr ''a1''),
            (''type'', JStr ''command''), (''content'', JStr ''ls''),
            (''timestamp'', JStr ''2024-01-01T00:00:00.000Z'')],
      JObj [(''id'', JStr ''x9''), (''from'', JStr ''b2''), (''to'', JStr ''c3''),
            (''type'', JStr ''message''), (''content'', JStr ''elsewhere''),
            (''timestamp'', JStr ''2024-01-01T00:00:00.000Z'')]]
   \<and> agentId alice = ''a1''
   \<and> messagesDir (inbox_world\<lparr>messagesDir := Some unsortable_inbox\<rparr>) =
     Some [(''m1.json'', File 1704067200000 (Some (JObj
              [(''id'', JStr ''m1''), (''from'', JStr ''b2''), (''to'', JStr ''a1''),
               (''type'', JStr ''command''), (''content'', JStr ''ls''),
               (''timestamp'', JStr ''2024-01-01T00:00:00.000Z'')]))),
           (''t7.json'', File 1704067260000 (Some (JObj
              [(''id'', JStr ''t7''), (''from'', JStr ''b2''), (''to'', JStr ''a1''),
               (''type'', JStr ''message''), (''content'', JStr ''second''),
               (''timestamp'', JObj [(''toString'', JNum 1)])])))]
   \<and> getMessageHistory sample_env alice (Some ''b2'') 50
       (inbox_world\<lparr>messagesDir := Some unsortable_inbox\<rparr>) = []"
  by (simp add: getMessageHistory_def readdir_def readFile_def JSON_parse_def bindE_def
      inbox_world_def alice_inbox_def unsortable_inbox_def isRelevant_def endsWith_def
      sort_by_timestamp_def timestamp_ms_def sample_env_def sample_parse_def Array_sort_def
      sort_with_def slice0_def dave_def alice_def)

section \<open>Unparseable record files\<close>

lemma parsed_records_parseable:
  "parsed_records (filter (\<lambda>e. parseable (snd e)) es) = parsed_records es"
  by (induction es rule: parsed_records.induct) auto

lemma with_status_object:
  assumes "Date_getTime (Date_parse env) (map_of kvs ''lastSeen'') = Inr k"
  shows "\<exists>st. with_status env now (JObj kvs) = Inr (JObj (AList.update ''status'' (JStr st) kvs))"
  using assms by (cases "case k of None \<Rightarrow> False | Some t \<Rightarrow> diffMinutes now t < 5")
    (auto simp: with_status_def bindE_def)

text \<open>
  C4, as the code has it.  In a directory with distinct file names, the entries that are
  not files with valid JSON text (text that \<^verbatim>\<open>JSON.parse\<close> rejects, or an entry that
  cannot be read as a file) are skipped by \<^verbatim>\<open>listActiveAgents\<close>,
  \<^verbatim>\<open>getIncomingMessages\<close> and \<^verbatim>\<open>getMessageHistory\<close>: each returns what it returns
  on the directory without them.  The remaining parseable records are returned:
  \<^verbatim>\<open>listActiveAgents\<close> returns, with a status, every parsed object whose
  \<^verbatim>\<open>lastSeen\<close> converts to a date value without throwing, and returns nothing that
  does not come from a parsed record; \<^verbatim>\<open>getIncomingMessages\<close> returns exactly the
  parsed records addressed to the caller, and \<^verbatim>\<open>getMessageHistory\<close> what
  \<^verbatim>\<open>slice(0, limit)\<close> keeps of the selected parsed records, provided in both cases
  that the comparator can read every one of these records (\<^verbatim>\<open>new Date(m.timestamp)\<close>
  throws on none of them).  Nothing
  here asks a parsed record to have the expected shape.  The three operations return a
  list on every input (each statement of theirs is inside a \<^verbatim>\<open>try\<close>), which the
  model expresses by their type.
\<close>

theorem listings_skip_unparseable:
  assumes "distinct (map fst es)"
  shows "listActiveAgents env now (w\<lparr>agentsDir := Some es\<rparr>) =
           listActiveAgents env now (w\<lparr>agentsDir := Some (filter (\<lambda>e. parseable (snd e)) es)\<rparr>)
       \<and> getIncomingMessages env mgr (w\<lparr>messagesDir := Some es\<rparr>) =
           getIncomingMessages env mgr (w\<lparr>messagesDir := Some (filter (\<lambda>e. parseable (snd e)) es)\<rparr>)
       \<and> getMessageHistory env mgr tgt limit (w\<lparr>messagesDir := Some es\<rparr>) =
           getMessageHistory env mgr tgt limit
             (w\<lparr>messagesDir := Some (filter (\<lambda>e. parseable (snd e)) es)\<rparr>)
       \<and> (\<forall>kvs k. JObj kvs \<in> set (parsed_records es) \<and>
             Date_getTime (Date_parse env) (map_of kvs ''lastSeen'') = Inr k \<longrightarrow>
             (\<exists>st. JObj (AList.update ''status'' (JStr st) kvs) \<in>
                     set (listActiveAgents env now (w\<lparr>agentsDir := Some es\<rparr>))))
       \<and> (\<forall>a \<in> set (listActiveAgents env now (w\<lparr>agentsDir := Some es\<rparr>)).
             \<exists>v \<in> set (parsed_records es). with_status env now v = Inr a)
       \<and> ((\<forall>m \<in> set (filter (to_me mgr) (parsed_records es)). readable_timestamp env m) \<longrightarrow>
            mset (getIncomingMessages env mgr (w\<lparr>messagesDir := Some es\<rparr>)) =
              mset (filter (to_me mgr) (parsed_records es)))
       \<and> ((\<forall>m \<in> set (filter (relevant mgr tgt) (parsed_records es)). readable_timestamp env m) \<longrightarrow>
            (\<exists>ordered.
               mset ordered = mset (filter (relevant mgr tgt) (parsed_records es)) \<and>
               getMessageHistory env mgr tgt limit (w\<lparr>messagesDir := Some es\<rparr>) =
                 slice0 limit ordered))"
proof -
  have d: "distinct (map fst (filter (\<lambda>e. parseable (snd e)) es))"
    using assms by (rule distinct_map_filter)
  have la: "listActiveAgents env now (w\<lparr>agentsDir := Some es\<rparr>) =
              concat (map (pushed_agent env now) (parsed_records es))"
    using assms by (simp add: listActiveAgents_records)
  have skip: "listActiveAgents env now (w\<lparr>agentsDir := Some es\<rparr>) =
           listActiveAgents env now (w\<lparr>agentsDir := Some (filter (\<lambda>e. parseable (snd e)) es)\<rparr>)
       \<and> getIncomingMessages env mgr (w\<lparr>messagesDir := Some es\<rparr>) =
           getIncomingMessages env mgr (w\<lparr>messagesDir := Some (filter (\<lambda>e. parseable (snd e)) es)\<rparr>)
       \<and> getMessageHistory env mgr tgt limit (w\<lparr>messagesDir := Some es\<rparr>) =
           getMessageHistory env mgr tgt limit
             (w\<lparr>messagesDir := Some (filter (\<lambda>e. parseable (snd e)) es)\<rparr>)"
    using assms d
    by (simp add: listActiveAgents_records getIncomingMessages_records getMessageHistory_records
        parsed_records_parseable)
  have listed: "\<exists>st. JObj (AList.update ''status'' (JStr st) kvs) \<in>
                     set (listActiveAgents env now (w\<lparr>agentsDir := Some es\<rparr>))"
    if "JObj kvs \<in> set (parsed_records es)"
      and "Date_getTime (Date_parse env) (map_of kvs ''lastSeen'') = Inr k" for kvs k
  proof -
    from with_status_object [OF that(2), of now] obtain st where
      "with_status env now (JObj kvs) = Inr (JObj (AList.update ''status'' (JStr st) kvs))" ..
    then have "JObj (AList.update ''status'' (JStr st) kvs) \<in> set (pushed_agent env now (JObj kvs))"
      by (simp add: pushed_agent_def)
    with that(1) show ?thesis unfolding la by auto
  qed
  have only: "\<forall>a \<in> set (listActiveAgents env now (w\<lparr>agentsDir := Some es\<rparr>)).
             \<exists>v \<in> set (parsed_records es). with_status env now v = Inr a"
    unfolding la by (auto simp: pushed_agent_def split: sum.splits)
  have inc: "mset (getIncomingMessages env mgr (w\<lparr>messagesDir := Some es\<rparr>)) =
              mset (filter (to_me mgr) (parsed_records es))"
    if "\<forall>m \<in> set (filter (to_me mgr) (parsed_records es)). readable_timestamp env m"
    using that assms by (intro getIncomingMessages_perm) simp_all
  have hist: "\<exists>ordered.
               mset ordered = mset (filter (relevant mgr tgt) (parsed_records es)) \<and>
               getMessageHistory env mgr tgt limit (w\<lparr>messagesDir := Some es\<rparr>) =
                 slice0 limit ordered"
    if r: "\<forall>m \<in> set (filter (relevant mgr tgt) (parsed_records es)). readable_timestamp env m"
  proof -
    from sort_by_timestamp_readable [OF r, of True]
    obtain xs where xs: "sort_by_timestamp env True (filter (relevant mgr tgt) (parsed_records es)) = Inr xs"
      and p: "mset xs = mset (filter (relevant mgr tgt) (parsed_records es))"
      by blast
    have "getMessageHistory env mgr tgt limit (w\<lparr>messagesDir := Some es\<rparr>) = slice0 limit xs"
      using assms xs by (simp add: getMessageHistory_records)
    with p show ?thesis by (intro exI [of _ xs]) simp
  qed
  from skip listed only inc hist show ?thesis by blast
qed

theorem listings_skip_unparseable_witness:
  "listActiveAgents sample_env 1704070800000
     (registry_world\<lparr>agentsDir := Some
        [(''bad.json'', File 1704067200000 None),
         (''b2.json'', File 1704067200000 (Some (JObj stale_agent))),
         (''dir.json'', SubDir 1704067200000)]\<rparr>) =
   listActiveAgents sample_env 1704070800000 registry_world
   \<and> getIncomingMessages sample_env alice
       (inbox_world\<lparr>messagesDir := Some ((''bad.json'', File 1704067200000 None) # alice_inbox)\<rparr>) =
     getIncomingMessages sample_env alice inbox_world
   \<and> getMessageHistory sample_env alice None 50
       (inbox_world\<lparr>messagesDir := Some ((''bad.json'', File 1704067200000 None) # alice_inbox)\<rparr>) =
     getMessageHistory sample_env alice None 50 inbox_world
   \<and> mset (getIncomingMessages sample_env alice
       (inbox_world\<lparr>messagesDir := Some ((''bad.json'', File 1704067200000 None) # alice_inbox)\<rparr>)) =
     {#JObj [(''id'', JStr ''m3''), (''from'', JStr ''b2''), (''to'', JStr ''a1''),
            (''type'', JStr ''message''), (''content'', JStr ''third''),
            (''timestamp'', JStr ''2024-01-01T00:02:00.000Z'')],
      JObj [(''id'', JStr ''m1''), (''from'', JStr ''b2''), (''to'', JStr ''a1''),
            (''type'', JStr ''command''), (''content'', JStr ''ls''),
            (''timestamp'', JStr ''2024-01-01T00:00:00.000Z'')],
      JObj [(''id'', JStr ''m2''), (''from'', JStr ''c3''), (''to'', JStr ''a1''),
            (''type'', JStr ''message''), (''content'', JStr ''second''),
            (''timestamp'', JStr ''2024-01-01T00:01:00.000Z'')]#}"
proof -
  have r: "registry_world = registry_world\<lparr>agentsDir := Some
        [(''b2.json'', File 1704067200000 (Some (JObj stale_agent)))]\<rparr>"
    by (simp add: registry_world_def)
  have i: "inbox_world = inbox_world\<lparr>messagesDir := Some alice_inbox\<rparr>"
    by (simp add: inbox_world_def)
  have f: "filter (\<lambda>e. parseable (snd e)) ((''bad.json'', File 1704067200000 None) # alice_inbox) =
           alice_inbox"
    by (simp add: alice_inbox_def)
  have 1: "listActiveAgents sample_env 1704070800000
     (registry_world\<lparr>agentsDir := Some
        [(''bad.json'', File 1704067200000 None),
         (''b2.json'', File 1704067200000 (Some (JObj stale_agent))),
         (''dir.json'', SubDir 1704067200000)]\<rparr>) =
   listActiveAgents sample_env 1704070800000 registry_world"
    using listings_skip_unparseable [where w = registry_world and env = sample_env
        and es = "[(''bad.json'', File 1704067200000 None),
         (''b2.json'', File 1704067200000 (Some (JObj stale_agent))),
         (''dir.json'', SubDir 1704067200000)]" and now = 1704070800000] r
    by simp
  have d: "distinct (map fst ((''bad.json'', File 1704067200000 None) # alice_inbox))"
    by (simp add: alice_inbox_def)
  note inst = listings_skip_unparseable [where w = inbox_world and env = sample_env and mgr = alice
        and es = "(''bad.json'', File 1704067200000 None) # alice_inbox" and tgt = None
        and limit = 50, OF d]
  have 2: "getIncomingMessages sample_env alice
       (inbox_world\<lparr>messagesDir := Some ((''bad.json'', File 1704067200000 None) # alice_inbox)\<rparr>) =
     getIncomingMessages sample_env alice inbox_world
   \<and> getMessageHistory sample_env alice None 50
       (inbox_world\<lparr>messagesDir := Some ((''bad.json'', File 1704067200000 None) # alice_inbox)\<rparr>) =
     getMessageHistory sample_env alice None 50 inbox_world"
    using inst i f by simp
  have inc: "filter (to_me alice) (parsed_records ((''bad.json'', File 1704067200000 None) # alice_inbox)) =
     [JObj [(''id'', JStr ''m3''), (''from'', JStr ''b2''), (''to'', JStr ''a1''),
            (''type'', JStr ''message''), (''content'', JStr ''third''),
            (''timestamp'', JStr ''2024-01-01T00:02:00.000Z'')],
      JObj [(''id'', JStr ''m1''), (''from'', JStr ''b2''), (''to'', JStr ''a1''),
            (''type'', JStr ''command''), (''content'', JStr ''ls''),
            (''timestamp'', JStr ''2024-01-01T00:00:00.000Z'')],
      JObj [(''id'', JStr ''m2''), (''from'', JStr ''c3''), (''to'', JStr ''a1''),
            (''type'', JStr ''message''), (''content'', JStr ''second''),
            (''timestamp'', JStr ''2024-01-01T00:01:00.000Z'')]]"
    by (simp add: alice_inbox_def to_me_def alice_def endsWith_def)
  have rd: "\<forall>m \<in> set (filter (to_me alice)
              (parsed_records ((''bad.json'', File 1704067200000 None) # alice_inbox))).
              readable_timestamp sample_env m"
    unfolding inc
    by (simp add: readable_timestamp_def timestamp_ms_def bindE_def sample_env_def)
  from inst rd have "mset (getIncomingMessages sample_env alice
       (inbox_world\<lparr>messagesDir := Some ((''bad.json'', File 1704067200000 None) # alice_inbox)\<rparr>)) =
     mset (filter (to_me alice) (parsed_records ((''bad.json'', File 1704067200000 None) # alice_inbox)))"
    by blast
  then have 3: "mset (getIncomingMessages sample_env alice
       (inbox_world\<lparr>messagesDir := Some ((''bad.json'', File 1704067200000 None) # alice_inbox)\<rparr>)) =
     {#JObj [(''id'', JStr ''m3''), (''from'', JStr ''b2''), (''to'', JStr ''a1''),
            (''type'', JStr ''message''), (''content'', JStr ''third''),
            (''timestamp'', JStr ''2024-01-01T00:02:00.000Z'')],
      JObj [(''id'', JStr ''m1''), (''from'', JStr ''b2''), (''to'', JStr ''a1''),
            (''type'', JStr ''command''), (''content'', JStr ''ls''),
            (''timestamp'', JStr ''2024-01-01T00:00:00.000Z'')],
      JObj [(''id'', JStr ''m2''), (''from'', JStr ''c3''), (''to'', JStr ''a1''),
            (''type'', JStr ''message''), (''content'', JStr ''second''),
            (''timestamp'', JStr ''2024-01-01T00:01:00.000Z'')]#}"
    unfolding inc by simp
  from 1 2 3 show ?thesis by simp
qed

text \<open>
  C4, as the claim has it, fails: the shape of a parsed record is not checked.  A file
  holding the empty object, which is not an agent record, is listed by
  \<^verbatim>\<open>listActiveAgents\<close>, with a status added.  And a file holding \<^verbatim>\<open>null\<close>, which
  \<^verbatim>\<open>getIncomingMessages\<close> skips, makes \<^verbatim>\<open>getMessageHistory\<close> without a target
  return nothing at all, not the four parseable records beside it: the value is pushed
  unread, and the comparator throws on it inside the sort.
\<close>

theorem listActiveAgents_lists_wrong_shape_counterexample:
  "\<not> AgentInfo_shape (JObj [])
   \<and> agentsDir junk_world = Some [(''junk.json'', File 1704067200000 (Some (JObj [])))]
   \<and> listActiveAgents sample_env 1704070800000 junk_world = [JObj [(''status'', JStr ''offline'')]]
   \<and> getIncomingMessages sample_env alice
         (inbox_world\<lparr>messagesDir := Some (alice_inbox @ [(''nul.json'', File 1704067200000 (Some JNull))])\<rparr>) =
       [JObj [(''id'', JStr ''m1''), (''from'', JStr ''b2''), (''to'', JStr ''a1''),
              (''type'', JStr ''command''), (''content'', JStr ''ls''),
              (''timestamp'', JStr ''2024-01-01T00:00:00.000Z'')],
        JObj [(''id'', JStr ''m2''), (''from'', JStr ''c3''), (''to'', JStr ''a1''),
              (''type'', JStr ''message''), (''content'', JStr ''second''),
              (''timestamp'', JStr ''2024-01-01T00:01:00.000Z'')],
        JObj [(''id'', JStr ''m3''), (''from'', JStr ''b2''), (''to'', JStr ''a1''),
              (''type'', JStr ''message''), (''content'', JStr ''third''),
              (''timestamp'', JStr ''2024-01-01T00:02:00.000Z'')]]
   \<and> getMessageHistory sample_env alice None 50
         (inbox_world\<lparr>messagesDir := Some (alice_inbox @ [(''nul.json'', File 1704067200000 (Some JNull))])\<rparr>) = []"
  by (simp add: AgentInfo_shape_def is_string_def junk_world_def listActiveAgents_def
      readdir_def readFile_def JSON_parse_def bindE_def with_status_def endsWith_def
      getMessageHistory_def getIncomingMessages_def isRelevant_def sort_by_timestamp_def
      inbox_world_def alice_inbox_def alice_def timestamp_ms_def sample_env_def sample_parse_def
      Array_sort_def sort_with_def)

section \<open>Message queue: pruning by age\<close>

lemma map_of_middle:
  "f \<notin> fst ` set kept \<Longrightarrow> map_of (kept @ (f, n) # rest) f = Some n"
  by (induction kept) auto

lemma delete_middle:
  "f \<notin> fst ` set kept \<Longrightarrow> f \<notin> fst ` set rest \<Longrightarrow>
   AList.delete f (kept @ (f, n) # rest) = kept @ rest"
  by (induction kept) auto

lemma clearOldMessages_loop_eq:
  assumes "distinct (map fst (kept @ rest))"
    and "\<forall>e \<in> set rest. older c e \<longrightarrow> is_File (snd e)"
  shows "clearOldMessages_loop (Some c) (map fst rest) k (Some (kept @ rest)) =
           (Inr (k + length (filter (older c) rest)),
            Some (kept @ filter (\<lambda>e. \<not> older c e) rest))"
  using assms
proof (induction rest arbitrary: kept k)
  case Nil
  then show ?case by simp
next
  case (Cons e rest)
  obtain f n where e: "e = (f, n)" by (cases e)
  from Cons.prems(1) e have nk: "f \<notin> fst ` set kept" and nr: "f \<notin> fst ` set rest"
    by auto
  have mo: "map_of (kept @ (f, n) # rest) f = Some n"
    using nk by (rule map_of_middle)
  have st: "stat (Some (kept @ (f, n) # rest)) f = Inr (mtime n)"
    unfolding stat_def by (simp only: mo option.case)
  show ?case
  proof (cases "older c e")
    case True
    with Cons.prems(2) e obtain t content where n: "n = File t content"
      by (cases n) auto
    have ul: "unlink (Some (kept @ (f, n) # rest)) f = Inr (Some (kept @ rest))"
      unfolding unlink_def using mo delete_middle [OF nk nr, of n]
      by (simp only: option.case n node.case)
    have "clearOldMessages_loop (Some c) (map fst rest) (Suc k) (Some (kept @ rest)) =
           (Inr (Suc k + length (filter (older c) rest)),
            Some (kept @ filter (\<lambda>e. \<not> older c e) rest))"
      using Cons.prems by (intro Cons.IH) auto
    moreover have "endsWith f ''.json''" and "mtime n < c"
      using True e by (simp_all add: older_def)
    ultimately show ?thesis using True e st ul by simp
  next
    case False
    have "clearOldMessages_loop (Some c) (map fst rest) k (Some ((kept @ [e]) @ rest)) =
           (Inr (k + length (filter (older c) rest)),
            Some ((kept @ [e]) @ filter (\<lambda>e. \<not> older c e) rest))"
      using Cons.prems by (intro Cons.IH) auto
    moreover have "endsWith f ''.json'' \<Longrightarrow> \<not> mtime n < c"
      using False e by (simp add: older_def)
    ultimately show ?thesis using False e st by auto
  qed
qed

lemma clearOldMessages_eq:
  assumes "messagesDir w = Some es" and "distinct (map fst es)"
    and "\<bar>now - hoursOld * 60 * 60 * 1000\<bar> \<le> 8640000000000000"
    and "\<forall>e \<in> set es. older (now - hoursOld * 60 * 60 * 1000) e \<longrightarrow> is_File (snd e)"
  shows "clearOldMessages now hoursOld w =
           (''Deleted '' @
              string_of_nat (length (filter (older (now - hoursOld * 60 * 60 * 1000)) es)) @
              '' old messages'',
            w\<lparr>messagesDir := Some (filter (\<lambda>e. \<not> older (now - hoursOld * 60 * 60 * 1000) e) es)\<rparr>)"
proof -
  let ?c = "now - hoursOld * 60 * 60 * 1000"
  have tc: "TimeClip ?c = Some ?c" using assms(3) by (simp add: TimeClip_def)
  have "clearOldMessages_loop (Some ?c) (map fst es) 0 (Some ([] @ es)) =
           (Inr (0 + length (filter (older ?c) es)), Some ([] @ filter (\<lambda>e. \<not> older ?c e) es))"
    using assms(2,4) by (intro clearOldMessages_loop_eq) simp_all
  then show ?thesis
    using assms(1) tc by (simp add: clearOldMessages_def readdir_def Let_def)
qed

lemma string_of_nat_0: "string_of_nat 0 = ''0''"
  by (simp add: string_of_nat.simps digit_char_def)

lemma clearOldMessages_loop_invalid:
  "set names \<subseteq> fst ` set es \<Longrightarrow>
   clearOldMessages_loop None names k (Some es) = (Inr k, Some es)"
proof (induction names)
  case Nil
  then show ?case by simp
next
  case (Cons f names)
  then have "f \<in> fst ` set es" by simp
  then obtain n where "map_of es f = Some n"
    by (cases "map_of es f") (auto simp: map_of_eq_None_iff)
  then have "stat (Some es) f = Inr (mtime n)" by (simp add: stat_def)
  with Cons show ?case by simp
qed

lemma clearOldMessages_invalid:
  assumes "messagesDir w = Some es"
    and "\<not> \<bar>now - hoursOld * 60 * 60 * 1000\<bar> \<le> 8640000000000000"
  shows "clearOldMessages now hoursOld w = (''Deleted 0 old messages'', w)"
proof -
  have "TimeClip (now - hoursOld * 60 * 60 * 1000) = None"
    using assms(2) by (simp add: TimeClip_def)
  moreover have "clearOldMessages_loop None (map fst es) 0 (Some es) = (Inr 0, Some es)"
    by (rule clearOldMessages_loop_invalid) simp
  moreover have "w\<lparr>messagesDir := Some es\<rparr> = w" using assms(1) by simp
  ultimately show ?thesis
    using assms(1) by (simp add: clearOldMessages_def readdir_def Let_def string_of_nat_0)
qed

text \<open>
  C8, as the code has it.  For a message directory with distinct file names in which
  every entry to be removed is a regular file (so that every \<^verbatim>\<open>stat\<close> and
  \<^verbatim>\<open>unlink\<close> succeeds), and a whole number of hours for which \<open>now - H hours\<close> is an
  instant the \<^verbatim>\<open>Date\<close> type can hold, \<^verbatim>\<open>clearOldMessages\<close> removes exactly the
  \<^verbatim>\<open>.json\<close> entries whose modification time is strictly before \<open>now - H hours\<close>,
  keeps every other entry as it is and in place, and returns the summary with the number
  removed.  The clock is read at each call.  A second call on the resulting directory, at
  a clock reading \<open>later\<close>, removes nothing and reports zero when every entry that is
  older than \<open>later - H hours\<close> was already older than \<open>now - H hours\<close>; in
  particular when the clock reading is the same.  When \<open>now - H hours\<close> is not an
  instant the \<^verbatim>\<open>Date\<close> type can hold, the cutoff is the invalid date and nothing is
  removed.
\<close>

theorem clearOldMessages_deletes_older:
  assumes "messagesDir w = Some es" and "distinct (map fst es)"
  shows "(\<bar>now - hoursOld * 60 * 60 * 1000\<bar> \<le> 8640000000000000 \<and>
          (\<forall>e \<in> set es. endsWith (fst e) ''.json'' \<and> mtime (snd e) < now - hoursOld * 60 * 60 * 1000
             \<longrightarrow> is_File (snd e))
          \<longrightarrow>
          clearOldMessages now hoursOld w =
           (''Deleted '' @
              string_of_nat (length (filter
                (\<lambda>e. endsWith (fst e) ''.json'' \<and> mtime (snd e) < now - hoursOld * 60 * 60 * 1000) es)) @
              '' old messages'',
            w\<lparr>messagesDir := Some (filter
                (\<lambda>e. \<not> (endsWith (fst e) ''.json'' \<and> mtime (snd e) < now - hoursOld * 60 * 60 * 1000))
                es)\<rparr>)
          \<and> (\<bar>later - hoursOld * 60 * 60 * 1000\<bar> \<le> 8640000000000000 \<and>
             (\<forall>e \<in> set es. endsWith (fst e) ''.json'' \<and> mtime (snd e) < later - hoursOld * 60 * 60 * 1000
                \<longrightarrow> mtime (snd e) < now - hoursOld * 60 * 60 * 1000)
             \<longrightarrow> clearOldMessages later hoursOld (snd (clearOldMessages now hoursOld w)) =
                   (''Deleted 0 old messages'', snd (clearOldMessages now hoursOld w)))
          \<and> clearOldMessages now hoursOld (snd (clearOldMessages now hoursOld w)) =
              (''Deleted 0 old messages'', snd (clearOldMessages now hoursOld w)))
       \<and> (\<not> \<bar>now - hoursOld * 60 * 60 * 1000\<bar> \<le> 8640000000000000 \<longrightarrow>
            clearOldMessages now hoursOld w = (''Deleted 0 old messages'', w))"
proof (intro conjI impI)
  assume "\<not> \<bar>now - hoursOld * 60 * 60 * 1000\<bar> \<le> 8640000000000000"
  with assms(1) show "clearOldMessages now hoursOld w = (''Deleted 0 old messages'', w)"
    by (rule clearOldMessages_invalid)
next
  let ?c = "now - hoursOld * 60 * 60 * 1000"
  let ?c2 = "later - hoursOld * 60 * 60 * 1000"
  let ?es' = "filter (\<lambda>e. \<not> older ?c e) es"
  let ?w' = "w\<lparr>messagesDir := Some ?es'\<rparr>"
  assume a: "\<bar>?c\<bar> \<le> 8640000000000000 \<and>
          (\<forall>e \<in> set es. endsWith (fst e) ''.json'' \<and> mtime (snd e) < ?c \<longrightarrow> is_File (snd e))"
  then have range: "\<bar>?c\<bar> \<le> 8640000000000000" ..
  have a4: "\<forall>e \<in> set es. older ?c e \<longrightarrow> is_File (snd e)"
    using a by (simp add: older_def)
  have first: "clearOldMessages now hoursOld w =
           (''Deleted '' @ string_of_nat (length (filter (older ?c) es)) @ '' old messages'', ?w')"
    using assms(1,2) range a4 by (rule clearOldMessages_eq)
  have again: "clearOldMessages t hoursOld ?w' = (''Deleted 0 old messages'', ?w')"
    if r: "\<bar>t - hoursOld * 60 * 60 * 1000\<bar> \<le> 8640000000000000"
      and none: "\<forall>e \<in> set es. older (t - hoursOld * 60 * 60 * 1000) e \<longrightarrow> older ?c e" for t
  proof -
    let ?ct = "t - hoursOld * 60 * 60 * 1000"
    have no: "\<forall>e \<in> set ?es'. \<not> older ?ct e" unfolding set_filter using none by blast
    then have f1: "filter (older ?ct) ?es' = []" by (rule filter_False)
    from no have f2: "filter (\<lambda>e. \<not> older ?ct e) ?es' = ?es'" by (rule filter_True)
    have "clearOldMessages t hoursOld ?w' =
           (''Deleted '' @ string_of_nat (length (filter (older ?ct) ?es')) @ '' old messages'',
            ?w'\<lparr>messagesDir := Some (filter (\<lambda>e. \<not> older ?ct e) ?es')\<rparr>)"
    proof (rule clearOldMessages_eq)
      show "messagesDir ?w' = Some ?es'" by simp
      show "distinct (map fst ?es')" using assms(2) by (rule distinct_map_filter)
      show "\<bar>?ct\<bar> \<le> 8640000000000000" by (rule r)
      show "\<forall>e \<in> set ?es'. older ?ct e \<longrightarrow> is_File (snd e)" using no by simp
    qed
    then show ?thesis unfolding f1 f2 by (simp add: string_of_nat_0)
  qed
  have o: "older ?c = (\<lambda>e. endsWith (fst e) ''.json'' \<and> mtime (snd e) < ?c)"
    by (simp add: older_def fun_eq_iff)
  show "clearOldMessages now hoursOld w =
           (''Deleted '' @
              string_of_nat (length (filter
                (\<lambda>e. endsWith (fst e) ''.json'' \<and> mtime (snd e) < ?c) es)) @
              '' old messages'',
            w\<lparr>messagesDir := Some (filter
                (\<lambda>e. \<not> (endsWith (fst e) ''.json'' \<and> mtime (snd e) < ?c)) es)\<rparr>)"
    using first unfolding o .
  show "clearOldMessages now hoursOld (snd (clearOldMessages now hoursOld w)) =
              (''Deleted 0 old messages'', snd (clearOldMessages now hoursOld w))"
    unfolding first snd_conv using range by (intro again) auto
  assume b: "\<bar>?c2\<bar> \<le> 8640000000000000 \<and>
        (\<forall>e \<in> set es. endsWith (fst e) ''.json'' \<and> mtime (snd e) < ?c2 \<longrightarrow> mtime (snd e) < ?c)"
  show "clearOldMessages later hoursOld (snd (clearOldMessages now hoursOld w)) =
                   (''Deleted 0 old messages'', snd (clearOldMessages now hoursOld w))"
    unfolding first snd_conv using b by (intro again) (auto simp: older_def)
qed

theorem clearOldMessages_deletes_older_witness:
  "clearOldMessages 1704070920000 1 (inbox_world\<lparr>messagesDir := Some aged_inbox\<rparr>) =
     (''Deleted 2 old messages'',
      inbox_world\<lparr>messagesDir := Some
        [(''notes.txt'', File 1704067200000 None),
         (''new1.json'', File 1704070800000 (Some JNull)),
         (''edge.json'', File 1704067320000 None)]\<rparr>)
   \<and> clearOldMessages 1704070920000 1
       (snd (clearOldMessages 1704070920000 1 (inbox_world\<lparr>messagesDir := Some aged_inbox\<rparr>))) =
     (''Deleted 0 old messages'',
      inbox_world\<lparr>messagesDir := Some
        [(''notes.txt'', File 1704067200000 None),
         (''new1.json'', File 1704070800000 (Some JNull)),
         (''edge.json'', File 1704067320000 None)]\<rparr>)
   \<and> clearOldMessages 1704070920000 2500000000 (inbox_world\<lparr>messagesDir := Some aged_inbox\<rparr>) =
     (''Deleted 0 old messages'', inbox_world\<lparr>messagesDir := Some aged_inbox\<rparr>)"
proof -
  have r: "\<bar>1704070920000 - 1 * 60 * 60 * 1000\<bar> \<le> (8640000000000000::int)" by simp
  have d: "distinct (map fst aged_inbox)" by (simp add: aged_inbox_def)
  have m: "messagesDir (inbox_world\<lparr>messagesDir := Some aged_inbox\<rparr>) = Some aged_inbox" by simp
  have f: "\<forall>e \<in> set aged_inbox.
             endsWith (fst e) ''.json'' \<and> mtime (snd e) < 1704070920000 - 1 * 60 * 60 * 1000
             \<longrightarrow> is_File (snd e)"
    by (simp add: aged_inbox_def)
  note inst = clearOldMessages_deletes_older [where w = "inbox_world\<lparr>messagesDir := Some aged_inbox\<rparr>"
      and es = aged_inbox and now = 1704070920000 and hoursOld = 1 and later = 1704070920000,
      OF m d, THEN conjunct1, rule_format, OF conjI, OF r f]
  have 1: "clearOldMessages 1704070920000 1 (inbox_world\<lparr>messagesDir := Some aged_inbox\<rparr>) =
     (''Deleted 2 old messages'',
      inbox_world\<lparr>messagesDir := Some
        [(''notes.txt'', File 1704067200000 None),
         (''new1.json'', File 1704070800000 (Some JNull)),
         (''edge.json'', File 1704067320000 None)]\<rparr>)"
    using inst [THEN conjunct1]
    by (simp add: aged_inbox_def endsWith_def string_of_nat.simps digit_char_def)
  have 2: "clearOldMessages 1704070920000 1
       (snd (clearOldMessages 1704070920000 1 (inbox_world\<lparr>messagesDir := Some aged_inbox\<rparr>))) =
     (''Deleted 0 old messages'',
      snd (clearOldMessages 1704070920000 1 (inbox_world\<lparr>messagesDir := Some aged_inbox\<rparr>)))"
    using inst [THEN conjunct2, THEN conjunct2] .
  have 3: "clearOldMessages 1704070920000 2500000000 (inbox_world\<lparr>messagesDir := Some aged_inbox\<rparr>) =
     (''Deleted 0 old messages'', inbox_world\<lparr>messagesDir := Some aged_inbox\<rparr>)"
    using clearOldMessages_deletes_older [where w = "inbox_world\<lparr>messagesDir := Some aged_inbox\<rparr>"
      and es = aged_inbox and now = 1704070920000 and hoursOld = 2500000000, OF m d, THEN conjunct2]
    by simp
  show ?thesis
    using 2 3 unfolding 1 snd_conv by (simp add: 1)
qed

text \<open>
  C8, as the claim has it, fails on the second call: the unchanged file set left by a
  first call holds \<^verbatim>\<open>edge.json\<close>, modified exactly one hour before that call, and a
  second call one millisecond later removes it.  It also fails for a number of hours that
  takes \<open>now - H hours\<close> out of the range of \<^verbatim>\<open>Date\<close>: the cutoff is then the
  invalid date, every comparison with it is false, and no file is removed however old.
\<close>

theorem clearOldMessages_second_call_counterexample:
  "clearOldMessages 1704070920000 1 (inbox_world\<lparr>messagesDir := Some aged_inbox\<rparr>) =
     (''Deleted 2 old messages'',
      inbox_world\<lparr>messagesDir := Some
        [(''notes.txt'', File 1704067200000 None),
         (''new1.json'', File 1704070800000 (Some JNull)),
         (''edge.json'', File 1704067320000 None)]\<rparr>)
   \<and> clearOldMessages 1704070920001 1
       (inbox_world\<lparr>messagesDir := Some
        [(''notes.txt'', File 1704067200000 None),
         (''new1.json'', File 1704070800000 (Some JNull)),
         (''edge.json'', File 1704067320000 None)]\<rparr>) =
     (''Deleted 1 old messages'',
      inbox_world\<lparr>messagesDir := Some
        [(''notes.txt'', File 1704067200000 None),
         (''new1.json'', File 1704070800000 (Some JNull))]\<rparr>)
   \<and> clearOldMessages 1704070920000 (- 2400000000) (inbox_world\<lparr>messagesDir := Some aged_inbox\<rparr>) =
     (''Deleted 0 old messages'', inbox_world\<lparr>messagesDir := Some aged_inbox\<rparr>)"
  by (simp add: clearOldMessages_def readdir_def stat_def unlink_def TimeClip_def aged_inbox_def
      endsWith_def inbox_world_def string_of_nat.simps digit_char_def)

section \<open>Sending: persistence first, delivery best effort\<close>

lemma deliver_eq:
  "deliver env target text w =
     (delivery_result env target text w,
      w\<lparr>tmux_log := tmux_log w @ delivery_log env target text w\<rparr>)"
  by (simp add: deliver_def sendKeys_def delivery_result_def delivery_log_def Let_def
      split: option.splits)

lemma delivery_frame [simp]:
  "delivery_log env tg tx (w\<lparr>messagesDir := d\<rparr>) = delivery_log env tg tx w"
  "delivery_log env tg tx (w\<lparr>uuids_drawn := n\<rparr>) = delivery_log env tg tx w"
  "delivery_result env tg tx (w\<lparr>messagesDir := d\<rparr>) = delivery_result env tg tx w"
  "delivery_result env tg tx (w\<lparr>uuids_drawn := n\<rparr>) = delivery_result env tg tx w"
  by (simp_all add: delivery_log_def delivery_result_def split: option.splits)

lemma getAgentInfo_frame [simp]:
  "getAgentInfo a (w\<lparr>messagesDir := d\<rparr>) = getAgentInfo a w"
  "getAgentInfo a (w\<lparr>uuids_drawn := n\<rparr>) = getAgentInfo a w"
  "getAgentInfo a (w\<lparr>tmux_log := l\<rparr>) = getAgentInfo a w"
  by (simp_all add: getAgentInfo_def)

lemma obj_message_record:
  "obj [(''id'', Some (JStr mid)), (''from'', Some (JStr (agentId mgr))),
        (''to'', Some (JStr target)), (''type'', Some (JStr (type_name type))),
        (''content'', Some (JStr content)), (''timestamp'', Some (JStr (toISOString env now)))] =
   message_record env mgr now mid target type content"
  by (simp add: obj_def message_record_def List.map_filter_simps)

lemma obj_command_record:
  "obj [(''id'', Some (JStr mid)), (''from'', Some (JStr (agentId mgr))),
        (''to'', Some (JStr target)), (''type'', Some (JStr ''command'')),
        (''content'', Some (JStr command)), (''timestamp'', Some (JStr (toISOString env now))),
        (''sessionInfo'', Some (sessionInfo_json info))] =
   command_record env mgr now mid target command (Some info)"
  "obj [(''id'', Some (JStr mid)), (''from'', Some (JStr (agentId mgr))),
        (''to'', Some (JStr target)), (''type'', Some (JStr ''command'')),
        (''content'', Some (JStr command)), (''timestamp'', Some (JStr (toISOString env now))),
        (''sessionInfo'', None)] =
   command_record env mgr now mid target command None"
  by (simp_all add: obj_def command_record_def List.map_filter_simps)

lemma sendMessage_persist_failed:
  assumes "writeFile (messagesDir w) (randomUUID env (uuids_drawn w) @ ''.json'') now
             (message_record env mgr now (randomUUID env (uuids_drawn w)) t type content) = Inl e"
  shows "sendMessage env mgr now (Some (JStr t)) content type w =
           (Inl e, w\<lparr>uuids_drawn := Suc (uuids_drawn w)\<rparr>)"
  using assms by (simp add: sendMessage_def obj_message_record Let_def)

lemma sendMessage_persisted:
  assumes "writeFile (messagesDir w) (randomUUID env (uuids_drawn w) @ ''.json'') now
             (message_record env mgr now (randomUUID env (uuids_drawn w)) t type content) = Inr d"
  shows "\<exists>s l. sendMessage env mgr now (Some (JStr t)) content type w =
           (Inr s, w\<lparr>uuids_drawn := Suc (uuids_drawn w), messagesDir := d,
                     tmux_log := tmux_log w @ l\<rparr>)"
proof -
  let ?w1 = "w\<lparr>uuids_drawn := Suc (uuids_drawn w), messagesDir := d\<rparr>"
  have nolog: "?w1 = ?w1\<lparr>tmux_log := tmux_log w @ []\<rparr>" by simp
  show ?thesis
    using assms
    apply (simp add: sendMessage_def obj_message_record Let_def deliver_eq bindE_def
        split: sum.splits prod.splits)
    apply (intro conjI impI allI)
    apply (auto intro: exI [of _ "[]"])
    done
qed

lemma registered_session:
  assumes "agentsDir w = Some regs"
    and "map_of regs (t @ ''.json'') = Some (File mt (Some (JObj kvs)))"
    and "map_of kvs ''session'' = Some (JStr s)"
  shows "session_of (getAgentInfo (Some (JStr t)) w) = Some (JStr s)"
  using assms
  by (simp add: getAgentInfo_def readFile_def JSON_parse_def bindE_def session_of_def)

lemma sendMessage_delivery_outcome:
  assumes "writeFile (messagesDir w) (randomUUID env (uuids_drawn w) @ ''.json'') now
      (message_record env mgr now (randomUUID env (uuids_drawn w)) t Message content) = Inr d"
    and "truthy (session_of (getAgentInfo (Some (JStr t)) w))"
    and "template (session_of (getAgentInfo (Some (JStr t)) w)) = Inr s"
  shows "fst (sendMessage env mgr now (Some (JStr t)) content Message w) =
           Inr (case execAsync env (length (tmux_log w)) (sendKeys_cmd (s @ '':0'') content False) of
                  Some m \<Rightarrow> ''Message saved for agent '' @ t @ '', but failed to send to tmux: '' @ m
                | None \<Rightarrow>
                   (case execAsync env (Suc (length (tmux_log w))) (sendKeys_cmd (s @ '':0'') [] True) of
                      Some m \<Rightarrow> ''Message saved for agent '' @ t @ '', but failed to send to tmux: '' @ m
                    | None \<Rightarrow> ''Message sent to agent '' @ t @ '' in tmux session '' @ s @ '': '' @ content))"
  using assms
  by (simp add: sendMessage_def message_record_def obj_def List.map_filter_simps Let_def
      deliver_eq bindE_def delivery_result_def split: option.splits)

lemma sendMessage_delivery_unreadable:
  assumes "writeFile (messagesDir w) (randomUUID env (uuids_drawn w) @ ''.json'') now
      (message_record env mgr now (randomUUID env (uuids_drawn w)) t Message content) = Inr d"
    and "truthy (session_of (getAgentInfo (Some (JStr t)) w))"
    and "template (session_of (getAgentInfo (Some (JStr t)) w)) = Inl e"
  shows "\<exists>x. fst (sendMessage env mgr now (Some (JStr t)) content Message w) =
           Inr (''Message saved for agent '' @ t @ '', but failed to send to tmux: '' @ x)"
  using assms
  by (simp add: sendMessage_def message_record_def obj_def List.map_filter_simps Let_def
      bindE_def)

lemma sendCommandToAgent_persist_failed:
  assumes "writeFile (messagesDir w) (randomUUID env (uuids_drawn w) @ ''.json'') now
             (command_record env mgr now (randomUUID env (uuids_drawn w)) t command si) = Inl e"
  shows "sendCommandToAgent env mgr now t command si w =
           (Inl e, w\<lparr>uuids_drawn := Suc (uuids_drawn w)\<rparr>)"
  using assms by (cases si) (simp_all add: sendCommandToAgent_def obj_command_record Let_def)

lemma sendCommandToAgent_persisted:
  assumes "writeFile (messagesDir w) (randomUUID env (uuids_drawn w) @ ''.json'') now
             (command_record env mgr now (randomUUID env (uuids_drawn w)) t command si) = Inr d"
  shows "\<exists>r. sendCommandToAgent env mgr now t command si w =
           (Inr r, w\<lparr>uuids_drawn := Suc (uuids_drawn w), messagesDir := d,
                     tmux_log := tmux_log w @
                       (case command_target t si w of
                          Some (Inr target) \<Rightarrow> delivery_log env target command w
                        | _ \<Rightarrow> [])\<rparr>)"
  using assms
  by (cases si)
     (auto simp: sendCommandToAgent_def obj_command_record Let_def deliver_eq bindE_def
        command_target_def split: sum.splits)

lemma sendCommandToAgent_explicit_outcome:
  assumes "writeFile (messagesDir w) (randomUUID env (uuids_drawn w) @ ''.json'') now
             (command_record env mgr now (randomUUID env (uuids_drawn w)) t command (Some info)) = Inr d"
  shows "fst (sendCommandToAgent env mgr now t command (Some info) w) =
           Inr (case execAsync env (length (tmux_log w))
                       (sendKeys_cmd (sessionInfo_target info) command False) of
                  Some m \<Rightarrow> ''Command queued for agent '' @ t @ '', but failed to execute in tmux: '' @ m
                | None \<Rightarrow>
                   (case execAsync env (Suc (length (tmux_log w)))
                           (sendKeys_cmd (sessionInfo_target info) [] True) of
                      Some m \<Rightarrow> ''Command queued for agent '' @ t @ '', but failed to execute in tmux: '' @ m
                    | None \<Rightarrow> ''Command sent to agent '' @ t @ '' and executed in tmux: '' @ command))"
  using assms
  by (simp add: sendCommandToAgent_def obj_command_record Let_def deliver_eq
      delivery_result_def split: option.splits)

lemma sendCommandToAgent_registry_outcome:
  assumes "writeFile (messagesDir w) (randomUUID env (uuids_drawn w) @ ''.json'') now
      (command_record env mgr now (randomUUID env (uuids_drawn w)) t command None) = Inr d"
    and "truthy (session_of (getAgentInfo (Some (JStr t)) w))"
    and "template (session_of (getAgentInfo (Some (JStr t)) w)) = Inr s"
  shows "fst (sendCommandToAgent env mgr now t command None w) =
           Inr (case execAsync env (length (tmux_log w)) (sendKeys_cmd (s @ '':0'') command False) of
                  Some m \<Rightarrow> ''Command queued for agent '' @ t @ '', but failed to send to tmux: '' @ m
                | None \<Rightarrow>
                   (case execAsync env (Suc (length (tmux_log w))) (sendKeys_cmd (s @ '':0'') [] True) of
                      Some m \<Rightarrow> ''Command queued for agent '' @ t @ '', but failed to send to tmux: '' @ m
                    | None \<Rightarrow> ''Command sent to agent '' @ t @ '' in tmux session '' @ s @ '': '' @ command))"
  using assms
  by (simp add: sendCommandToAgent_def obj_command_record Let_def deliver_eq bindE_def
      delivery_result_def split: option.splits)

lemma sendCommandToAgent_registry_unreadable:
  assumes "writeFile (messagesDir w) (randomUUID env (uuids_drawn w) @ ''.json'') now
      (command_record env mgr now (randomUUID env (uuids_drawn w)) t command None) = Inr d"
    and "truthy (session_of (getAgentInfo (Some (JStr t)) w))"
    and "template (session_of (getAgentInfo (Some (JStr t)) w)) = Inl e"
  shows "\<exists>x. fst (sendCommandToAgent env mgr now t command None w) =
           Inr (''Command queued for agent '' @ t @ '', but failed to send to tmux: '' @ x)"
  using assms
  by (simp add: sendCommandToAgent_def obj_command_record Let_def)

lemma sendMessage_no_delivery:
  assumes "writeFile (messagesDir w) (randomUUID env (uuids_drawn w) @ ''.json'') now
             (message_record env mgr now (randomUUID env (uuids_drawn w)) t type content) = Inr d"
    and "type = Command \<or> \<not> truthy (session_of (getAgentInfo (Some (JStr t)) w))"
  shows "fst (sendMessage env mgr now (Some (JStr t)) content type w) =
           Inr (''Message sent to agent '' @ t @ '': '' @ content)"
  using assms
  by (auto simp: sendMessage_def obj_message_record Let_def bindE_def)

lemma sendCommandToAgent_no_delivery:
  assumes "writeFile (messagesDir w) (randomUUID env (uuids_drawn w) @ ''.json'') now
             (command_record env mgr now (randomUUID env (uuids_drawn w)) t command None) = Inr d"
    and "\<not> truthy (session_of (getAgentInfo (Some (JStr t)) w))"
  shows "fst (sendCommandToAgent env mgr now t command None w) =
           Inr (''Command queued for agent '' @ t @ '': '' @ command)"
  using assms
  by (simp add: sendCommandToAgent_def obj_command_record Let_def)

lemma string_of_nat_1: "string_of_nat (Suc 0) = ''1''"
  by (simp add: string_of_nat.simps digit_char_def)

text \<open>
  C7.  For \<^verbatim>\<open>sendMessage\<close> and \<^verbatim>\<open>sendCommandToAgent\<close> alike: when the record is
  written, the call returns a confirmation string whatever the terminal does, and the
  message directory it leaves is the one the write produced, with the registry untouched.
  The string is fixed by the cases of the delivery.  When a delivery is attempted (for a
  message to window 0 of the session registered for the target, for a command to the
  explicit location or else to window 0 of the registered session): if the command
  carrying the text is rejected with message \<open>m\<close>, or it is accepted and the command
  carrying Enter is rejected with message \<open>m\<close>, the string reports the failure and
  ends in \<open>m\<close>; if both are accepted, it reports the delivery.  When the registered
  session is a value that cannot be turned into a string, the string reports the failure
  with the message of the engine.  When no delivery is attempted (a record of type
  \<^verbatim>\<open>command\<close> sent with \<^verbatim>\<open>sendMessage\<close>, or no session registered for the
  target), the string reports the queued record.  When the write fails with error
  \<open>e\<close>, the call raises \<open>e\<close>, having written nothing and sent nothing to the
  terminal.
\<close>

theorem sends_survive_delivery_failure:
  "(writeFile (messagesDir w) (randomUUID env (uuids_drawn w) @ ''.json'') now
      (message_record env mgr now (randomUUID env (uuids_drawn w)) t type content) = Inr d
    \<longrightarrow> (\<exists>r w'. sendMessage env mgr now (Some (JStr t)) content type w = (Inr r, w') \<and>
                 messagesDir w' = d \<and> agentsDir w' = agentsDir w))
   \<and>
   (writeFile (messagesDir w) (randomUUID env (uuids_drawn w) @ ''.json'') now
      (message_record env mgr now (randomUUID env (uuids_drawn w)) t type content) = Inr d \<and>
    type = Message \<and> truthy (session_of (getAgentInfo (Some (JStr t)) w)) \<and>
    template (session_of (getAgentInfo (Some (JStr t)) w)) = Inr s
    \<longrightarrow> fst (sendMessage env mgr now (Some (JStr t)) content type w) =
          Inr (case execAsync env (length (tmux_log w)) (sendKeys_cmd (s @ '':0'') content False) of
                 Some m \<Rightarrow> ''Message saved for agent '' @ t @ '', but failed to send to tmux: '' @ m
               | None \<Rightarrow>
                  (case execAsync env (Suc (length (tmux_log w))) (sendKeys_cmd (s @ '':0'') [] True) of
                     Some m \<Rightarrow> ''Message saved for agent '' @ t @ '', but failed to send to tmux: '' @ m
                   | None \<Rightarrow> ''Message sent to agent '' @ t @ '' in tmux session '' @ s @ '': '' @ content)))
   \<and>
   (writeFile (messagesDir w) (randomUUID env (uuids_drawn w) @ ''.json'') now
      (message_record env mgr now (randomUUID env (uuids_drawn w)) t type content) = Inr d \<and>
    type = Message \<and> truthy (session_of (getAgentInfo (Some (JStr t)) w)) \<and>
    template (session_of (getAgentInfo (Some (JStr t)) w)) = Inl e
    \<longrightarrow> (\<exists>x. fst (sendMessage env mgr now (Some (JStr t)) content type w) =
               Inr (''Message saved for agent '' @ t @ '', but failed to send to tmux: '' @ x)))
   \<and>
   (writeFile (messagesDir w) (randomUUID env (uuids_drawn w) @ ''.json'') now
      (message_record env mgr now (randomUUID env (uuids_drawn w)) t type content) = Inr d \<and>
    (type = Command \<or> \<not> truthy (session_of (getAgentInfo (Some (JStr t)) w)))
    \<longrightarrow> fst (sendMessage env mgr now (Some (JStr t)) content type w) =
          Inr (''Message sent to agent '' @ t @ '': '' @ content))
   \<and>
   (writeFile (messagesDir w) (randomUUID env (uuids_drawn w) @ ''.json'') now
      (message_record env mgr now (randomUUID env (uuids_drawn w)) t type content) = Inl e
    \<longrightarrow> fst (sendMessage env mgr now (Some (JStr t)) content type w) = Inl e \<and>
        messagesDir (snd (sendMessage env mgr now (Some (JStr t)) content type w)) = messagesDir w \<and>
        tmux_log (snd (sendMessage env mgr now (Some (JStr t)) content type w)) = tmux_log w)
   \<and>
   (writeFile (messagesDir w) (randomUUID env (uuids_drawn w) @ ''.json'') now
      (command_record env mgr now (randomUUID env (uuids_drawn w)) t command si) = Inr d
    \<longrightarrow> (\<exists>r w'. sendCommandToAgent env mgr now t command si w = (Inr r, w') \<and>
                 messagesDir w' = d \<and> agentsDir w' = agentsDir w))
   \<and>
   (writeFile (messagesDir w) (randomUUID env (uuids_drawn w) @ ''.json'') now
      (command_record env mgr now (randomUUID env (uuids_drawn w)) t command si) = Inr d \<and>
    si = Some info
    \<longrightarrow> fst (sendCommandToAgent env mgr now t command si w) =
          Inr (case execAsync env (length (tmux_log w))
                      (sendKeys_cmd (sessionInfo_target info) command False) of
                 Some m \<Rightarrow> ''Command queued for agent '' @ t @ '', but failed to execute in tmux: '' @ m
               | None \<Rightarrow>
                  (case execAsync env (Suc (length (tmux_log w)))
                          (sendKeys_cmd (sessionInfo_target info) [] True) of
                     Some m \<Rightarrow> ''Command queued for agent '' @ t @ '', but failed to execute in tmux: '' @ m
                   | None \<Rightarrow> ''Command sent to agent '' @ t @ '' and executed in tmux: '' @ command)))
   \<and>
   (writeFile (messagesDir w) (randomUUID env (uuids_drawn w) @ ''.json'') now
      (command_record env mgr now (randomUUID env (uuids_drawn w)) t command si) = Inr d \<and>
    si = None \<and> truthy (session_of (getAgentInfo (Some (JStr t)) w)) \<and>
    template (session_of (getAgentInfo (Some (JStr t)) w)) = Inr s
    \<longrightarrow> fst (sendCommandToAgent env mgr now t command si w) =
          Inr (case execAsync env (length (tmux_log w)) (sendKeys_cmd (s @ '':0'') command False) of
                 Some m \<Rightarrow> ''Command queued for agent '' @ t @ '', but failed to send to tmux: '' @ m
               | None \<Rightarrow>
                  (case execAsync env (Suc (length (tmux_log w))) (sendKeys_cmd (s @ '':0'') [] True) of
                     Some m \<Rightarrow> ''Command queued for agent '' @ t @ '', but failed to send to tmux: '' @ m
                   | None \<Rightarrow> ''Command sent to agent '' @ t @ '' in tmux session '' @ s @ '': '' @ command)))
   \<and>
   (writeFile (messagesDir w) (randomUUID env (uuids_drawn w) @ ''.json'') now
      (command_record env mgr now (randomUUID env (uuids_drawn w)) t command si) = Inr d \<and>
    si = None \<and> truthy (session_of (getAgentInfo (Some (JStr t)) w)) \<and>
    template (session_of (getAgentInfo (Some (JStr t)) w)) = Inl e
    \<longrightarrow> (\<exists>x. fst (sendCommandToAgent env mgr now t command si w) =
               Inr (''Command queued for agent '' @ t @ '', but failed to send to tmux: '' @ x)))
   \<and>
   (writeFile (messagesDir w) (randomUUID env (uuids_drawn w) @ ''.json'') now
      (command_record env mgr now (randomUUID env (uuids_drawn w)) t command si) = Inr d \<and>
    si = None \<and> \<not> truthy (session_of (getAgentInfo (Some (JStr t)) w))
    \<longrightarrow> fst (sendCommandToAgent env mgr now t command si w) =
          Inr (''Command queued for agent '' @ t @ '': '' @ command))
   \<and>
   (writeFile (messagesDir w) (randomUUID env (uuids_drawn w) @ ''.json'') now
      (command_record env mgr now (randomUUID env (uuids_drawn w)) t command si) = Inl e
    \<longrightarrow> fst (sendCommandToAgent env mgr now t command si w) = Inl e \<and>
        messagesDir (snd (sendCommandToAgent env mgr now t command si w)) = messagesDir w \<and>
        tmux_log (snd (sendCommandToAgent env mgr now t command si w)) = tmux_log w)"
proof (intro conjI)
  show "writeFile (messagesDir w) (randomUUID env (uuids_drawn w) @ ''.json'') now
      (message_record env mgr now (randomUUID env (uuids_drawn w)) t type content) = Inr d
    \<longrightarrow> (\<exists>r w'. sendMessage env mgr now (Some (JStr t)) content type w = (Inr r, w') \<and>
                 messagesDir w' = d \<and> agentsDir w' = agentsDir w)"
    using sendMessage_persisted [of w env now mgr t type content d] by auto
  show "writeFile (messagesDir w) (randomUUID env (uuids_drawn w) @ ''.json'') now
      (message_record env mgr now (randomUUID env (uuids_drawn w)) t type content) = Inr d \<and>
    type = Message \<and> truthy (session_of (getAgentInfo (Some (JStr t)) w)) \<and>
    template (session_of (getAgentInfo (Some (JStr t)) w)) = Inr s
    \<longrightarrow> fst (sendMessage env mgr now (Some (JStr t)) content type w) =
          Inr (case execAsync env (length (tmux_log w)) (sendKeys_cmd (s @ '':0'') content False) of
                 Some m \<Rightarrow> ''Message saved for agent '' @ t @ '', but failed to send to tmux: '' @ m
               | None \<Rightarrow>
                  (case execAsync env (Suc (length (tmux_log w))) (sendKeys_cmd (s @ '':0'') [] True) of
                     Some m \<Rightarrow> ''Message saved for agent '' @ t @ '', but failed to send to tmux: '' @ m
                   | None \<Rightarrow> ''Message sent to agent '' @ t @ '' in tmux session '' @ s @ '': '' @ content))"
    using sendMessage_delivery_outcome [of w env now mgr t content d s] by blast
  show "writeFile (messagesDir w) (randomUUID env (uuids_drawn w) @ ''.json'') now
      (message_record env mgr now (randomUUID env (uuids_drawn w)) t type content) = Inr d \<and>
    type = Message \<and> truthy (session_of (getAgentInfo (Some (JStr t)) w)) \<and>
    template (session_of (getAgentInfo (Some (JStr t)) w)) = Inl e
    \<longrightarrow> (\<exists>x. fst (sendMessage env mgr now (Some (JStr t)) content type w) =
               Inr (''Message saved for agent '' @ t @ '', but failed to send to tmux: '' @ x))"
    using sendMessage_delivery_unreadable [of w env now mgr t content d e] by blast
  show "writeFile (messagesDir w) (randomUUID env (uuids_drawn w) @ ''.json'') now
      (message_record env mgr now (randomUUID env (uuids_drawn w)) t type content) = Inr d \<and>
    (type = Command \<or> \<not> truthy (session_of (getAgentInfo (Some (JStr t)) w)))
    \<longrightarrow> fst (sendMessage env mgr now (Some (JStr t)) content type w) =
          Inr (''Message sent to agent '' @ t @ '': '' @ content)"
    using sendMessage_no_delivery [of w env now mgr t type content d] by blast
  show "writeFile (messagesDir w) (randomUUID env (uuids_drawn w) @ ''.json'') now
      (message_record env mgr now (randomUUID env (uuids_drawn w)) t type content) = Inl e
    \<longrightarrow> fst (sendMessage env mgr now (Some (JStr t)) content type w) = Inl e \<and>
        messagesDir (snd (sendMessage env mgr now (Some (JStr t)) content type w)) = messagesDir w \<and>
        tmux_log (snd (sendMessage env mgr now (Some (JStr t)) content type w)) = tmux_log w"
    using sendMessage_persist_failed [of w env now mgr t type content e] by simp
  show "writeFile (messagesDir w) (randomUUID env (uuids_drawn w) @ ''.json'') now
      (command_record env mgr now (randomUUID env (uuids_drawn w)) t command si) = Inr d
    \<longrightarrow> (\<exists>r w'. sendCommandToAgent env mgr now t command si w = (Inr r, w') \<and>
                 messagesDir w' = d \<and> agentsDir w' = agentsDir w)"
    using sendCommandToAgent_persisted [of w env now mgr t command si d] by auto
  show "writeFile (messagesDir w) (randomUUID env (uuids_drawn w) @ ''.json'') now
      (command_record env mgr now (randomUUID env (uuids_drawn w)) t command si) = Inr d \<and>
    si = Some info
    \<longrightarrow> fst (sendCommandToAgent env mgr now t command si w) =
          Inr (case execAsync env (length (tmux_log w))
                      (sendKeys_cmd (sessionInfo_target info) command False) of
                 Some m \<Rightarrow> ''Command queued for agent '' @ t @ '', but failed to execute in tmux: '' @ m
               | None \<Rightarrow>
                  (case execAsync env (Suc (length (tmux_log w)))
                          (sendKeys_cmd (sessionInfo_target info) [] True) of
                     Some m \<Rightarrow> ''Command queued for agent '' @ t @ '', but failed to execute in tmux: '' @ m
                   | None \<Rightarrow> ''Command sent to agent '' @ t @ '' and executed in tmux: '' @ command))"
    using sendCommandToAgent_explicit_outcome [of w env now mgr t command info d] by blast
  show "writeFile (messagesDir w) (randomUUID env (uuids_drawn w) @ ''.json'') now
      (command_record env mgr now (randomUUID env (uuids_drawn w)) t command si) = Inr d \<and>
    si = None \<and> truthy (session_of (getAgentInfo (Some (JStr t)) w)) \<and>
    template (session_of (getAgentInfo (Some (JStr t)) w)) = Inr s
    \<longrightarrow> fst (sendCommandToAgent env mgr now t command si w) =
          Inr (case execAsync env (length (tmux_log w)) (sendKeys_cmd (s @ '':0'') command False) of
                 Some m \<Rightarrow> ''Command queued for agent '' @ t @ '', but failed to send to tmux: '' @ m
               | None \<Rightarrow>
                  (case execAsync env (Suc (length (tmux_log w))) (sendKeys_cmd (s @ '':0'') [] True) of
                     Some m \<Rightarrow> ''Command queued for agent '' @ t @ '', but failed to send to tmux: '' @ m
                   | None \<Rightarrow> ''Command sent to agent '' @ t @ '' in tmux session '' @ s @ '': '' @ command))"
    using sendCommandToAgent_registry_outcome [of w env now mgr t command d s] by blast
  show "writeFile (messagesDir w) (randomUUID env (uuids_drawn w) @ ''.json'') now
      (command_record env mgr now (randomUUID env (uuids_drawn w)) t command si) = Inr d \<and>
    si = None \<and> truthy (session_of (getAgentInfo (Some (JStr t)) w)) \<and>
    template (session_of (getAgentInfo (Some (JStr t)) w)) = Inl e
    \<longrightarrow> (\<exists>x. fst (sendCommandToAgent env mgr now t command si w) =
               Inr (''Command queued for agent '' @ t @ '', but failed to send to tmux: '' @ x))"
    using sendCommandToAgent_registry_unreadable [of w env now mgr t command d e] by blast
  show "writeFile (messagesDir w) (randomUUID env (uuids_drawn w) @ ''.json'') now
      (command_record env mgr now (randomUUID env (uuids_drawn w)) t command si) = Inr d \<and>
    si = None \<and> \<not> truthy (session_of (getAgentInfo (Some (JStr t)) w))
    \<longrightarrow> fst (sendCommandToAgent env mgr now t command si w) =
          Inr (''Command queued for agent '' @ t @ '': '' @ command)"
    using sendCommandToAgent_no_delivery [of w env now mgr t command d] by blast
  show "writeFile (messagesDir w) (randomUUID env (uuids_drawn w) @ ''.json'') now
      (command_record env mgr now (randomUUID env (uuids_drawn w)) t command si) = Inl e
    \<longrightarrow> fst (sendCommandToAgent env mgr now t command si w) = Inl e \<and>
        messagesDir (snd (sendCommandToAgent env mgr now t command si w)) = messagesDir w \<and>
        tmux_log (snd (sendCommandToAgent env mgr now t command si w)) = tmux_log w"
    using sendCommandToAgent_persist_failed [of w env now mgr t command si e] by simp
qed

theorem sends_survive_delivery_failure_witness:
  "sendMessage env_down alice 1704067260000 (Some (JStr ''b2'')) ''hello'' Message registry_world =
     (Inr ''Message saved for agent b2, but failed to send to tmux: no server running'',
      registry_world\<lparr>uuids_drawn := 2,
        messagesDir := Some [(''uuid-1.json'', File 1704067260000 (Some (JObj
          [(''id'', JStr ''uuid-1''), (''from'', JStr ''a1''), (''to'', JStr ''b2''),
           (''type'', JStr ''message''), (''content'', JStr ''hello''),
           (''timestamp'', JStr ''2024-01-01T00:01:00.000Z'')])))],
        tmux_log := [sendKeys_cmd ''work:0'' ''hello'' False]\<rparr>)
   \<and> fst (sendMessage env_enter_down alice 1704067260000 (Some (JStr ''b2'')) ''hello'' Message
          registry_world) =
       Inr ''Message saved for agent b2, but failed to send to tmux: enter failed''
   \<and> fst (sendMessage sample_env alice 1704067260000 (Some (JStr ''b2'')) ''hello'' Message
          registry_world) =
       Inr ''Message sent to agent b2 in tmux session work: hello''
   \<and> fst (sendMessage env_down alice 1704067260000 (Some (JStr ''b2'')) ''hello'' Message
          (registry_world\<lparr>messagesDir := None\<rparr>)) = Inl ENOENT
   \<and> fst (sendCommandToAgent env_down alice 1704067260000 ''b2'' ''ls''
          (Some \<lparr>session = ''work'', window = None, pane = None\<rparr>) registry_world) =
       Inr ''Command queued for agent b2, but failed to execute in tmux: no server running''
   \<and> fst (sendCommandToAgent env_enter_down alice 1704067260000 ''b2'' ''ls'' None registry_world) =
       Inr ''Command queued for agent b2, but failed to send to tmux: enter failed''
   \<and> fst (sendCommandToAgent sample_env alice 1704067260000 ''b2'' ''ls'' None registry_world) =
       Inr ''Command sent to agent b2 in tmux session work: ls''
   \<and> fst (sendMessage env_down alice 1704067260000 (Some (JStr ''b2'')) ''ls'' Command
          registry_world) =
       Inr ''Message sent to agent b2: ls''
   \<and> fst (sendCommandToAgent env_down alice 1704067260000 ''b2'' ''ls'' None
          (registry_world\<lparr>messagesDir := None\<rparr>)) = Inl ENOENT"
  using sends_survive_delivery_failure [where w = registry_world and env = env_down
      and mgr = alice and now = 1704067260000 and t = "''b2''" and type = Message
      and content = "''hello''" and s = "''work''"
      and command = "''ls''"
      and si = "Some \<lparr>session = ''work'', window = None, pane = None\<rparr>"
      and info = "\<lparr>session = ''work'', window = None, pane = None\<rparr>"
      and d = "Some [(''uuid-1.json'', File 1704067260000 (Some (JObj
          [(''id'', JStr ''uuid-1''), (''from'', JStr ''a1''), (''to'', JStr ''b2''),
           (''type'', JStr ''message''), (''content'', JStr ''hello''),
           (''timestamp'', JStr ''2024-01-01T00:01:00.000Z'')])))]"]
    sends_survive_delivery_failure [where w = registry_world and env = env_enter_down
      and mgr = alice and now = 1704067260000 and t = "''b2''" and type = Message
      and content = "''hello''" and s = "''work''"
      and command = "''ls''" and si = None
      and d = "Some [(''uuid-1.json'', File 1704067260000 (Some (JObj
          [(''id'', JStr ''uuid-1''), (''from'', JStr ''a1''), (''to'', JStr ''b2''),
           (''type'', JStr ''message''), (''content'', JStr ''hello''),
           (''timestamp'', JStr ''2024-01-01T00:01:00.000Z'')])))]"]
    sends_survive_delivery_failure [where w = registry_world and env = sample_env
      and mgr = alice and now = 1704067260000 and t = "''b2''" and type = Message
      and content = "''hello''" and s = "''work''"
      and command = "''ls''" and si = None
      and d = "Some [(''uuid-1.json'', File 1704067260000 (Some (JObj
          [(''id'', JStr ''uuid-1''), (''from'', JStr ''a1''), (''to'', JStr ''b2''),
           (''type'', JStr ''message''), (''content'', JStr ''hello''),
           (''timestamp'', JStr ''2024-01-01T00:01:00.000Z'')])))]"]
    sends_survive_delivery_failure [where w = "registry_world\<lparr>messagesDir := None\<rparr>"
      and env = env_down and mgr = alice and now = 1704067260000 and t = "''b2''"
      and type = Message and content = "''hello''" and command = "''ls''" and si = None
      and e = ENOENT]
    sends_survive_delivery_failure [where w = registry_world and env = env_down
      and mgr = alice and now = 1704067260000 and t = "''b2''" and type = Command
      and content = "''ls''" and command = "''ls''" and si = None
      and d = "Some [(''uuid-1.json'', File 1704067260000 (Some (JObj
          [(''id'', JStr ''uuid-1''), (''from'', JStr ''a1''), (''to'', JStr ''b2''),
           (''type'', JStr ''command''), (''content'', JStr ''ls''),
           (''timestamp'', JStr ''2024-01-01T00:01:00.000Z'')])))]"]
  by (simp add: registry_world_def stale_agent_def env_down_def env_enter_down_def sample_env_def
      sample_iso_def alice_def writeFile_def message_record_def command_record_def sendMessage_def
      sendCommandToAgent_def obj_def List.map_filter_simps getAgentInfo_def readFile_def
      JSON_parse_def bindE_def session_of_def deliver_def sendKeys_def sessionInfo_target_def
      sessionInfo_json_def string_of_nat_1 numeral_2_eq_2)

section \<open>Commands: where the text is delivered\<close>

text \<open>
  C9.  For a \<^verbatim>\<open>sendCommandToAgent\<close> call whose record is written: when
  \<^verbatim>\<open>sessionInfo\<close> is given, the text goes to \<^verbatim>\<open>sessionInfo.pane\<close> if that is a
  non-empty string, else to \<^verbatim>\<open>session:window\<close>, with \<^verbatim>\<open>0\<close> for an absent or empty
  window, and the outcome is the same whatever the registry holds; when
  \<^verbatim>\<open>sessionInfo\<close> is absent, the text goes to window 0 of the session registered for
  the target, and nothing is sent when no session is registered.
\<close>

theorem sendCommandToAgent_target_precedence:
  assumes "writeFile (messagesDir w) (randomUUID env (uuids_drawn w) @ ''.json'') now
             (command_record env mgr now (randomUUID env (uuids_drawn w)) t command si) = Inr d"
  shows "(si = Some info \<longrightarrow>
           (\<exists>target.
              tmux_log (snd (sendCommandToAgent env mgr now t command si w)) =
                tmux_log w @ sendKeys_cmd target command False #
                  (if execAsync env (length (tmux_log w)) (sendKeys_cmd target command False) = None
                   then [sendKeys_cmd target [] True] else []) \<and>
              (\<forall>p. pane info = Some p \<and> p \<noteq> [] \<longrightarrow> target = p) \<and>
              (\<forall>wd. (pane info = None \<or> pane info = Some []) \<and> window info = Some wd \<and> wd \<noteq> []
                 \<longrightarrow> target = session info @ '':'' @ wd) \<and>
              ((pane info = None \<or> pane info = Some []) \<and>
               (window info = None \<or> window info = Some [])
                 \<longrightarrow> target = session info @ '':0'')) \<and>
           (\<forall>regs'. sendCommandToAgent env mgr now t command si (w\<lparr>agentsDir := regs'\<rparr>) =
                    (fst (sendCommandToAgent env mgr now t command si w),
                     (snd (sendCommandToAgent env mgr now t command si w))\<lparr>agentsDir := regs'\<rparr>)))
       \<and> (si = None \<and> agentsDir w = Some regs \<and>
          map_of regs (t @ ''.json'') = Some (File mt (Some (JObj kvs))) \<and>
          map_of kvs ''session'' = Some (JStr s) \<and> s \<noteq> [] \<longrightarrow>
            tmux_log (snd (sendCommandToAgent env mgr now t command si w)) =
              tmux_log w @ sendKeys_cmd (s @ '':0'') command False #
                (if execAsync env (length (tmux_log w)) (sendKeys_cmd (s @ '':0'') command False) = None
                 then [sendKeys_cmd (s @ '':0'') [] True] else []))
       \<and> (si = None \<and> \<not> truthy (session_of (getAgentInfo (Some (JStr t)) w)) \<longrightarrow>
            tmux_log (snd (sendCommandToAgent env mgr now t command si w)) = tmux_log w)"
proof (intro conjI impI)
  assume si: "si = Some info"
  have log: "tmux_log (snd (sendCommandToAgent env mgr now t command si w)) =
      tmux_log w @ delivery_log env (sessionInfo_target info) command w"
    using sendCommandToAgent_persisted [OF assms] si by (auto simp: command_target_def)
  show "\<exists>target.
              tmux_log (snd (sendCommandToAgent env mgr now t command si w)) =
                tmux_log w @ sendKeys_cmd target command False #
                  (if execAsync env (length (tmux_log w)) (sendKeys_cmd target command False) = None
                   then [sendKeys_cmd target [] True] else []) \<and>
              (\<forall>p. pane info = Some p \<and> p \<noteq> [] \<longrightarrow> target = p) \<and>
              (\<forall>wd. (pane info = None \<or> pane info = Some []) \<and> window info = Some wd \<and> wd \<noteq> []
                 \<longrightarrow> target = session info @ '':'' @ wd) \<and>
              ((pane info = None \<or> pane info = Some []) \<and>
               (window info = None \<or> window info = Some [])
                 \<longrightarrow> target = session info @ '':0'')"
    using log
    by (intro exI [of _ "sessionInfo_target info"])
       (auto simp: delivery_log_def sessionInfo_target_def)
  show "\<forall>regs'. sendCommandToAgent env mgr now t command si (w\<lparr>agentsDir := regs'\<rparr>) =
                    (fst (sendCommandToAgent env mgr now t command si w),
                     (snd (sendCommandToAgent env mgr now t command si w))\<lparr>agentsDir := regs'\<rparr>)"
    using si
    by (simp add: sendCommandToAgent_def Let_def deliver_def sendKeys_def
        split: sum.splits option.splits)
next
  assume a: "si = None \<and> agentsDir w = Some regs \<and>
          map_of regs (t @ ''.json'') = Some (File mt (Some (JObj kvs))) \<and>
          map_of kvs ''session'' = Some (JStr s) \<and> s \<noteq> []"
  then have "session_of (getAgentInfo (Some (JStr t)) w) = Some (JStr s)"
    using registered_session by blast
  with a have "command_target t si w = Some (Inr (s @ '':0''))"
    by (simp add: command_target_def bindE_def)
  with sendCommandToAgent_persisted [OF assms]
  show "tmux_log (snd (sendCommandToAgent env mgr now t command si w)) =
              tmux_log w @ sendKeys_cmd (s @ '':0'') command False #
                (if execAsync env (length (tmux_log w)) (sendKeys_cmd (s @ '':0'') command False) = None
                 then [sendKeys_cmd (s @ '':0'') [] True] else [])"
    by (auto simp: delivery_log_def)
next
  assume "si = None \<and> \<not> truthy (session_of (getAgentInfo (Some (JStr t)) w))"
  then have "command_target t si w = None"
    by (simp add: command_target_def)
  with sendCommandToAgent_persisted [OF assms]
  show "tmux_log (snd (sendCommandToAgent env mgr now t command si w)) = tmux_log w"
    by auto
qed

theorem sendCommandToAgent_target_precedence_witness:
  "tmux_log (snd (sendCommandToAgent sample_env alice 1704067260000 ''b2'' ''ls''
      (Some \<lparr>session = ''other'', window = Some ''2'', pane = None\<rparr>) registry_world)) =
     [sendKeys_cmd ''other:2'' ''ls'' False, sendKeys_cmd ''other:2'' [] True]
   \<and> tmux_log (snd (sendCommandToAgent sample_env alice 1704067260000 ''b2'' ''ls''
      (Some \<lparr>session = ''other'', window = Some ''2'', pane = Some ''%3''\<rparr>) registry_world)) =
     [sendKeys_cmd ''%3'' ''ls'' False, sendKeys_cmd ''%3'' [] True]
   \<and> tmux_log (snd (sendCommandToAgent sample_env alice 1704067260000 ''b2'' ''ls'' None
      registry_world)) =
     [sendKeys_cmd ''work:0'' ''ls'' False, sendKeys_cmd ''work:0'' [] True]"
proof -
  have u: "randomUUID sample_env (uuids_drawn registry_world) = ''uuid-1''"
    by (simp add: sample_env_def registry_world_def string_of_nat_1)
  have m: "messagesDir registry_world = Some []" and l: "tmux_log registry_world = []"
    and a: "agentsDir registry_world =
              Some [(''b2.json'', File 1704067200000 (Some (JObj stale_agent)))]"
    by (simp_all add: registry_world_def)
  have ok: "execAsync sample_env n c = None" for n c
    by (simp add: sample_env_def)
  have w: "writeFile (messagesDir registry_world)
             (randomUUID sample_env (uuids_drawn registry_world) @ ''.json'') 1704067260000
             (command_record sample_env alice 1704067260000
                (randomUUID sample_env (uuids_drawn registry_world)) ''b2'' ''ls'' si) =
           Inr (Some [(''uuid-1.json'', File 1704067260000
                  (Some (command_record sample_env alice 1704067260000 ''uuid-1'' ''b2'' ''ls'' si)))])"
    for si
    by (simp add: u m writeFile_def)
  from sendCommandToAgent_target_precedence [OF w,
      where si = "Some \<lparr>session = ''other'', window = Some ''2'', pane = None\<rparr>"
        and info = "\<lparr>session = ''other'', window = Some ''2'', pane = None\<rparr>"]
  have 1: "tmux_log (snd (sendCommandToAgent sample_env alice 1704067260000 ''b2'' ''ls''
      (Some \<lparr>session = ''other'', window = Some ''2'', pane = None\<rparr>) registry_world)) =
     [sendKeys_cmd ''other:2'' ''ls'' False, sendKeys_cmd ''other:2'' [] True]"
    by (auto simp: l ok)
  from sendCommandToAgent_target_precedence [OF w,
      where si = "Some \<lparr>session = ''other'', window = Some ''2'', pane = Some ''%3''\<rparr>"
        and info = "\<lparr>session = ''other'', window = Some ''2'', pane = Some ''%3''\<rparr>"]
  have 2: "tmux_log (snd (sendCommandToAgent sample_env alice 1704067260000 ''b2'' ''ls''
      (Some \<lparr>session = ''other'', window = Some ''2'', pane = Some ''%3''\<rparr>) registry_world)) =
     [sendKeys_cmd ''%3'' ''ls'' False, sendKeys_cmd ''%3'' [] True]"
    by (auto simp: l ok)
  from sendCommandToAgent_target_precedence [OF w, where si = None
        and regs = "[(''b2.json'', File 1704067200000 (Some (JObj stale_agent)))]"
        and mt = 1704067200000 and kvs = stale_agent and s = "''work''"]
  have 3: "tmux_log (snd (sendCommandToAgent sample_env alice 1704067260000 ''b2'' ''ls'' None
      registry_world)) =
     [sendKeys_cmd ''work:0'' ''ls'' False, sendKeys_cmd ''work:0'' [] True]"
    by (simp add: l ok a stale_agent_def)
  from 1 2 3 show ?thesis by simp
qed

section \<open>Message queue: processing commands\<close>

lemma drawn_files_Suc:
  "drawn_files env k (Suc n) = (randomUUID env k @ ''.json'') # drawn_files env (Suc k) n"
  by (simp add: drawn_files_def upt_rec)

lemma update_fresh: "k \<notin> fst ` set es \<Longrightarrow> AList.update k v es = es @ [(k, v)]"
  by (induction es) auto

lemma map_of_fresh: "k \<notin> fst ` set es \<Longrightarrow> map_of es k = None"
  by (simp add: map_of_eq_None_iff)

lemma writeFile_fresh:
  "k \<notin> fst ` set es \<Longrightarrow>
   writeFile (Some es) k now v = Inr (Some (es @ [(k, File now (Some v))]))"
  by (simp add: writeFile_def map_of_fresh update_fresh)

lemma delete_as_filter: "AList.delete k es = filter (\<lambda>e. fst e \<noteq> k) es"
  by (induction es) auto

lemma map_of_filter_key:
  "map_of (filter (\<lambda>e. Q (fst e)) es) x = (if Q x then map_of es x else None)"
  by (induction es) auto

lemma unlink_as_filter:
  assumes "\<not> is_SubDir (map_of es k)"
  shows "(case unlink (Some es) k of Inr d \<Rightarrow> d | Inl e \<Rightarrow> Some es) =
           Some (filter (\<lambda>e. fst e \<noteq> k) es)"
proof (cases "map_of es k")
  case None
  then have "k \<notin> fst ` set es" by (simp add: map_of_eq_None_iff)
  then have "filter (\<lambda>e. fst e \<noteq> k) es = es" by (auto simp: filter_id_conv)
  with None show ?thesis by (simp add: unlink_def)
next
  case (Some n)
  with assms obtain t c where "n = File t c" by (cases n) auto
  with Some show ?thesis by (simp add: unlink_def delete_as_filter)
qed

lemma deleteMessage_as_filter:
  assumes "messagesDir w = Some es" and "template mid = Inr i"
    and "\<not> is_SubDir (map_of es (i @ ''.json''))"
  shows "deleteMessage mid w =
           w\<lparr>messagesDir := Some (filter (\<lambda>e. fst e \<noteq> i @ ''.json'') es)\<rparr>"
proof -
  have "(case unlink (Some es) (i @ ''.json'') of Inr d \<Rightarrow> d | Inl e \<Rightarrow> Some es) =
           Some (filter (\<lambda>e. fst e \<noteq> i @ ''.json'') es)"
    using assms(3) by (rule unlink_as_filter)
  then show ?thesis
    using assms(1,2)
    by (cases "unlink (Some es) (i @ ''.json'')") (auto simp: deleteMessage_def bindE_def)
qed

lemma to_me_object: "to_me mgr m \<Longrightarrow> \<exists>kvs. m = JObj kvs"
  by (cases m) (auto simp: to_me_def split: if_splits)

lemma splices_get:
  assumes "splices m k"
  shows "get m k = Inr (field_of m k)" and "template (field_of m k) = Inr (spliced m k)"
  using assms
  by (auto simp: splices_def spliced_def field_of_def bindE_def split: sum.splits)

lemma sendMessage_persisted_any:
  assumes "writeFile (messagesDir w) (randomUUID env (uuids_drawn w) @ ''.json'') now
             (obj [(''id'', Some (JStr (randomUUID env (uuids_drawn w)))),
                   (''from'', Some (JStr (agentId mgr))), (''to'', target),
                   (''type'', Some (JStr (type_name type))), (''content'', Some (JStr content)),
                   (''timestamp'', Some (JStr (toISOString env now)))]) = Inr d"
    and "template target = Inr ts"
  shows "\<exists>s l. sendMessage env mgr now target content type w =
           (Inr s, w\<lparr>uuids_drawn := Suc (uuids_drawn w), messagesDir := d,
                     tmux_log := tmux_log w @ l\<rparr>)"
proof -
  let ?w1 = "w\<lparr>uuids_drawn := Suc (uuids_drawn w), messagesDir := d\<rparr>"
  have nolog: "?w1 = ?w1\<lparr>tmux_log := tmux_log w @ []\<rparr>" by simp
  show ?thesis
    using assms
    apply (simp add: sendMessage_def Let_def deliver_eq bindE_def
        split: sum.splits prod.splits)
    apply (intro conjI impI allI)
    apply (auto intro: exI [of _ "[]"])
    done
qed

lemma not_SubDir_append:
  "\<not> is_SubDir (map_of es x) \<Longrightarrow> \<not> is_SubDir (map_of (es @ [(k, File t c)]) x)"
  by (induction es) auto

lemma process_command_step:
  assumes dir: "messagesDir w = Some cur"
    and wf: "splices m ''id''" "splices m ''from''" "splices m ''content''"
    and fresh: "randomUUID env (uuids_drawn w) @ ''.json'' \<notin> fst ` set cur"
    and nosub: "\<not> is_SubDir (map_of cur (spliced m ''id'' @ ''.json''))"
    and other: "spliced m ''id'' @ ''.json'' \<noteq> randomUUID env (uuids_drawn w) @ ''.json''"
  shows "\<exists>w'. process_command env mgr now m results w = (results @ [processed_line m], w') \<and>
           messagesDir w' =
             Some (filter (\<lambda>e. fst e \<noteq> spliced m ''id'' @ ''.json'') cur @
                   [ack_entry env mgr now (randomUUID env (uuids_drawn w)) m]) \<and>
           uuids_drawn w' = Suc (uuids_drawn w) \<and> agentsDir w' = agentsDir w"
proof -
  let ?u = "randomUUID env (uuids_drawn w)"
  let ?i = "spliced m ''id''"
  let ?fr = "field_of m ''from''"
  let ?c = "spliced m ''content''"
  let ?rec = "obj [(''id'', Some (JStr ?u)), (''from'', Some (JStr (agentId mgr))), (''to'', ?fr),
                   (''type'', Some (JStr (type_name Message))),
                   (''content'', Some (JStr (''Command executed: '' @ ?c))),
                   (''timestamp'', Some (JStr (toISOString env now)))]"
  let ?cur1 = "cur @ [(?u @ ''.json'', File now (Some ?rec))]"
  have g: "get m ''id'' = Inr (field_of m ''id'')" "get m ''from'' = Inr ?fr"
    "get m ''content'' = Inr (field_of m ''content'')"
    using wf by (simp_all add: splices_get)
  have t: "template (field_of m ''id'') = Inr ?i" "template ?fr = Inr (spliced m ''from'')"
    "template (field_of m ''content'') = Inr ?c"
    using wf by (simp_all add: splices_get)
  have "writeFile (messagesDir w) (?u @ ''.json'') now ?rec = Inr (Some ?cur1)"
    using dir fresh by (simp add: writeFile_fresh)
  from sendMessage_persisted_any [OF this t(2)] obtain r l where
    sent: "sendMessage env mgr now ?fr (''Command executed: '' @ ?c) Message w =
             (Inr r, w\<lparr>uuids_drawn := Suc (uuids_drawn w), messagesDir := Some ?cur1,
                       tmux_log := tmux_log w @ l\<rparr>)"
    by blast
  let ?w1 = "w\<lparr>uuids_drawn := Suc (uuids_drawn w), messagesDir := Some ?cur1,
                       tmux_log := tmux_log w @ l\<rparr>"
  have "deleteMessage (field_of m ''id'') ?w1 =
          ?w1\<lparr>messagesDir := Some (filter (\<lambda>e. fst e \<noteq> ?i @ ''.json'') ?cur1)\<rparr>"
    using nosub t(1) by (intro deleteMessage_as_filter not_SubDir_append) simp_all
  moreover have "filter (\<lambda>e. fst e \<noteq> ?i @ ''.json'') ?cur1 =
      filter (\<lambda>e. fst e \<noteq> ?i @ ''.json'') cur @ [ack_entry env mgr now ?u m]"
    using other by (simp add: ack_entry_def)
  ultimately have del: "deleteMessage (field_of m ''id'') ?w1 =
      ?w1\<lparr>messagesDir := Some (filter (\<lambda>e. fst e \<noteq> ?i @ ''.json'') cur @
                                  [ack_entry env mgr now ?u m])\<rparr>"
    by simp
  have "process_command env mgr now m results w =
          (results @ [processed_line m], deleteMessage (field_of m ''id'') ?w1)"
    using sent by (simp add: process_command_def g t bindE_def processed_line_def Let_def)
  with del show ?thesis by simp
qed

lemma processIncomingCommands_loop_eq:
  assumes "messagesDir w = Some cur"
    and "\<forall>m \<in> set ms. \<exists>kvs. m = JObj kvs"
    and "\<forall>m \<in> set ms. is_command m \<longrightarrow>
           splices m ''id'' \<and> splices m ''from'' \<and> splices m ''content'' \<and>
           \<not> is_SubDir (map_of cur (spliced m ''id'' @ ''.json'')) \<and>
           spliced m ''id'' @ ''.json'' \<notin>
             set (drawn_files env (uuids_drawn w) (length (filter is_command ms)))"
    and "distinct (drawn_files env (uuids_drawn w) (length (filter is_command ms)))"
    and "set (drawn_files env (uuids_drawn w) (length (filter is_command ms))) \<inter> fst ` set cur = {}"
  shows "\<exists>w'. processIncomingCommands_loop env mgr now ms results w =
                 (Inr (results @ map processed_line (filter is_command ms)), w') \<and>
           messagesDir w' =
             Some (filter (\<lambda>e. fst e \<notin> (\<lambda>m. spliced m ''id'' @ ''.json'') `
                                   set (filter is_command ms)) cur @
                   acks env mgr now (uuids_drawn w) (filter is_command ms)) \<and>
           uuids_drawn w' = uuids_drawn w + length (filter is_command ms) \<and>
           agentsDir w' = agentsDir w"
  using assms
proof (induction ms arbitrary: w cur results)
  case Nil
  then show ?case by simp
next
  case (Cons m ms)
  from Cons.prems(2) obtain kvs where m: "m = JObj kvs" by auto
  show ?case
  proof (cases "is_command m")
    case False
    then have ty: "map_of kvs ''type'' \<noteq> Some (JStr ''command'')"
      by (simp add: is_command_def m)
    have "\<exists>w'. processIncomingCommands_loop env mgr now ms results w =
                 (Inr (results @ map processed_line (filter is_command ms)), w') \<and>
           messagesDir w' =
             Some (filter (\<lambda>e. fst e \<notin> (\<lambda>m. spliced m ''id'' @ ''.json'') `
                                   set (filter is_command ms)) cur @
                   acks env mgr now (uuids_drawn w) (filter is_command ms)) \<and>
           uuids_drawn w' = uuids_drawn w + length (filter is_command ms) \<and>
           agentsDir w' = agentsDir w"
      using Cons.prems False by (intro Cons.IH) auto
    with False ty show ?thesis by (simp add: m)
  next
    case True
    let ?n = "length (filter is_command ms)"
    let ?u = "randomUUID env (uuids_drawn w)"
    let ?i = "spliced m ''id'' @ ''.json''"
    have df: "drawn_files env (uuids_drawn w) (length (filter is_command (m # ms))) =
                (?u @ ''.json'') # drawn_files env (Suc (uuids_drawn w)) ?n"
      using True by (simp add: drawn_files_Suc)
    have wfm: "splices m ''id''" "splices m ''from''" "splices m ''content''"
      "\<not> is_SubDir (map_of cur ?i)" "?i \<noteq> ?u @ ''.json''"
      using Cons.prems(3) True unfolding df by auto
    have fresh: "?u @ ''.json'' \<notin> fst ` set cur"
      using Cons.prems(5) unfolding df by auto
    from process_command_step [OF Cons.prems(1) wfm(1,2,3) fresh wfm(4,5), of mgr now results]
    obtain w1 where
      step: "process_command env mgr now m results w = (results @ [processed_line m], w1)"
      and d1: "messagesDir w1 = Some (filter (\<lambda>e. fst e \<noteq> ?i) cur @ [ack_entry env mgr now ?u m])"
      and u1: "uuids_drawn w1 = Suc (uuids_drawn w)" and a1: "agentsDir w1 = agentsDir w"
      by blast
    let ?cur1 = "filter (\<lambda>e. fst e \<noteq> ?i) cur @ [ack_entry env mgr now ?u m]"
    have names1: "fst ` set ?cur1 \<subseteq> insert (?u @ ''.json'') (fst ` set cur)"
      by (auto simp: ack_entry_def)
    have "\<exists>w'. processIncomingCommands_loop env mgr now ms (results @ [processed_line m]) w1 =
                 (Inr ((results @ [processed_line m]) @ map processed_line (filter is_command ms)), w') \<and>
           messagesDir w' =
             Some (filter (\<lambda>e. fst e \<notin> (\<lambda>m. spliced m ''id'' @ ''.json'') `
                                   set (filter is_command ms)) ?cur1 @
                   acks env mgr now (uuids_drawn w1) (filter is_command ms)) \<and>
           uuids_drawn w' = uuids_drawn w1 + length (filter is_command ms) \<and>
           agentsDir w' = agentsDir w1"
    proof (rule Cons.IH [OF d1])
      show "\<forall>m \<in> set ms. \<exists>kvs. m = JObj kvs" using Cons.prems(2) by simp
      show "distinct (drawn_files env (uuids_drawn w1) ?n)"
        using Cons.prems(4) unfolding df u1 by simp
      show "set (drawn_files env (uuids_drawn w1) ?n) \<inter> fst ` set ?cur1 = {}"
        using Cons.prems(4,5) names1 unfolding df u1 by auto
      show "\<forall>m' \<in> set ms. is_command m' \<longrightarrow>
           splices m' ''id'' \<and> splices m' ''from'' \<and> splices m' ''content'' \<and>
           \<not> is_SubDir (map_of ?cur1 (spliced m' ''id'' @ ''.json'')) \<and>
           spliced m' ''id'' @ ''.json'' \<notin> set (drawn_files env (uuids_drawn w1) ?n)"
      proof (intro ballI impI)
        fix m' assume m': "m' \<in> set ms" "is_command m'"
        with Cons.prems(3) have p: "splices m' ''id''" "splices m' ''from''"
          "splices m' ''content''"
          "\<not> is_SubDir (map_of cur (spliced m' ''id'' @ ''.json''))"
          "spliced m' ''id'' @ ''.json'' \<notin>
             set (drawn_files env (uuids_drawn w) (length (filter is_command (m # ms))))"
          by auto
        have "\<not> is_SubDir (map_of (filter (\<lambda>e. fst e \<noteq> ?i) cur) (spliced m' ''id'' @ ''.json''))"
          using p(4) by (simp add: map_of_filter_key [where Q = "\<lambda>x. x \<noteq> ?i"])
        then have "\<not> is_SubDir (map_of ?cur1 (spliced m' ''id'' @ ''.json''))"
          unfolding ack_entry_def by (rule not_SubDir_append)
        with p show "splices m' ''id'' \<and> splices m' ''from'' \<and> splices m' ''content'' \<and>
           \<not> is_SubDir (map_of ?cur1 (spliced m' ''id'' @ ''.json'')) \<and>
           spliced m' ''id'' @ ''.json'' \<notin> set (drawn_files env (uuids_drawn w1) ?n)"
          unfolding df u1 by simp
      qed
    qed
    then obtain w' where
      loop: "processIncomingCommands_loop env mgr now ms (results @ [processed_line m]) w1 =
                 (Inr ((results @ [processed_line m]) @ map processed_line (filter is_command ms)), w')"
      and d': "messagesDir w' =
             Some (filter (\<lambda>e. fst e \<notin> (\<lambda>m. spliced m ''id'' @ ''.json'') `
                                   set (filter is_command ms)) ?cur1 @
                   acks env mgr now (uuids_drawn w1) (filter is_command ms))"
      and u': "uuids_drawn w' = uuids_drawn w1 + length (filter is_command ms)"
      and a': "agentsDir w' = agentsDir w1"
      by blast
    have ackname: "?u @ ''.json'' \<notin> (\<lambda>m. spliced m ''id'' @ ''.json'') ` set (filter is_command ms)"
      using Cons.prems(3) unfolding df by auto
    have flt: "filter (\<lambda>e. fst e \<notin> (\<lambda>m. spliced m ''id'' @ ''.json'') `
                                   set (filter is_command ms)) ?cur1 =
               filter (\<lambda>e. fst e \<notin> (\<lambda>m. spliced m ''id'' @ ''.json'') `
                                   set (filter is_command (m # ms))) cur @
               [ack_entry env mgr now ?u m]"
      using True ackname by (auto simp: ack_entry_def intro: filter_cong)
    have call: "processIncomingCommands_loop env mgr now (m # ms) results w =
                  processIncomingCommands_loop env mgr now ms (results @ [processed_line m]) w1"
      using True step by (simp add: m is_command_def)
    show ?thesis
      using True loop d' u' a' u1 a1 flt unfolding call by simp
  qed
qed

lemma parsed_records_iff:
  "v \<in> set (parsed_records es) \<longleftrightarrow>
     (\<exists>f mt. (f, File mt (Some v)) \<in> set es \<and> endsWith f ''.json'')"
  by (induction es rule: parsed_records.induct) auto

lemma count_commands:
  "length (filter is_command (filter (to_me mgr) (parsed_records es))) =
   length (filter (command_entry mgr) es)"
  by (induction es rule: parsed_records.induct) auto

lemma same_name_same_entry:
  "distinct (map fst es) \<Longrightarrow> (f, n) \<in> set es \<Longrightarrow> e \<in> set es \<Longrightarrow> fst e = f \<Longrightarrow> e = (f, n)"
  by (metis eq_key_imp_eq_value prod.collapse)

lemma length_acks: "length (acks env mgr now k ms) = length ms"
  by (induction ms arbitrary: k) auto

lemma command_entryD:
  "command_entry mgr e \<Longrightarrow>
   \<exists>f mt v. e = (f, File mt (Some v)) \<and> endsWith f ''.json'' \<and> to_me mgr v \<and> is_command v"
  by (cases "(mgr, e)" rule: command_entry.cases) auto

text \<open>
  C1, as the code has it.  Take a message directory with distinct file names in which
  the comparator can read every record addressed to the caller
  (\<^verbatim>\<open>new Date(m.timestamp)\<close> throws on none of them) and every incoming command
  lies in the file named after its \<^verbatim>\<open>id\<close>, its \<^verbatim>\<open>id\<close>, \<^verbatim>\<open>from\<close> and
  \<^verbatim>\<open>content\<close> being values that can be spliced into a string without an exception;
  and let the identifiers drawn during the call be fresh.  Then \<^verbatim>\<open>processIncomingCommands\<close> returns, for the incoming commands in
  the order of \<^verbatim>\<open>getIncomingMessages\<close>, the lines
  \<^verbatim>\<open>Processed command from <from>: <content>\<close>; the directory afterwards is the old
  one without the incoming command entries, every other entry unchanged and in place,
  followed by one new acknowledgement per command, whose \<^verbatim>\<open>to\<close> is the
  \<^verbatim>\<open>from\<close> of the command.  The acknowledgement is a record of type \<^verbatim>\<open>message\<close>: it is sent with
  \<^verbatim>\<open>sendMessage(message.from, \<dots>, 'message')\<close>.
\<close>

theorem processIncomingCommands_acknowledges:
  assumes "messagesDir w = Some es" and "distinct (map fst es)"
    and "\<forall>m \<in> set (filter (to_me mgr) (parsed_records es)). readable_timestamp env m"
    and "\<forall>e \<in> set es. stored_under_id mgr e"
    and "distinct (drawn_files env (uuids_drawn w) (length (filter (command_entry mgr) es)))"
    and "set (drawn_files env (uuids_drawn w) (length (filter (command_entry mgr) es))) \<inter>
           fst ` set es = {}"
  shows "\<exists>w'. processIncomingCommands env mgr now w =
                 (Inr (map processed_line (filter is_command (getIncomingMessages env mgr w))), w') \<and>
           messagesDir w' =
             Some (filter (\<lambda>e. \<not> command_entry mgr e) es @
                   acks env mgr now (uuids_drawn w)
                     (filter is_command (getIncomingMessages env mgr w))) \<and>
           length (acks env mgr now (uuids_drawn w)
                     (filter is_command (getIncomingMessages env mgr w))) =
             length (filter (command_entry mgr) es) \<and>
           agentsDir w' = agentsDir w"
proof -
  let ?inc = "filter (to_me mgr) (parsed_records es)"
  let ?ms = "getIncomingMessages env mgr w"
  let ?cmds = "filter is_command ?ms"
  let ?name = "\<lambda>m. spliced m ''id'' @ ''.json''"
  have perm: "mset ?ms = mset ?inc"
    using assms(1,2,3) by (rule getIncomingMessages_perm)
  then have setms: "set ?ms = set ?inc" by (rule mset_eq_setD)
  have "mset ?cmds = mset (filter is_command ?inc)"
    unfolding mset_filter [of is_command] perm ..
  then have "length ?cmds = length (filter is_command ?inc)" by (rule mset_eq_length)
  then have n: "length ?cmds = length (filter (command_entry mgr) es)"
    by (simp only: count_commands)
  have entry: "\<exists>f mt. (f, File mt (Some m)) \<in> set es \<and> endsWith f ''.json'' \<and>
                 splices m ''id'' \<and> splices m ''from'' \<and> splices m ''content'' \<and>
                 f = ?name m"
    if "m \<in> set ?ms" "is_command m" for m
  proof -
    from that(1) setms have tm: "to_me mgr m" and "m \<in> set (parsed_records es)" by auto
    then obtain f mt where f: "(f, File mt (Some m)) \<in> set es" "endsWith f ''.json''"
      by (auto simp: parsed_records_iff)
    from assms(4) f(1) have "stored_under_id mgr (f, File mt (Some m))" by blast
    with f tm that(2) show ?thesis by auto
  qed
  have "\<exists>w'. processIncomingCommands_loop env mgr now ?ms [] w =
                 (Inr ([] @ map processed_line ?cmds), w') \<and>
           messagesDir w' =
             Some (filter (\<lambda>e. fst e \<notin> ?name ` set ?cmds) es @
                   acks env mgr now (uuids_drawn w) ?cmds) \<and>
           uuids_drawn w' = uuids_drawn w + length ?cmds \<and>
           agentsDir w' = agentsDir w"
  proof (rule processIncomingCommands_loop_eq [OF assms(1)])
    show "\<forall>m \<in> set ?ms. \<exists>kvs. m = JObj kvs"
      using setms to_me_object by auto
    show "distinct (drawn_files env (uuids_drawn w) (length ?cmds))"
      using assms(5) by (simp only: n)
    show "set (drawn_files env (uuids_drawn w) (length ?cmds)) \<inter> fst ` set es = {}"
      using assms(6) by (simp only: n)
    show "\<forall>m \<in> set ?ms. is_command m \<longrightarrow>
           splices m ''id'' \<and> splices m ''from'' \<and> splices m ''content'' \<and>
           \<not> is_SubDir (map_of es (?name m)) \<and>
           ?name m \<notin> set (drawn_files env (uuids_drawn w) (length ?cmds))"
    proof (intro ballI impI)
      fix m assume "m \<in> set ?ms" "is_command m"
      from entry [OF this] obtain f mt where
        f: "(f, File mt (Some m)) \<in> set es" "splices m ''id''" "splices m ''from''"
          "splices m ''content''" "f = ?name m"
        by blast
      from f(1) assms(2) have "map_of es f = Some (File mt (Some m))" by simp
      moreover from f(1) have "f \<in> fst ` set es" by force
      ultimately show "splices m ''id'' \<and> splices m ''from'' \<and> splices m ''content'' \<and>
           \<not> is_SubDir (map_of es (?name m)) \<and>
           ?name m \<notin> set (drawn_files env (uuids_drawn w) (length ?cmds))"
        using f assms(6) unfolding n by auto
    qed
  qed
  then obtain w' where
    run: "processIncomingCommands env mgr now w = (Inr (map processed_line ?cmds), w')"
    and d': "messagesDir w' =
             Some (filter (\<lambda>e. fst e \<notin> ?name ` set ?cmds) es @
                   acks env mgr now (uuids_drawn w) ?cmds)"
    and a': "agentsDir w' = agentsDir w"
    by (auto simp: processIncomingCommands_def)
  have "filter (\<lambda>e. fst e \<notin> ?name ` set ?cmds) es = filter (\<lambda>e. \<not> command_entry mgr e) es"
  proof (rule filter_cong [OF refl])
    fix e assume e: "e \<in> set es"
    show "(fst e \<notin> ?name ` set ?cmds) = (\<not> command_entry mgr e)"
    proof (cases "command_entry mgr e")
      case True
      then obtain f mt v where ev: "e = (f, File mt (Some v))" "endsWith f ''.json''"
        "to_me mgr v" "is_command v"
        using command_entryD by blast
      with e have "v \<in> set (parsed_records es)" by (auto simp: parsed_records_iff)
      with ev setms have "v \<in> set ?cmds" by simp
      moreover from assms(4) e ev have "f = ?name v" by auto
      ultimately show ?thesis using True ev by auto
    next
      case False
      have "fst e \<notin> ?name ` set ?cmds"
      proof
        assume "fst e \<in> ?name ` set ?cmds"
        then obtain m where m: "m \<in> set ?ms" "is_command m" "fst e = ?name m" by auto
        from entry [OF m(1,2)] obtain f mt where
          f: "(f, File mt (Some m)) \<in> set es" "endsWith f ''.json''" "f = ?name m"
          by blast
        from same_name_same_entry [OF assms(2) f(1) e] m(3) f(3)
        have "e = (f, File mt (Some m))" by simp
        moreover from m(1) setms have "to_me mgr m" by simp
        ultimately have "command_entry mgr e" using f(2) m(2) by simp
        with False show False by simp
      qed
      with False show ?thesis by simp
    qed
  qed
  with run d' a' n show ?thesis by (simp add: length_acks)
qed


lemma alice_inbox_messages:
  "getIncomingMessages sample_env alice inbox_world =
     [JObj [(''id'', JStr ''m1''), (''from'', JStr ''b2''), (''to'', JStr ''a1''),
            (''type'', JStr ''command''), (''content'', JStr ''ls''),
            (''timestamp'', JStr ''2024-01-01T00:00:00.000Z'')],
      JObj [(''id'', JStr ''m2''), (''from'', JStr ''c3''), (''to'', JStr ''a1''),
            (''type'', JStr ''message''), (''content'', JStr ''second''),
            (''timestamp'', JStr ''2024-01-01T00:01:00.000Z'')],
      JObj [(''id'', JStr ''m3''), (''from'', JStr ''b2''), (''to'', JStr ''a1''),
            (''type'', JStr ''message''), (''content'', JStr ''third''),
            (''timestamp'', JStr ''2024-01-01T00:02:00.000Z'')]]"
  by (simp add: getIncomingMessages_def readdir_def readFile_def JSON_parse_def bindE_def
      inbox_world_def alice_inbox_def alice_def endsWith_def sort_by_timestamp_def
      timestamp_ms_def sample_env_def sample_parse_def Array_sort_def sort_with_def)

lemma alice_processes_inbox:
  "processIncomingCommands sample_env alice 1704070800000 inbox_world =
     (Inr [''Processed command from b2: ls''],
      inbox_world\<lparr>uuids_drawn := 2, messagesDir := Some
        [(''m3.json'', File 1704067320000 (Some (JObj
           [(''id'', JStr ''m3''), (''from'', JStr ''b2''), (''to'', JStr ''a1''),
            (''type'', JStr ''message''), (''content'', JStr ''third''),
            (''timestamp'', JStr ''2024-01-01T00:02:00.000Z'')]))),
         (''x9.json'', File 1704067200000 (Some (JObj
           [(''id'', JStr ''x9''), (''from'', JStr ''b2''), (''to'', JStr ''c3''),
            (''type'', JStr ''message''), (''content'', JStr ''elsewhere''),
            (''timestamp'', JStr ''2024-01-01T00:00:00.000Z'')]))),
         (''m2.json'', File 1704067260000 (Some (JObj
           [(''id'', JStr ''m2''), (''from'', JStr ''c3''), (''to'', JStr ''a1''),
            (''type'', JStr ''message''), (''content'', JStr ''second''),
            (''timestamp'', JStr ''2024-01-01T00:01:00.000Z'')]))),
         (''uuid-1.json'', File 1704070800000 (Some (JObj
           [(''id'', JStr ''uuid-1''), (''from'', JStr ''a1''), (''to'', JStr ''b2''),
            (''type'', JStr ''message''), (''content'', JStr ''Command executed: ls''),
            (''timestamp'', JStr ''2024-01-01T01:00:00.000Z'')])))]\<rparr>)"
  unfolding processIncomingCommands_def alice_inbox_messages
  by (simp add: process_command_def sendMessage_def Let_def bindE_def obj_def
      List.map_filter_simps inbox_world_def alice_inbox_def sample_env_def sample_iso_def
      alice_def writeFile_def getAgentInfo_def readFile_def JSON_parse_def session_of_def
      deleteMessage_def unlink_def string_of_nat_1 numeral_2_eq_2)

theorem processIncomingCommands_acknowledges_witness:
  "fst (processIncomingCommands sample_env alice 1704070800000 inbox_world) =
     Inr [''Processed command from b2: ls'']
   \<and> messagesDir (snd (processIncomingCommands sample_env alice 1704070800000 inbox_world)) =
      Some
        [(''m3.json'', File 1704067320000 (Some (JObj
           [(''id'', JStr ''m3''), (''from'', JStr ''b2''), (''to'', JStr ''a1''),
            (''type'', JStr ''message''), (''content'', JStr ''third''),
            (''timestamp'', JStr ''2024-01-01T00:02:00.000Z'')]))),
         (''x9.json'', File 1704067200000 (Some (JObj
           [(''id'', JStr ''x9''), (''from'', JStr ''b2''), (''to'', JStr ''c3''),
            (''type'', JStr ''message''), (''content'', JStr ''elsewhere''),
            (''timestamp'', JStr ''2024-01-01T00:00:00.000Z'')]))),
         (''m2.json'', File 1704067260000 (Some (JObj
           [(''id'', JStr ''m2''), (''from'', JStr ''c3''), (''to'', JStr ''a1''),
            (''type'', JStr ''message''), (''content'', JStr ''second''),
            (''timestamp'', JStr ''2024-01-01T00:01:00.000Z'')]))),
         (''uuid-1.json'', File 1704070800000 (Some (JObj
           [(''id'', JStr ''uuid-1''), (''from'', JStr ''a1''), (''to'', JStr ''b2''),
            (''type'', JStr ''message''), (''content'', JStr ''Command executed: ls''),
            (''timestamp'', JStr ''2024-01-01T01:00:00.000Z'')])))]"
proof -
  let ?m1 = "JObj [(''id'', JStr ''m1''), (''from'', JStr ''b2''), (''to'', JStr ''a1''),
            (''type'', JStr ''command''), (''content'', JStr ''ls''),
            (''timestamp'', JStr ''2024-01-01T00:00:00.000Z'')]"
  have d: "distinct (map fst alice_inbox)" by (simp add: alice_inbox_def)
  have m: "messagesDir inbox_world = Some alice_inbox" by (simp add: inbox_world_def)
  have v: "\<forall>m \<in> set (filter (to_me alice) (parsed_records alice_inbox)). readable_timestamp sample_env m"
    by (simp add: alice_inbox_def to_me_def alice_def endsWith_def readable_timestamp_def
        timestamp_ms_def bindE_def sample_env_def)
  have s: "\<forall>e \<in> set alice_inbox. stored_under_id alice e"
    by (simp add: alice_inbox_def to_me_def alice_def endsWith_def is_command_def splices_def
        spliced_def bindE_def)
  have c: "filter (command_entry alice) alice_inbox = [(''m1.json'', File 1704067200000 (Some ?m1))]"
    by (simp add: alice_inbox_def to_me_def alice_def endsWith_def is_command_def)
  have k: "drawn_files sample_env (uuids_drawn inbox_world) (Suc 0) = [''uuid-1.json'']"
    by (simp add: drawn_files_def inbox_world_def sample_env_def string_of_nat_1)
  have f1: "distinct (drawn_files sample_env (uuids_drawn inbox_world)
              (length (filter (command_entry alice) alice_inbox)))"
    by (simp add: c k)
  have f2: "set (drawn_files sample_env (uuids_drawn inbox_world)
              (length (filter (command_entry alice) alice_inbox))) \<inter> fst ` set alice_inbox = {}"
    by (simp add: c k) (simp add: alice_inbox_def)
  have inc: "filter is_command (getIncomingMessages sample_env alice inbox_world) = [?m1]"
    by (simp add: alice_inbox_messages is_command_def)
  from processIncomingCommands_acknowledges [OF m d v s f1 f2, of 1704070800000]
  obtain w' where
    r: "processIncomingCommands sample_env alice 1704070800000 inbox_world =
          (Inr (map processed_line [?m1]), w')"
    and md: "messagesDir w' = Some (filter (\<lambda>e. \<not> command_entry alice e) alice_inbox @
               acks sample_env alice 1704070800000 (uuids_drawn inbox_world) [?m1])"
    unfolding inc by blast
  have 1: "map processed_line [?m1] = [''Processed command from b2: ls'']"
    by (simp add: processed_line_def spliced_def bindE_def)
  show ?thesis
    unfolding r fst_conv snd_conv md 1
    by (simp add: alice_inbox_def to_me_def alice_def endsWith_def is_command_def ack_entry_def
        spliced_def field_of_def bindE_def obj_def List.map_filter_simps inbox_world_def
        sample_env_def sample_iso_def string_of_nat_1)
qed

text \<open>
  C1, as the claim has it, fails in four ways.  The acknowledgement has type
  \<^verbatim>\<open>message\<close>: after processing one command, the directory holds no record of type
  \<^verbatim>\<open>response\<close>.  The processed record is deleted by its \<^verbatim>\<open>id\<close>, not by the file
  it was read from: a command with identifier \<open>zzz\<close> stored in \<^verbatim>\<open>f1.json\<close> stays,
  and the record of two other agents in \<^verbatim>\<open>zzz.json\<close> is removed in its place.  And
  when an incoming record has a timestamp that is not a date, the listing of incoming
  records comes back empty and the command beside it is not processed at all.  And a
  command whose content cannot be spliced into the description is neither acknowledged
  nor deleted: the exception is caught and a failure line is returned in place of the
  description.
\<close>

theorem processIncomingCommands_response_type_counterexample:
  "filter (\<lambda>v. get v ''type'' = Inr (Some (JStr ''response'')))
     (parsed_records (the (messagesDir
        (snd (processIncomingCommands sample_env alice 1704070800000 inbox_world))))) = []
   \<and> map_of (the (messagesDir
        (snd (processIncomingCommands sample_env alice 1704070800000 inbox_world)))) ''uuid-1.json'' =
       Some (File 1704070800000 (Some (JObj
           [(''id'', JStr ''uuid-1''), (''from'', JStr ''a1''), (''to'', JStr ''b2''),
            (''type'', JStr ''message''), (''content'', JStr ''Command executed: ls''),
            (''timestamp'', JStr ''2024-01-01T01:00:00.000Z'')])))
   \<and> fst (processIncomingCommands sample_env alice 1704070800000 inbox_world) =
       Inr [''Processed command from b2: ls'']
   \<and> processIncomingCommands sample_env alice 1704070800000
         (inbox_world\<lparr>messagesDir := Some misfiled_inbox\<rparr>) =
       (Inr [''Processed command from b2: ls''],
        inbox_world\<lparr>uuids_drawn := 2, messagesDir := Some
          [(''f1.json'', File 1704067200000 (Some (JObj
             [(''id'', JStr ''zzz''), (''from'', JStr ''b2''), (''to'', JStr ''a1''),
              (''type'', JStr ''command''), (''content'', JStr ''ls''),
              (''timestamp'', JStr ''2024-01-01T00:00:00.000Z'')]))),
           (''uuid-1.json'', File 1704070800000 (Some (JObj
             [(''id'', JStr ''uuid-1''), (''from'', JStr ''a1''), (''to'', JStr ''b2''),
              (''type'', JStr ''message''), (''content'', JStr ''Command executed: ls''),
              (''timestamp'', JStr ''2024-01-01T01:00:00.000Z'')])))]\<rparr>)
   \<and> processIncomingCommands sample_env alice 1704070800000
         (inbox_world\<lparr>messagesDir := Some unsortable_inbox\<rparr>) =
       (Inr [], inbox_world\<lparr>messagesDir := Some unsortable_inbox\<rparr>)
   \<and> processIncomingCommands sample_env alice 1704070800000
         (inbox_world\<lparr>messagesDir := Some unprintable_inbox\<rparr>) =
       (Inr [''Failed to process command: '' @ message TypeError],
        inbox_world\<lparr>messagesDir := Some unprintable_inbox\<rparr>)"
proof -
  have 1: "getIncomingMessages sample_env alice (inbox_world\<lparr>messagesDir := Some misfiled_inbox\<rparr>) =
     [JObj [(''id'', JStr ''zzz''), (''from'', JStr ''b2''), (''to'', JStr ''a1''),
            (''type'', JStr ''command''), (''content'', JStr ''ls''),
            (''timestamp'', JStr ''2024-01-01T00:00:00.000Z'')]]"
    by (simp add: getIncomingMessages_def readdir_def readFile_def JSON_parse_def bindE_def
      inbox_world_def misfiled_inbox_def alice_def endsWith_def sort_by_timestamp_def)
  have 2: "getIncomingMessages sample_env alice (inbox_world\<lparr>messagesDir := Some unsortable_inbox\<rparr>) = []"
    by (simp add: getIncomingMessages_def readdir_def readFile_def JSON_parse_def bindE_def
      inbox_world_def unsortable_inbox_def alice_def endsWith_def sort_by_timestamp_def
      timestamp_ms_def sample_env_def)
  have 3: "processIncomingCommands sample_env alice 1704070800000
         (inbox_world\<lparr>messagesDir := Some misfiled_inbox\<rparr>) =
       (Inr [''Processed command from b2: ls''],
        inbox_world\<lparr>uuids_drawn := 2, messagesDir := Some
          [(''f1.json'', File 1704067200000 (Some (JObj
             [(''id'', JStr ''zzz''), (''from'', JStr ''b2''), (''to'', JStr ''a1''),
              (''type'', JStr ''command''), (''content'', JStr ''ls''),
              (''timestamp'', JStr ''2024-01-01T00:00:00.000Z'')]))),
           (''uuid-1.json'', File 1704070800000 (Some (JObj
             [(''id'', JStr ''uuid-1''), (''from'', JStr ''a1''), (''to'', JStr ''b2''),
              (''type'', JStr ''message''), (''content'', JStr ''Command executed: ls''),
              (''timestamp'', JStr ''2024-01-01T01:00:00.000Z'')])))]\<rparr>)"
    unfolding processIncomingCommands_def 1
    by (simp add: process_command_def sendMessage_def Let_def bindE_def obj_def
      List.map_filter_simps inbox_world_def misfiled_inbox_def sample_env_def sample_iso_def
      alice_def writeFile_def getAgentInfo_def readFile_def JSON_parse_def session_of_def
      deleteMessage_def unlink_def string_of_nat_1 numeral_2_eq_2)
  have 4: "processIncomingCommands sample_env alice 1704070800000
         (inbox_world\<lparr>messagesDir := Some unsortable_inbox\<rparr>) =
       (Inr [], inbox_world\<lparr>messagesDir := Some unsortable_inbox\<rparr>)"
    unfolding processIncomingCommands_def 2 by simp
  have 5: "getIncomingMessages sample_env alice (inbox_world\<lparr>messagesDir := Some unprintable_inbox\<rparr>) =
     [JObj [(''id'', JStr ''p4''), (''from'', JStr ''b2''), (''to'', JStr ''a1''),
            (''type'', JStr ''command''), (''content'', JObj [(''toString'', JNum 1)]),
            (''timestamp'', JStr ''2024-01-01T00:00:00.000Z'')]]"
    by (simp add: getIncomingMessages_def readdir_def readFile_def JSON_parse_def bindE_def
      inbox_world_def unprintable_inbox_def alice_def endsWith_def sort_by_timestamp_def)
  have 6: "processIncomingCommands sample_env alice 1704070800000
         (inbox_world\<lparr>messagesDir := Some unprintable_inbox\<rparr>) =
       (Inr [''Failed to process command: '' @ message TypeError],
        inbox_world\<lparr>messagesDir := Some unprintable_inbox\<rparr>)"
    unfolding processIncomingCommands_def 5
    by (simp add: process_command_def Let_def bindE_def)
  show ?thesis
    unfolding 3 4 6 unfolding alice_processes_inbox by (simp add: endsWith_def)
qed

end
